theory Spec2Isabelle
  imports Main "HOL-Library.Sublist" "HOL-Library.Char_ord" "HOL-Library.List_Lexorder"
begin

section \<open>Python strings and byte strings\<close>

text \<open>
  A Python \<open>str\<close> is modelled as a \<^typ>\<open>string\<close> and a \<open>bytes\<close> object as a list of
  \<^typ>\<open>char\<close>, one per byte. Case mapping, whitespace and title-casing are the ASCII
  part of \<open>str.lower\<close>, \<open>str.strip\<close>, \<open>str.split\<close> and \<open>str.title\<close>: every key,
  token and prefix the program itself writes is ASCII. Strings are compared as Python
  compares them, character by character with a proper prefix first
  (the order of \<open>HOL-Library.List_Lexorder\<close> over \<open>HOL-Library.Char_ord\<close>).
\<close>

type_synonym bytes = "char list"
type_synonym path = string

definition lower_char :: "char \<Rightarrow> char" where
  "lower_char c =
     (let n = (of_char c :: nat) in if 65 \<le> n \<and> n \<le> 90 then char_of (n + 32) else c)"

definition upper_char :: "char \<Rightarrow> char" where
  "upper_char c =
     (let n = (of_char c :: nat) in if 97 \<le> n \<and> n \<le> 122 then char_of (n - 32) else c)"

definition is_cased :: "char \<Rightarrow> bool" where
  "is_cased c =
     (let n = (of_char c :: nat) in (65 \<le> n \<and> n \<le> 90) \<or> (97 \<le> n \<and> n \<le> 122))"

definition is_space :: "char \<Rightarrow> bool" where
  "is_space c =
     (let n = (of_char c :: nat) in (9 \<le> n \<and> n \<le> 13) \<or> (28 \<le> n \<and> n \<le> 32))"

definition newline :: char where
  "newline = CHR 0x0A"

definition py_lower :: "string \<Rightarrow> string" where
  "py_lower s = map lower_char s"

fun title_from :: "bool \<Rightarrow> string \<Rightarrow> string" where
  "title_from previous_is_cased [] = []"
| "title_from previous_is_cased (c # cs) =
     (if previous_is_cased then lower_char c else upper_char c) # title_from (is_cased c) cs"

definition py_title :: "string \<Rightarrow> string" where
  "py_title s = title_from False s"

definition replace_char :: "char \<Rightarrow> char \<Rightarrow> string \<Rightarrow> string" where
  "replace_char old new s = map (\<lambda>c. if c = old then new else c) s"

definition startswith :: "'a list \<Rightarrow> 'a list \<Rightarrow> bool" where
  "startswith s p = prefix p s"

definition endswith :: "'a list \<Rightarrow> 'a list \<Rightarrow> bool" where
  "endswith s p = suffix p s"

definition py_in :: "'a list \<Rightarrow> 'a list \<Rightarrow> bool" where
  "py_in x s = sublist x s"

fun join :: "string \<Rightarrow> string list \<Rightarrow> string" where
  "join sep [] = []"
| "join sep [x] = x"
| "join sep (x # y # ys) = x @ sep @ join sep (y # ys)"

definition strip :: "string \<Rightarrow> string" where
  "strip s = rev (dropWhile is_space (rev (dropWhile is_space s)))"

definition strip_char :: "char \<Rightarrow> string \<Rightarrow> string" where
  "strip_char x s = rev (dropWhile (\<lambda>c. c = x) (rev (dropWhile (\<lambda>c. c = x) s)))"

fun split_once :: "string \<Rightarrow> string \<Rightarrow> string \<times> string" where
  "split_once sep [] = ([], [])"
| "split_once sep (c # cs) =
     (if prefix sep (c # cs) then ([], drop (length sep) (c # cs))
      else (case split_once sep cs of (key, val) \<Rightarrow> (c # key, val)))"

function py_split :: "string \<Rightarrow> string list" where
  "py_split s =
     (case dropWhile is_space s of
        [] \<Rightarrow> []
      | c # cs \<Rightarrow> (c # takeWhile (\<lambda>x. \<not> is_space x) cs)
                 # py_split (dropWhile (\<lambda>x. \<not> is_space x) cs))"
  by pat_completeness auto
termination
proof (relation "measure length")
  show "wf (measure length)" by simp
next
  fix s :: string and c cs
  assume "dropWhile is_space s = c # cs"
  then have "length cs < length s"
    by (metis length_dropWhile_le length_Cons Suc_le_lessD)
  moreover have "length (dropWhile (\<lambda>x. \<not> is_space x) cs) \<le> length cs"
    by (rule length_dropWhile_le)
  ultimately show "(dropWhile (\<lambda>x. \<not> is_space x) cs, s) \<in> measure length"
    by simp
qed

declare py_split.simps [simp del]

text \<open>The decimal digit \<open>d < 10\<close> and the lower-case hexadecimal digit \<open>d < 16\<close>.\<close>

definition digit_char :: "nat \<Rightarrow> char" where
  "digit_char d = ''0123456789'' ! d"

function str_nat :: "nat \<Rightarrow> string" where
  "str_nat n = (if n < 10 then [digit_char n] else str_nat (n div 10) @ [digit_char (n mod 10)])"
  by pat_completeness auto
termination
  by (relation "measure id") auto

declare str_nat.simps [simp del]

definition str_int :: "int \<Rightarrow> string" where
  "str_int i = (if i < 0 then CHR ''-'' # str_nat (nat (- i)) else str_nat (nat i))"

definition hex_digit :: "nat \<Rightarrow> char" where
  "hex_digit d = ''0123456789abcdef'' ! d"

definition hex2 :: "char \<Rightarrow> string" where
  "hex2 b = (let n = (of_char b :: nat) in [hex_digit (n div 16), hex_digit (n mod 16)])"

definition basename :: "path \<Rightarrow> string" where
  "basename p = rev (takeWhile (\<lambda>c. c \<noteq> CHR ''/'') (rev p))"

definition splitext :: "path \<Rightarrow> path \<times> string" where
  "splitext p =
     (let name = dropWhile (\<lambda>c. c = CHR ''.'') (basename p) in
      if CHR ''.'' \<in> set name
      then (let ext = CHR ''.'' # rev (takeWhile (\<lambda>c. c \<noteq> CHR ''.'') (rev name))
            in (take (length p - length ext) p, ext))
      else (p, []))"

section \<open>Python values, dictionaries and exceptions\<close>

text \<open>
  A float is carried by the text \<open>str()\<close> gives for it: the program only stores floats and
  prints them. The values of a metadata dictionary are the ones the normalizer
  distinguishes: a primitive, a list or tuple of primitives, a nested dictionary, or a
  \<open>bytes\<close> object.
\<close>

datatype pyfloat = PyFloat string

datatype prim = PStr string | PInt int | PBool bool | PNone | PFloat pyfloat

datatype nested = NLeaf prim | NDict "(string \<times> nested) list"

datatype pyval =
    VPrim prim
  | VSeq "prim list"
  | VDict "(string \<times> nested) list"
  | VBytes bytes

abbreviation VStr :: "string \<Rightarrow> pyval" where
  "VStr s \<equiv> VPrim (PStr s)"

abbreviation VInt :: "int \<Rightarrow> pyval" where
  "VInt i \<equiv> VPrim (PInt i)"

abbreviation VBool :: "bool \<Rightarrow> pyval" where
  "VBool b \<equiv> VPrim (PBool b)"

abbreviation VFloat :: "pyfloat \<Rightarrow> pyval" where
  "VFloat x \<equiv> VPrim (PFloat x)"

fun float_str :: "pyfloat \<Rightarrow> string" where
  "float_str (PyFloat s) = s"

fun str_prim :: "prim \<Rightarrow> string" where
  "str_prim (PStr s) = s"
| "str_prim (PInt i) = str_int i"
| "str_prim (PBool b) = (if b then ''True'' else ''False'')"
| "str_prim PNone = ''None''"
| "str_prim (PFloat x) = float_str x"

text \<open>
  A dictionary keeps its keys in insertion order: an association list with distinct keys.
  \<open>dict_set\<close> is \<open>d[k] = v\<close> (an existing key keeps its place), \<open>dict_update\<close> is
  \<open>d.update(e)\<close>, \<open>map_of\<close> is the lookup.
\<close>

type_synonym metadata = "(string \<times> pyval) list"

fun dict_set :: "(string \<times> 'v) list \<Rightarrow> string \<Rightarrow> 'v \<Rightarrow> (string \<times> 'v) list" where
  "dict_set [] k v = [(k, v)]"
| "dict_set ((k', v') # d) k v =
     (if k' = k then (k', v) # d else (k', v') # dict_set d k v)"

fun dict_update :: "(string \<times> 'v) list \<Rightarrow> (string \<times> 'v) list \<Rightarrow> (string \<times> 'v) list" where
  "dict_update d [] = d"
| "dict_update d ((k, v) # e) = dict_update (dict_set d k v) e"

text \<open>
  Exceptions are values: a function that can raise returns \<open>py_exn + 'a\<close>, with \<open>Inl\<close> the
  exception. Each exception carries the text of \<open>str(e)\<close>.
\<close>

datatype py_exn =
    FileNotFoundError string
  | OSError string
  | TimeoutExpired string
  | ZeroDivisionError
  | ValueError string
  | UnicodeEncodeError string
  | LibraryError string

fun exn_str :: "py_exn \<Rightarrow> string" where
  "exn_str (FileNotFoundError m) = m"
| "exn_str (OSError m) = m"
| "exn_str (TimeoutExpired m) = m"
| "exn_str ZeroDivisionError = ''division by zero''"
| "exn_str (ValueError m) = m"
| "exn_str (UnicodeEncodeError m) = m"
| "exn_str (LibraryError m) = m"

section \<open>The environment: file system and libraries\<close>

text \<open>
  What \<open>os.stat\<close> returns for a path, and what opening the file for reading gives: the
  bytes of the file, or the exception \<open>open\<close> raises. The content is a finite byte
  string, read to the end of the file: a device that never reaches the end of file, on
  which a read loop does not end, is not a file of this model.
\<close>

record fs_file =
  st_size :: nat
  st_ctime :: pyfloat
  st_mtime :: pyfloat
  st_atime :: pyfloat
  file_bytes :: "py_exn + bytes"

text \<open>The objects the third-party libraries hand to the program.\<close>

record hachoir_parser =
  exportPlaintext :: "py_exn + string list option"
  close_input :: "py_exn option"

record zipinfo =
  zip_filename :: string
  zip_file_size :: nat

record tarinfo =
  tarinfo_name :: string
  tarinfo_size :: nat

record pdf_reader =
  pages :: "(py_exn + string option) list"
  pdf_metadata :: "(string \<times> string) list option"
  is_encrypted :: bool

record docx_document =
  title :: "string option"
  author :: "string option"
  subject :: "string option"
  docx_keywords :: "string option"
  comments :: "string option"
  category :: "string option"
  created :: "string option"
  modified :: "string option"
  last_modified_by :: "string option"
  revision :: int
  paragraphs :: "string list"
  num_tables :: nat
  num_sections :: nat

text \<open>
  The run of a \<open>try\<close> block whose body is calls into a library: the assignments
  \<open>metadata[k] = v\<close> it made, in order, and the exception that ended it, if one did.
\<close>

record try_block =
  stored :: metadata
  raised :: "py_exn option"

text \<open>
  The environment of one run. \<open>fs\<close> is \<open>os.stat\<close>; \<open>round2_div a b\<close> is the float
  \<open>round(a / b, 2)\<close> and \<open>ratio_percent a b\<close> the float \<open>round((1 - a / b) * 100, 2)\<close>, for
  \<open>b\<close> not zero; \<open>md5_hexdigest\<close> and \<open>sha256_hexdigest\<close> are the digests of \<open>hashlib\<close>, as
  functions of all the bytes fed to the hash object; \<open>read_text\<close> decodes a file opened
  in text mode (UTF-8, errors ignored); \<open>stdout_print\<close> is \<open>print\<close>, with the exception it
  raises when the console cannot take the text; \<open>guess_type\<close> is \<open>mimetypes.guess_type\<close>,
  which can raise; the other fields are the optional libraries, each with the flag set at
  import time. \<open>exifread_process_file\<close> gives the tags with the text \<open>str(value)\<close> of each
  value, and \<open>TinyTag_get\<close> the tag object as the text of each attribute that is not
  \<open>None\<close>.
\<close>

record env =
  fs :: "path \<Rightarrow> py_exn + fs_file"
  round2_div :: "nat \<Rightarrow> nat \<Rightarrow> pyfloat"
  ratio_percent :: "nat \<Rightarrow> nat \<Rightarrow> pyfloat"
  md5_hexdigest :: "bytes \<Rightarrow> string"
  sha256_hexdigest :: "bytes \<Rightarrow> string"
  read_text :: "bytes \<Rightarrow> string"
  stdout_print :: "string \<Rightarrow> py_exn option"
  MAGIC_AVAILABLE :: bool
  magic_from_file :: "path \<Rightarrow> py_exn + string"
  guess_type :: "path \<Rightarrow> py_exn + string option"
  HACHOIR_AVAILABLE :: bool
  createParser :: "path \<Rightarrow> py_exn + hachoir_parser option"
  PYPDF2_AVAILABLE :: bool
  PdfReader :: "bytes \<Rightarrow> py_exn + pdf_reader"
  DOCX_AVAILABLE :: bool
  Document :: "bytes \<Rightarrow> py_exn + docx_document"
  ZipFile :: "bytes \<Rightarrow> py_exn + zipinfo list"
  tarfile_open :: "string \<Rightarrow> bytes \<Rightarrow> py_exn + tarinfo list"
  PY7ZR_AVAILABLE :: bool
  SevenZipFile :: "bytes \<Rightarrow> py_exn + string list"
  PIL_AVAILABLE :: bool
  pil_block :: "path \<Rightarrow> try_block"
  EXIFREAD_AVAILABLE :: bool
  exifread_process_file :: "bytes \<Rightarrow> py_exn + (string \<times> string) list"
  MUTAGEN_AVAILABLE :: bool
  mutagen_block :: "path \<Rightarrow> try_block"
  TINYTAG_AVAILABLE :: bool
  TinyTag_get :: "path \<Rightarrow> py_exn + (string \<Rightarrow> string option)"
  ffprobe_block :: "path \<Rightarrow> try_block"

definition os_stat :: "env \<Rightarrow> path \<Rightarrow> py_exn + fs_file" where
  "os_stat e p = fs e p"

definition os_path_exists :: "env \<Rightarrow> path \<Rightarrow> bool" where
  "os_path_exists e p = (case os_stat e p of Inl _ \<Rightarrow> False | Inr _ \<Rightarrow> True)"

definition os_path_getsize :: "env \<Rightarrow> path \<Rightarrow> py_exn + nat" where
  "os_path_getsize e p = (case os_stat e p of Inl x \<Rightarrow> Inl x | Inr st \<Rightarrow> Inr (st_size st))"

definition open_rb :: "env \<Rightarrow> path \<Rightarrow> py_exn + bytes" where
  "open_rb e p = (case fs e p of Inl x \<Rightarrow> Inl x | Inr f \<Rightarrow> file_bytes f)"

text \<open>\<open>a / b\<close> on integers raises \<open>ZeroDivisionError\<close> when \<open>b\<close> is zero.\<close>

definition truediv :: "nat \<Rightarrow> nat \<Rightarrow> py_exn + nat \<times> nat" where
  "truediv a b = (if b = 0 then Inl ZeroDivisionError else Inr (a, b))"

section \<open>utils/file_detection.py\<close>

definition document_tokens :: "string list" where
  "document_tokens = [''pdf'', ''word'', ''document'', ''text'', ''officedocument'']"

definition archive_tokens :: "string list" where
  "archive_tokens = [''zip'', ''rar'', ''7z'', ''tar'', ''gzip'', ''compress'']"

definition get_file_category :: "string \<Rightarrow> string" where
  "get_file_category mime_type =
     (if mime_type = [] then ''other''
      else let mime_lower = py_lower mime_type in
        if startswith mime_lower ''image/'' then ''image''
        else if startswith mime_lower ''audio/'' then ''audio''
        else if startswith mime_lower ''video/'' then ''video''
        else if list_ex (\<lambda>x. py_in x mime_lower) document_tokens then ''document''
        else if list_ex (\<lambda>x. py_in x mime_lower) archive_tokens then ''archive''
        else ''other'')"

definition categories :: "string list" where
  "categories = [''image'', ''audio'', ''video'', ''document'', ''archive'', ''other'']"

text \<open>
  \<open>detect_type\<close>. The \<open>try\<close> block around python-magic gives the sniffed type, or
  nothing when the library is absent or raises; in the handler the warning is printed,
  and an exception of \<open>print\<close> leaves the function. \<open>mimetypes.guess_type\<close> is called
  outside any \<open>try\<close> block.
\<close>

definition magic_warning :: "py_exn \<Rightarrow> string" where
  "magic_warning x =
     [CHR 0xE2, CHR 0x9A, CHR 0xA0, CHR 0xEF, CHR 0xB8, CHR 0x8F]
     @ ''  Magic detection failed: '' @ exn_str x"

definition magic_detection :: "env \<Rightarrow> path \<Rightarrow> py_exn + string option" where
  "magic_detection e file_path =
     (if MAGIC_AVAILABLE e then
        (case magic_from_file e file_path of
           Inr mime \<Rightarrow> Inr (Some mime)
         | Inl x \<Rightarrow>
             (case stdout_print e (magic_warning x) of
                Some y \<Rightarrow> Inl y
              | None \<Rightarrow> Inr None))
      else Inr None)"

definition mimetypes_fallback :: "env \<Rightarrow> path \<Rightarrow> py_exn + string" where
  "mimetypes_fallback e file_path =
     (case guess_type e file_path of
        Inl x \<Rightarrow> Inl x
      | Inr (Some mime_type) \<Rightarrow>
          if mime_type \<noteq> [] then Inr mime_type else Inr ''application/octet-stream''
      | Inr None \<Rightarrow> Inr ''application/octet-stream'')"

definition detect_type :: "env \<Rightarrow> path \<Rightarrow> py_exn + string" where
  "detect_type e file_path =
     (if \<not> os_path_exists e file_path then Inr ''unknown/unknown''
      else (case magic_detection e file_path of
              Inl y \<Rightarrow> Inl y
            | Inr (Some mime) \<Rightarrow> Inr mime
            | Inr None \<Rightarrow> mimetypes_fallback e file_path))"

text \<open>
  The classifier as the specification words it, for every path: content sniffing first,
  the extension lookup when sniffing is unavailable or fails, the octet-stream type when
  both fail, and never an exception.
\<close>

definition detect_type_spec :: "env \<Rightarrow> path \<Rightarrow> py_exn + string" where
  "detect_type_spec e file_path =
     (case (if MAGIC_AVAILABLE e then magic_from_file e file_path
            else Inl (LibraryError ''python-magic not available'')) of
        Inr mime \<Rightarrow> Inr mime
      | Inl x \<Rightarrow>
          (case guess_type e file_path of
             Inr (Some mime_type) \<Rightarrow>
               if mime_type \<noteq> [] then Inr mime_type else Inr ''application/octet-stream''
           | Inr None \<Rightarrow> Inr ''application/octet-stream''
           | Inl y \<Rightarrow> Inr ''application/octet-stream''))"

section \<open>extractors/generic\_extractor.py\<close>

definition generic_get_basic_info :: "env \<Rightarrow> path \<Rightarrow> py_exn + metadata" where
  "generic_get_basic_info e file_path =
     (case os_stat e file_path of
        Inl x \<Rightarrow> Inl x
      | Inr stat \<Rightarrow> Inr
          [(''file_name'', VStr (basename file_path)),
           (''file_extension'', VStr (snd (splitext file_path))),
           (''file_size_bytes'', VInt (int (st_size stat))),
           (''file_size_kb'', VFloat (round2_div e (st_size stat) 1024)),
           (''file_size_mb'', VFloat (round2_div e (st_size stat) (1024 * 1024))),
           (''creation_time'', VStr (float_str (st_ctime stat))),
           (''modification_time'', VStr (float_str (st_mtime stat))),
           (''access_time'', VStr (float_str (st_atime stat)))])"

text \<open>
  The hashing loop \<open>for chunk in iter(lambda: f.read(4096), b"")\<close>. The file object is
  the bytes not yet read; a hash object is the bytes fed to it so far (\<open>update\<close> appends),
  and \<open>hexdigest\<close> is the digest of those bytes.
\<close>

function read_chunks :: "bytes \<Rightarrow> bytes \<times> bytes \<Rightarrow> bytes \<times> bytes" where
  "read_chunks f (md5_hash, sha256_hash) =
     (if take 4096 f = [] then (md5_hash, sha256_hash)
      else read_chunks (drop 4096 f) (md5_hash @ take 4096 f, sha256_hash @ take 4096 f))"
  by pat_completeness auto
termination
  by (relation "measure (\<lambda>(f, h). length f)") auto

declare read_chunks.simps [simp del]

definition max_size_default :: nat where
  "max_size_default = 100 * 1024 * 1024"

definition calculate_hashes :: "env \<Rightarrow> path \<Rightarrow> nat \<Rightarrow> metadata" where
  "calculate_hashes e file_path max_size =
     (case os_path_getsize e file_path of
        Inl x \<Rightarrow> [(''hash_error'', VStr (exn_str x))]
      | Inr file_size \<Rightarrow>
          if file_size > max_size
          then [(''hash_note'', VStr (''File too large ('' @ str_nat file_size
                                        @ '' bytes), skipping hash calculation''))]
          else (case open_rb e file_path of
                  Inl x \<Rightarrow> [(''hash_error'', VStr (exn_str x))]
                | Inr f \<Rightarrow>
                    (case read_chunks f ([], []) of
                       (md5_hash, sha256_hash) \<Rightarrow>
                         dict_set
                           (dict_set [] ''md5_hash'' (VStr (md5_hexdigest e md5_hash)))
                           ''sha256_hash'' (VStr (sha256_hexdigest e sha256_hash)))))"

fun hachoir_lines :: "metadata \<Rightarrow> string list \<Rightarrow> metadata" where
  "hachoir_lines metadata [] = metadata"
| "hachoir_lines metadata (line # rest) =
     (if py_in '': '' line
      then (case split_once '': '' line of
              (key, val) \<Rightarrow>
                hachoir_lines (dict_set metadata (''hachoir_'' @ strip key) (VStr (strip val))) rest)
      else hachoir_lines metadata rest)"

text \<open>
  \<open>extract_with_hachoir\<close>, the same function in the generic and in the video backend.
  An exception inside the \<open>try\<close> block keeps the keys stored before it.
\<close>

definition extract_with_hachoir :: "env \<Rightarrow> path \<Rightarrow> metadata" where
  "extract_with_hachoir e file_path =
     (case createParser e file_path of
        Inl x \<Rightarrow> [(''hachoir_error'', VStr (exn_str x))]
      | Inr None \<Rightarrow> []
      | Inr (Some parser) \<Rightarrow>
          (case exportPlaintext parser of
             Inl x \<Rightarrow> [(''hachoir_error'', VStr (exn_str x))]
           | Inr meta \<Rightarrow>
               (let metadata = (case meta of None \<Rightarrow> [] | Some ls \<Rightarrow> hachoir_lines [] ls)
                in case close_input parser of
                     Some x \<Rightarrow> dict_set metadata ''hachoir_error'' (VStr (exn_str x))
                   | None \<Rightarrow> metadata)))"

text \<open>The exception, if any, that ends the \<open>try\<close> block of \<open>extract_with_hachoir\<close>.\<close>

definition hachoir_exception :: "env \<Rightarrow> path \<Rightarrow> py_exn option" where
  "hachoir_exception e file_path =
     (case createParser e file_path of
        Inl x \<Rightarrow> Some x
      | Inr None \<Rightarrow> None
      | Inr (Some parser) \<Rightarrow>
          (case exportPlaintext parser of
             Inl x \<Rightarrow> Some x
           | Inr meta \<Rightarrow> close_input parser))"

definition magic_signatures :: "(bytes \<times> string) list" where
  "magic_signatures =
     [([CHR 0xFF, CHR 0xD8, CHR 0xFF], ''JPEG image''),
      (CHR 0x89 # ''PNG'', ''PNG image''),
      (''GIF8'', ''GIF image''),
      (''%PDF'', ''PDF document''),
      (''PK'' @ [CHR 0x03, CHR 0x04], ''ZIP archive''),
      ([CHR 0x1F, CHR 0x8B], ''GZIP compressed''),
      (''Rar!'', ''RAR archive''),
      (''7z'' @ [CHR 0xBC, CHR 0xAF], ''7-Zip archive''),
      (''ID3'', ''MP3 audio''),
      ([CHR 0x00, CHR 0x00, CHR 0x00, CHR 0x18] @ ''ftypmp42'', ''MP4 video'')]"

text \<open>The loop over the signature table, left at the first match (\<open>break\<close>).\<close>

fun match_signature :: "bytes \<Rightarrow> (bytes \<times> string) list \<Rightarrow> metadata \<Rightarrow> metadata" where
  "match_signature header [] metadata = metadata"
| "match_signature header ((signature, description) # rest) metadata =
     (if startswith header signature
      then dict_set metadata ''identified_format'' (VStr description)
      else match_signature header rest metadata)"

definition printable :: "char \<Rightarrow> char" where
  "printable b = (let n = (of_char b :: nat) in if 32 \<le> n \<and> n < 127 then b else CHR ''.'')"

definition inspect_header :: "env \<Rightarrow> path \<Rightarrow> nat \<Rightarrow> metadata" where
  "inspect_header e file_path header_size =
     (case open_rb e file_path of
        Inl x \<Rightarrow> [(''header_error'', VStr (exn_str x))]
      | Inr f \<Rightarrow>
          (let header = take header_size f;
               hex_header = join '' '' (map hex2 header);
               metadata = dict_set [] ''file_header_hex'' (VStr hex_header);
               ascii_header = map printable header;
               metadata = dict_set metadata ''file_header_ascii'' (VStr ascii_header)
           in match_signature header magic_signatures metadata))"

definition generic_extract :: "env \<Rightarrow> path \<Rightarrow> py_exn + metadata" where
  "generic_extract e file_path =
     (case generic_get_basic_info e file_path of
        Inl x \<Rightarrow> Inl x
      | Inr info \<Rightarrow>
          (let metadata = dict_update [] info;
               metadata = dict_update metadata (calculate_hashes e file_path max_size_default);
               metadata = (if HACHOIR_AVAILABLE e
                           then dict_update metadata (extract_with_hachoir e file_path)
                           else metadata);
               metadata = dict_update metadata (inspect_header e file_path 16)
           in Inr metadata))"

section \<open>The other backends\<close>

text \<open>
  \<open>get_basic_info\<close> of the image, audio, video, document and archive backends (the five
  copies are the same function).
\<close>

definition get_basic_info :: "env \<Rightarrow> path \<Rightarrow> py_exn + metadata" where
  "get_basic_info e file_path =
     (case os_stat e file_path of
        Inl x \<Rightarrow> Inl x
      | Inr stat \<Rightarrow> Inr
          [(''file_name'', VStr (basename file_path)),
           (''file_size_bytes'', VInt (int (st_size stat))),
           (''file_size_mb'', VFloat (round2_div e (st_size stat) (1024 * 1024)))])"

subsection \<open>extractors/archive\_extractor.py\<close>

text \<open>
  In \<open>extract_zip\<close> the part of the \<open>try\<close> block that can still raise after the archive
  is open is the compression ratio: \<open>os.stat\<close> and the division. It gives the dictionary
  so far together with the exception, or the dictionary it has extended.
\<close>

definition zip_open :: "env \<Rightarrow> path \<Rightarrow> py_exn + zipinfo list" where
  "zip_open e file_path =
     (case open_rb e file_path of Inl x \<Rightarrow> Inl x | Inr b \<Rightarrow> ZipFile e b)"

definition compression_ratio :: "env \<Rightarrow> path \<Rightarrow> nat \<Rightarrow> metadata \<Rightarrow> py_exn \<times> metadata + metadata" where
  "compression_ratio e file_path total_uncompressed metadata =
     (if total_uncompressed > 0
      then (case os_stat e file_path of
              Inl x \<Rightarrow> Inl (x, metadata)
            | Inr stat \<Rightarrow>
                (case truediv (st_size stat) total_uncompressed of
                   Inl x \<Rightarrow> Inl (x, metadata)
                 | Inr (a, b) \<Rightarrow>
                     Inr (dict_set metadata ''compression_ratio_percent''
                            (VFloat (ratio_percent e a b)))))
      else Inr metadata)"

definition extract_zip :: "env \<Rightarrow> path \<Rightarrow> metadata" where
  "extract_zip e file_path =
     (case zip_open e file_path of
        Inl x \<Rightarrow> [(''zip_error'', VStr (exn_str x))]
      | Inr info_list \<Rightarrow>
          (let metadata = dict_set [] ''num_files'' (VInt (int (length info_list)));
               metadata = dict_set metadata ''compression_type'' (VStr ''ZIP'');
               total_uncompressed = sum_list (map zip_file_size info_list);
               metadata = dict_set metadata ''total_uncompressed_size_mb''
                            (VFloat (round2_div e total_uncompressed (1024 * 1024)))
           in case compression_ratio e file_path total_uncompressed metadata of
                Inl (x, metadata) \<Rightarrow> dict_set metadata ''zip_error'' (VStr (exn_str x))
              | Inr metadata \<Rightarrow>
                  (let file_list = map zip_filename (take 50 info_list);
                       metadata = dict_set metadata ''file_list'' (VStr (join '', '' file_list))
                   in if length info_list > 50
                      then dict_set metadata ''file_list_note''
                             (VStr (''... and '' @ str_nat (length info_list - 50) @ '' more files''))
                      else metadata)))"

definition tar_mode :: "path \<Rightarrow> string" where
  "tar_mode file_path =
     (if endswith file_path ''.tar.gz'' \<or> endswith file_path ''.tgz'' then ''r:gz''
      else if endswith file_path ''.tar.bz2'' then ''r:bz2''
      else if endswith file_path ''.tar.xz'' then ''r:xz''
      else ''r'')"

definition tar_open :: "env \<Rightarrow> path \<Rightarrow> py_exn + tarinfo list" where
  "tar_open e file_path =
     (case open_rb e file_path of
        Inl x \<Rightarrow> Inl x
      | Inr b \<Rightarrow> tarfile_open e (tar_mode file_path) b)"

definition extract_tar :: "env \<Rightarrow> path \<Rightarrow> metadata" where
  "extract_tar e file_path =
     (case tar_open e file_path of
        Inl x \<Rightarrow> [(''tar_error'', VStr (exn_str x))]
      | Inr members \<Rightarrow>
          (let metadata = dict_set [] ''num_files'' (VInt (int (length members)));
               metadata = dict_set metadata ''compression_type'' (VStr ''TAR'');
               total_uncompressed = sum_list (map tarinfo_size members);
               metadata = dict_set metadata ''total_uncompressed_size_mb''
                            (VFloat (round2_div e total_uncompressed (1024 * 1024)));
               file_list = map tarinfo_name (take 50 members);
               metadata = dict_set metadata ''file_list'' (VStr (join '', '' file_list))
           in if length members > 50
              then dict_set metadata ''file_list_note''
                     (VStr (''... and '' @ str_nat (length members - 50) @ '' more files''))
              else metadata))"

definition sevenzip_open :: "env \<Rightarrow> path \<Rightarrow> py_exn + string list" where
  "sevenzip_open e file_path =
     (case open_rb e file_path of Inl x \<Rightarrow> Inl x | Inr b \<Rightarrow> SevenZipFile e b)"

definition extract_7z :: "env \<Rightarrow> path \<Rightarrow> metadata" where
  "extract_7z e file_path =
     (case sevenzip_open e file_path of
        Inl x \<Rightarrow> [(''7z_error'', VStr (exn_str x))]
      | Inr file_list \<Rightarrow>
          (let metadata = dict_set [] ''num_files'' (VInt (int (length file_list)));
               metadata = dict_set metadata ''compression_type'' (VStr ''7Z'');
               metadata = dict_set metadata ''file_list'' (VStr (join '', '' (take 50 file_list)))
           in if length file_list > 50
              then dict_set metadata ''file_list_note''
                     (VStr (''... and '' @ str_nat (length file_list - 50) @ '' more files''))
              else metadata))"

definition archive_extract :: "env \<Rightarrow> path \<Rightarrow> py_exn + metadata" where
  "archive_extract e file_path =
     (case get_basic_info e file_path of
        Inl x \<Rightarrow> Inl x
      | Inr info \<Rightarrow>
          (let metadata = dict_update [] info;
               ext = py_lower (snd (splitext file_path))
           in Inr (if ext = ''.zip'' then dict_update metadata (extract_zip e file_path)
                   else if ext \<in> set [''.tar'', ''.gz'', ''.bz2'', ''.xz'']
                     then dict_update metadata (extract_tar e file_path)
                   else if ext = ''.7z'' \<and> PY7ZR_AVAILABLE e
                     then dict_update metadata (extract_7z e file_path)
                   else dict_set metadata ''note''
                          (VStr (''No specific extractor for '' @ ext @ '' archives'')))))"

subsection \<open>extractors/document\_extractor.py\<close>

definition pdf_known_keys :: "string list" where
  "pdf_known_keys =
     [''/Title'', ''/Author'', ''/Subject'', ''/Creator'', ''/Producer'', ''/CreationDate'',
      ''/ModDate'']"

text \<open>\<open>meta.get(k, '')\<close>, and \<open>x or ''\<close> for a property that may be \<open>None\<close>.\<close>

definition meta_get :: "(string \<times> string) list \<Rightarrow> string \<Rightarrow> string" where
  "meta_get meta k = (case map_of meta k of Some v \<Rightarrow> v | None \<Rightarrow> [])"

definition or_empty :: "string option \<Rightarrow> string" where
  "or_empty x = (case x of None \<Rightarrow> [] | Some s \<Rightarrow> s)"

fun pdf_other_fields :: "metadata \<Rightarrow> (string \<times> string) list \<Rightarrow> metadata" where
  "pdf_other_fields metadata [] = metadata"
| "pdf_other_fields metadata ((key, val) # rest) =
     pdf_other_fields
       (if key \<notin> set pdf_known_keys
        then dict_set metadata
               (''pdf_'' @ replace_char (CHR ''/'') (CHR ''_'') (strip_char (CHR ''/'') key))
               (VStr val)
        else metadata)
       rest"

definition pdf_info_fields :: "metadata \<Rightarrow> (string \<times> string) list \<Rightarrow> metadata" where
  "pdf_info_fields metadata meta =
     (let metadata = dict_set metadata ''pdf_title'' (VStr (meta_get meta ''/Title''));
          metadata = dict_set metadata ''pdf_author'' (VStr (meta_get meta ''/Author''));
          metadata = dict_set metadata ''pdf_subject'' (VStr (meta_get meta ''/Subject''));
          metadata = dict_set metadata ''pdf_creator'' (VStr (meta_get meta ''/Creator''));
          metadata = dict_set metadata ''pdf_producer'' (VStr (meta_get meta ''/Producer''));
          metadata = dict_set metadata ''pdf_creation_date''
                       (VStr (meta_get meta ''/CreationDate''));
          metadata = dict_set metadata ''pdf_modification_date''
                       (VStr (meta_get meta ''/ModDate''))
      in pdf_other_fields metadata meta)"

text \<open>
  \<open>PdfReader(file_path)\<close> and \<open>Document(file_path)\<close>: the library opens the file and
  parses its bytes; either step can raise.
\<close>

definition pdf_open :: "env \<Rightarrow> path \<Rightarrow> py_exn + pdf_reader" where
  "pdf_open e file_path =
     (case open_rb e file_path of Inl x \<Rightarrow> Inl x | Inr b \<Rightarrow> PdfReader e b)"

definition docx_open :: "env \<Rightarrow> path \<Rightarrow> py_exn + docx_document" where
  "docx_open e file_path =
     (case open_rb e file_path of Inl x \<Rightarrow> Inl x | Inr b \<Rightarrow> Document e b)"

definition extract_pdf :: "env \<Rightarrow> path \<Rightarrow> metadata" where
  "extract_pdf e file_path =
     (case pdf_open e file_path of
        Inl x \<Rightarrow> [(''pdf_error'', VStr (exn_str x))]
      | Inr reader \<Rightarrow>
          (let metadata = dict_set [] ''num_pages'' (VInt (int (length (pages reader))));
               metadata = (case pdf_metadata reader of
                             None \<Rightarrow> metadata
                           | Some meta \<Rightarrow>
                               if meta \<noteq> [] then pdf_info_fields metadata meta else metadata);
               metadata = dict_set metadata ''is_encrypted'' (VBool (is_encrypted reader))
           in case pages reader of
                [] \<Rightarrow> metadata
              | page # _ \<Rightarrow>
                  (case page of
                     Inl x \<Rightarrow> dict_set metadata ''pdf_error'' (VStr (exn_str x))
                   | Inr first_page_text \<Rightarrow>
                       (let preview = (case first_page_text of
                                         None \<Rightarrow> []
                                       | Some t \<Rightarrow> if t \<noteq> [] then take 200 t else [])
                        in dict_set metadata ''first_page_preview''
                             (VStr (replace_char newline (CHR '' '') preview))))))"

text \<open>The exception, if any, that ends the \<open>try\<close> block of \<open>extract_pdf\<close>.\<close>

definition pdf_exception :: "env \<Rightarrow> path \<Rightarrow> py_exn option" where
  "pdf_exception e file_path =
     (case pdf_open e file_path of
        Inl x \<Rightarrow> Some x
      | Inr reader \<Rightarrow>
          (case pages reader of
             [] \<Rightarrow> None
           | page # _ \<Rightarrow> (case page of Inl x \<Rightarrow> Some x | Inr t \<Rightarrow> None)))"

definition extract_docx :: "env \<Rightarrow> path \<Rightarrow> metadata" where
  "extract_docx e file_path =
     (case docx_open e file_path of
        Inl x \<Rightarrow> [(''docx_error'', VStr (exn_str x))]
      | Inr doc \<Rightarrow>
          (let metadata = dict_set [] ''docx_title'' (VStr (or_empty (title doc)));
               metadata = dict_set metadata ''docx_author'' (VStr (or_empty (author doc)));
               metadata = dict_set metadata ''docx_subject'' (VStr (or_empty (subject doc)));
               metadata = dict_set metadata ''docx_keywords''
                            (VStr (or_empty (docx_keywords doc)));
               metadata = dict_set metadata ''docx_comments'' (VStr (or_empty (comments doc)));
               metadata = dict_set metadata ''docx_category'' (VStr (or_empty (category doc)));
               metadata = dict_set metadata ''docx_created'' (VStr (or_empty (created doc)));
               metadata = dict_set metadata ''docx_modified'' (VStr (or_empty (modified doc)));
               metadata = dict_set metadata ''docx_last_modified_by''
                            (VStr (or_empty (last_modified_by doc)));
               metadata = dict_set metadata ''docx_revision'' (VInt (revision doc));
               metadata = dict_set metadata ''num_paragraphs''
                            (VInt (int (length (paragraphs doc))));
               metadata = dict_set metadata ''num_tables'' (VInt (int (num_tables doc)));
               metadata = dict_set metadata ''num_sections'' (VInt (int (num_sections doc)))
           in case paragraphs doc of
                [] \<Rightarrow> metadata
              | first_para # _ \<Rightarrow>
                  dict_set metadata ''first_paragraph_preview'' (VStr (take 200 first_para))))"

definition extract_txt :: "env \<Rightarrow> path \<Rightarrow> metadata" where
  "extract_txt e file_path =
     (case open_rb e file_path of
        Inl x \<Rightarrow> [(''txt_error'', VStr (exn_str x))]
      | Inr b \<Rightarrow>
          (let content = read_text e b;
               metadata = dict_set [] ''num_characters'' (VInt (int (length content)));
               metadata = dict_set metadata ''num_lines''
                            (VInt (int (count_list content newline + 1)));
               metadata = dict_set metadata ''num_words'' (VInt (int (length (py_split content))));
               preview = (if content \<noteq> [] then take 200 content else [])
           in dict_set metadata ''preview'' (VStr (replace_char newline (CHR '' '') preview))))"

definition document_extract :: "env \<Rightarrow> path \<Rightarrow> py_exn + metadata" where
  "document_extract e file_path =
     (case get_basic_info e file_path of
        Inl x \<Rightarrow> Inl x
      | Inr info \<Rightarrow>
          (let metadata = dict_update [] info;
               ext = py_lower (snd (splitext file_path))
           in Inr (if ext = ''.pdf'' \<and> PYPDF2_AVAILABLE e
                     then dict_update metadata (extract_pdf e file_path)
                   else if ext \<in> set [''.docx'', ''.doc''] \<and> DOCX_AVAILABLE e
                     then dict_update metadata (extract_docx e file_path)
                   else if ext = ''.txt'' then dict_update metadata (extract_txt e file_path)
                   else dict_set metadata ''note''
                          (VStr (''No specific extractor for '' @ ext @ '' files'')))))"

subsection \<open>extractors/image\_extractor.py, audio\_extractor.py, video\_extractor.py\<close>

text \<open>
  \<open>extract_with_pil\<close>, \<open>extract_with_mutagen\<close> and \<open>extract_with_ffprobe\<close> are each one
  \<open>try\<close> block around calls into a library or a subprocess, followed by
  \<open>return metadata\<close>. The model takes the run of the block from the environment and
  keeps what the function itself decides: the dictionary it returns and the diagnostic
  key of each \<open>except\<close> clause. \<open>extract_with_exifread\<close> and \<open>extract_with_tinytag\<close>
  are embedded statement by statement.
\<close>

definition run_try_block :: "try_block \<Rightarrow> string \<Rightarrow> metadata" where
  "run_try_block r error_key =
     (let metadata = dict_update [] (stored r)
      in case raised r of
           None \<Rightarrow> metadata
         | Some x \<Rightarrow> dict_set metadata error_key (VStr (exn_str x)))"

definition extract_with_pil :: "env \<Rightarrow> path \<Rightarrow> metadata" where
  "extract_with_pil e file_path = run_try_block (pil_block e file_path) ''pil_error''"

fun exifread_tags :: "metadata \<Rightarrow> (string \<times> string) list \<Rightarrow> metadata" where
  "exifread_tags metadata [] = metadata"
| "exifread_tags metadata ((tag, val) # rest) =
     exifread_tags
       (if \<not> py_in ''thumbnail'' (py_lower tag)
        then dict_set metadata (''exifread_'' @ tag) (VStr val)
        else metadata)
       rest"

definition exifread_open :: "env \<Rightarrow> path \<Rightarrow> py_exn + (string \<times> string) list" where
  "exifread_open e file_path =
     (case open_rb e file_path of Inl x \<Rightarrow> Inl x | Inr f \<Rightarrow> exifread_process_file e f)"

definition extract_with_exifread :: "env \<Rightarrow> path \<Rightarrow> metadata" where
  "extract_with_exifread e file_path =
     (case exifread_open e file_path of
        Inl x \<Rightarrow> [(''exifread_error'', VStr (exn_str x))]
      | Inr tags \<Rightarrow> exifread_tags [] tags)"

definition image_extract :: "env \<Rightarrow> path \<Rightarrow> py_exn + metadata" where
  "image_extract e file_path =
     (case get_basic_info e file_path of
        Inl x \<Rightarrow> Inl x
      | Inr info \<Rightarrow>
          (let metadata = dict_update [] info;
               metadata = (if PIL_AVAILABLE e
                           then dict_update metadata (extract_with_pil e file_path)
                           else metadata);
               metadata = (if EXIFREAD_AVAILABLE e
                           then dict_update metadata (extract_with_exifread e file_path)
                           else metadata)
           in Inr metadata))"

definition extract_with_mutagen :: "env \<Rightarrow> path \<Rightarrow> metadata" where
  "extract_with_mutagen e file_path =
     run_try_block (mutagen_block e file_path) ''mutagen_error''"

definition tinytag_field_names :: "string list" where
  "tinytag_field_names =
     [''artist'', ''album'', ''title'', ''track'', ''year'', ''genre'', ''comment'',
      ''albumartist'', ''composer'', ''disc'', ''duration'', ''bitrate'', ''samplerate'',
      ''channels'']"

fun tinytag_fields :: "metadata \<Rightarrow> (string \<Rightarrow> string option) \<Rightarrow> string list \<Rightarrow> metadata" where
  "tinytag_fields metadata tag [] = metadata"
| "tinytag_fields metadata tag (key # rest) =
     tinytag_fields
       (case tag key of
          Some val \<Rightarrow> dict_set metadata (''tinytag_'' @ key) (VStr val)
        | None \<Rightarrow> metadata)
       tag rest"

definition extract_with_tinytag :: "env \<Rightarrow> path \<Rightarrow> metadata" where
  "extract_with_tinytag e file_path =
     (case TinyTag_get e file_path of
        Inl x \<Rightarrow> [(''tinytag_error'', VStr (exn_str x))]
      | Inr tag \<Rightarrow> tinytag_fields [] tag tinytag_field_names)"

definition audio_extract :: "env \<Rightarrow> path \<Rightarrow> py_exn + metadata" where
  "audio_extract e file_path =
     (case get_basic_info e file_path of
        Inl x \<Rightarrow> Inl x
      | Inr info \<Rightarrow>
          (let metadata = dict_update [] info;
               metadata = (if MUTAGEN_AVAILABLE e
                           then dict_update metadata (extract_with_mutagen e file_path)
                           else metadata);
               metadata = (if TINYTAG_AVAILABLE e
                           then dict_update metadata (extract_with_tinytag e file_path)
                           else metadata)
           in Inr metadata))"

definition extract_with_ffprobe :: "env \<Rightarrow> path \<Rightarrow> metadata" where
  "extract_with_ffprobe e file_path =
     (let r = ffprobe_block e file_path;
          metadata = dict_update [] (stored r)
      in case raised r of
           None \<Rightarrow> metadata
         | Some (FileNotFoundError m) \<Rightarrow>
             dict_set metadata ''ffprobe_note''
               (VStr ''ffprobe not found (install FFmpeg for detailed video metadata)'')
         | Some (TimeoutExpired m) \<Rightarrow>
             dict_set metadata ''ffprobe_error'' (VStr ''Timeout while processing video'')
         | Some x \<Rightarrow> dict_set metadata ''ffprobe_error'' (VStr (exn_str x)))"

definition video_extract :: "env \<Rightarrow> path \<Rightarrow> py_exn + metadata" where
  "video_extract e file_path =
     (case get_basic_info e file_path of
        Inl x \<Rightarrow> Inl x
      | Inr info \<Rightarrow>
          (let metadata = dict_update [] info;
               ffprobe_data = extract_with_ffprobe e file_path;
               metadata = (if ffprobe_data \<noteq> [] then dict_update metadata ffprobe_data
                           else metadata);
               metadata = (if HACHOIR_AVAILABLE e
                           then dict_update metadata (extract_with_hachoir e file_path)
                           else metadata)
           in Inr metadata))"

section \<open>main.py: the dispatcher\<close>

definition get_metadata :: "env \<Rightarrow> path \<Rightarrow> string \<Rightarrow> py_exn + metadata" where
  "get_metadata e file_path cat =
     (if cat = ''image'' then image_extract e file_path
      else if cat = ''audio'' then audio_extract e file_path
      else if cat = ''video'' then video_extract e file_path
      else if cat = ''document'' then document_extract e file_path
      else if cat = ''archive'' then archive_extract e file_path
      else generic_extract e file_path)"

section \<open>utils/normalize.py\<close>

function format_nested_dict :: "(string \<times> nested) list \<Rightarrow> nat \<Rightarrow> string" where
  "format_nested_dict [] indent = []"
| "format_nested_dict ((key, NDict d) # rest) indent =
     (newline # replicate indent (CHR '' '') @ key @ '':'')
     @ format_nested_dict d (indent + 2)
     @ format_nested_dict rest indent"
| "format_nested_dict ((key, NLeaf v) # rest) indent =
     (newline # replicate indent (CHR '' '') @ key @ '': '' @ str_prim v)
     @ format_nested_dict rest indent"
  by pat_completeness auto
termination
  by (relation "measure (\<lambda>(d, indent). size_list (size_prod (\<lambda>k. 0) size) d)") auto

fun value_str :: "pyval \<Rightarrow> string" where
  "value_str (VSeq vs) = join '', '' (map str_prim vs)"
| "value_str (VDict d) = format_nested_dict d 2"
| "value_str (VBytes b) = ''<binary data: '' @ str_nat (length b) @ '' bytes>''"
| "value_str (VPrim v) = str_prim v"

definition rule80 :: string where
  "rule80 = replicate 80 (CHR ''='')"

text \<open>The warning sign U+26A0 U+FE0F of the source, in UTF-8.\<close>

definition warning_sign :: string where
  "warning_sign = [CHR 0xE2, CHR 0x9A, CHR 0xA0, CHR 0xEF, CHR 0xB8, CHR 0x8F]"

definition no_metadata_line :: string where
  "no_metadata_line = warning_sign @ ''  No metadata found or unable to extract metadata.''"

definition header_lines :: "string \<Rightarrow> path \<Rightarrow> string \<Rightarrow> string list" where
  "header_lines now file_path mime_type =
     [rule80, ''METADATA EXTRACTION REPORT'', rule80, ''Generated: '' @ now,
      ''File: '' @ file_path, ''MIME Type: '' @ mime_type, rule80, []]"

text \<open>
  One pass of the loop over the sorted keys. The key comes from the dictionary, so the
  lookup \<open>metadata_dict[key]\<close> finds it; the other branch is never taken.
\<close>

definition key_line :: "metadata \<Rightarrow> string \<Rightarrow> string list" where
  "key_line metadata_dict key =
     (case map_of metadata_dict key of
        None \<Rightarrow> []
      | Some v \<Rightarrow>
          (let value_str = value_str v;
               key_formatted = py_title (replace_char (CHR ''_'') (CHR '' '') key)
           in [key_formatted @ '': '' @ value_str]))"

definition footer_lines :: "nat \<Rightarrow> string list" where
  "footer_lines n = [[], rule80, ''Total metadata fields: '' @ str_nat n, rule80]"

text \<open>
  \<open>report_lines\<close> is the list \<open>lines\<close> at the \<open>return\<close>; \<open>now\<close> is the text of
  \<open>datetime.now().strftime('%Y-%m-%d %H:%M:%S')\<close>.
\<close>

definition report_lines :: "string \<Rightarrow> metadata \<Rightarrow> path \<Rightarrow> string \<Rightarrow> string list" where
  "report_lines now metadata_dict file_path mime_type =
     (if metadata_dict = []
      then header_lines now file_path mime_type @ [no_metadata_line]
      else header_lines now file_path mime_type
           @ concat (map (key_line metadata_dict) (sort (map fst metadata_dict)))
           @ footer_lines (length metadata_dict))"

definition normalize_metadata :: "string \<Rightarrow> metadata \<Rightarrow> path \<Rightarrow> string \<Rightarrow> string" where
  "normalize_metadata now metadata_dict file_path mime_type =
     join [newline] (report_lines now metadata_dict file_path mime_type)"

section \<open>Sample environments\<close>

text \<open>
  A machine with no optional library installed and an empty file system, and the
  function that puts one file on it. The float and digest functions are given on the
  sample files only: two decimals rounded from the exact quotient, and the MD5 and
  SHA-256 digests of the five bytes \<open>hello\<close>.
\<close>

definition two_decimals :: "nat \<Rightarrow> pyfloat" where
  "two_decimals h =
     PyFloat (str_nat (h div 100) @ ''.''
              @ (if h mod 10 = 0 then str_nat (h mod 100 div 10)
                 else [digit_char (h mod 100 div 10), digit_char (h mod 10)]))"

definition sample_round2_div :: "nat \<Rightarrow> nat \<Rightarrow> pyfloat" where
  "sample_round2_div a b = two_decimals ((200 * a + b) div (2 * b))"

definition sample_ratio_percent :: "nat \<Rightarrow> nat \<Rightarrow> pyfloat" where
  "sample_ratio_percent a b = two_decimals ((20000 * (b - a) + b) div (2 * b))"

definition sample_md5 :: "bytes \<Rightarrow> string" where
  "sample_md5 b = (if b = ''hello'' then ''5d41402abc4b2a76b9719d911017c592'' else [])"

definition sample_sha256 :: "bytes \<Rightarrow> string" where
  "sample_sha256 b =
     (if b = ''hello''
      then ''2cf24dba5fb0a30e26e83b2ac5b9e29e1b161e5c1fa7425e73043362938b9824''
      else [])"

definition enoent :: "path \<Rightarrow> py_exn" where
  "enoent p =
     FileNotFoundError (''[Errno 2] No such file or directory: '' @ [CHR 0x27] @ p @ [CHR 0x27])"

definition no_block :: try_block where
  "no_block = \<lparr>stored = [], raised = None\<rparr>"

definition bare_env :: env where
  "bare_env =
     \<lparr>fs = (\<lambda>p. Inl (enoent p)),
      round2_div = sample_round2_div,
      ratio_percent = sample_ratio_percent,
      md5_hexdigest = sample_md5,
      sha256_hexdigest = sample_sha256,
      read_text = (\<lambda>b. b),
      stdout_print = (\<lambda>t. None),
      MAGIC_AVAILABLE = False,
      magic_from_file = (\<lambda>p. Inr ''application/octet-stream''),
      guess_type =
        (\<lambda>p. if snd (splitext p) = ''.txt'' then Inr (Some ''text/plain'') else Inr None),
      HACHOIR_AVAILABLE = False,
      createParser = (\<lambda>p. Inr None),
      PYPDF2_AVAILABLE = False,
      PdfReader = (\<lambda>b. Inl (LibraryError ''EOF marker not found'')),
      DOCX_AVAILABLE = False,
      Document = (\<lambda>b. Inl (LibraryError ''Package not found'')),
      ZipFile = (\<lambda>b. Inl (LibraryError ''File is not a zip file'')),
      tarfile_open = (\<lambda>m b. Inl (LibraryError ''file could not be opened successfully'')),
      PY7ZR_AVAILABLE = False,
      SevenZipFile = (\<lambda>b. Inl (LibraryError ''not a 7z file'')),
      PIL_AVAILABLE = False,
      pil_block = (\<lambda>p. no_block),
      EXIFREAD_AVAILABLE = False,
      exifread_process_file = (\<lambda>b. Inr []),
      MUTAGEN_AVAILABLE = False,
      mutagen_block = (\<lambda>p. no_block),
      TINYTAG_AVAILABLE = False,
      TinyTag_get = (\<lambda>p. Inr (\<lambda>k. None)),
      ffprobe_block = (\<lambda>p. \<lparr>stored = [], raised = Some (enoent ''ffprobe'')\<rparr>)\<rparr>"

definition with_file :: "env \<Rightarrow> path \<Rightarrow> fs_file \<Rightarrow> env" where
  "with_file e p f = e\<lparr>fs := (fs e)(p := Inr f)\<rparr>"

definition regular_file :: "nat \<Rightarrow> py_exn + bytes \<Rightarrow> fs_file" where
  "regular_file n b =
     \<lparr>st_size = n, st_ctime = PyFloat ''1700000000.0'', st_mtime = PyFloat ''1700000000.0'',
      st_atime = PyFloat ''1700000000.0'', file_bytes = b\<rparr>"

definition hello_env :: env where
  "hello_env = with_file bare_env ''/tmp/hello.bin'' (regular_file 5 (Inr ''hello''))"

definition large_env :: env where
  "large_env =
     with_file bare_env ''/tmp/large.iso''
       (regular_file 104857601 (Inl (OSError ''[Errno 13] Permission denied'')))"

definition pk_env :: env where
  "pk_env =
     with_file bare_env ''/tmp/a.bin''
       (regular_file 6 (Inr (''PK'' @ [CHR 0x03, CHR 0x04] @ ''xy'')))"

definition gz_env :: env where
  "gz_env =
     with_file bare_env ''/tmp/b.bin'' (regular_file 3 (Inr [CHR 0x1F, CHR 0x8B, CHR 0x08]))"

definition with_zip :: "env \<Rightarrow> zipinfo list \<Rightarrow> env" where
  "with_zip e info_list = e\<lparr>ZipFile := (\<lambda>b. Inr info_list)\<rparr>"

definition with_tar :: "env \<Rightarrow> tarinfo list \<Rightarrow> env" where
  "with_tar e members = e\<lparr>tarfile_open := (\<lambda>m b. Inr members)\<rparr>"

definition empty_members :: "zipinfo list" where
  "empty_members =
     [\<lparr>zip_filename = ''empty.txt'', zip_file_size = 0\<rparr>,
      \<lparr>zip_filename = ''dir/'', zip_file_size = 0\<rparr>]"

definition many_members :: "zipinfo list" where
  "many_members =
     map (\<lambda>i. \<lparr>zip_filename = ''f'' @ str_nat i, zip_file_size = 1\<rparr>) [0..<51]"

definition zip_empty_env :: env where
  "zip_empty_env =
     with_zip (with_file bare_env ''/tmp/e.zip'' (regular_file 4 (Inr ''PK..''))) empty_members"

definition zip_many_env :: env where
  "zip_many_env =
     with_zip (with_file bare_env ''/tmp/m.zip'' (regular_file 4 (Inr ''PK..''))) many_members"

definition few_tar_members :: "tarinfo list" where
  "few_tar_members =
     [\<lparr>tarinfo_name = ''a'', tarinfo_size = 1\<rparr>, \<lparr>tarinfo_name = ''b'', tarinfo_size = 2\<rparr>,
      \<lparr>tarinfo_name = ''c'', tarinfo_size = 3\<rparr>]"

definition many_tar_members :: "tarinfo list" where
  "many_tar_members =
     map (\<lambda>i. \<lparr>tarinfo_name = ''t'' @ str_nat i, tarinfo_size = 1\<rparr>) [0..<53]"

definition tar_few_env :: env where
  "tar_few_env =
     with_tar (with_file bare_env ''/tmp/f.tar'' (regular_file 4 (Inr ''ustar''))) few_tar_members"

definition tar_many_env :: env where
  "tar_many_env =
     with_tar (with_file bare_env ''/tmp/m.tar.gz'' (regular_file 4 (Inr ''ustar'')))
       many_tar_members"

definition sample_doc :: docx_document where
  "sample_doc =
     \<lparr>title = Some ''Report'', author = Some ''A. Writer'', subject = None,
      docx_keywords = None, comments = None, category = None,
      created = Some ''2024-01-01 10:00:00'', modified = None, last_modified_by = None,
      revision = 1,
      paragraphs = [''Line one'' @ [newline] @ ''line two'', ''Second paragraph''],
      num_tables = 0, num_sections = 1\<rparr>"

definition docx_env :: env where
  "docx_env =
     (with_file bare_env ''/tmp/r.docx'' (regular_file 4 (Inr ''PK..'')))
       \<lparr>DOCX_AVAILABLE := True, Document := (\<lambda>b. Inr sample_doc)\<rparr>"

definition magic_env :: env where
  "magic_env = hello_env\<lparr>MAGIC_AVAILABLE := True, magic_from_file := (\<lambda>p. Inr ''text/plain'')\<rparr>"

definition notes_env :: env where
  "notes_env = with_file bare_env ''/tmp/notes.txt'' (regular_file 5 (Inr ''hello''))"

definition locked_env :: env where
  "locked_env =
     (with_file bare_env ''/tmp/locked.bin''
        (regular_file 5 (Inl (OSError ''[Errno 13] Permission denied''))))
       \<lparr>HACHOIR_AVAILABLE := True\<rparr>"

definition hachoir_fail_env :: env where
  "hachoir_fail_env =
     hello_env\<lparr>HACHOIR_AVAILABLE := True,
                createParser := (\<lambda>p. Inl (LibraryError ''Unable to parse file''))\<rparr>"

definition magic_fail_env :: env where
  "magic_fail_env =
     notes_env\<lparr>MAGIC_AVAILABLE := True,
              magic_from_file := (\<lambda>p. Inl (LibraryError ''failed to find libmagic''))\<rparr>"

definition bad_url_env :: env where
  "bad_url_env =
     (with_file bare_env ''x://[a/b.txt'' (regular_file 5 (Inr ''hello'')))
       \<lparr>guess_type := (\<lambda>p. Inl (ValueError ''Invalid IPv6 URL''))\<rparr>"

definition cp1252_env :: env where
  "cp1252_env =
     magic_fail_env
       \<lparr>stdout_print :=
          (\<lambda>t. Some (UnicodeEncodeError ''charmap codec cannot encode character''))\<rparr>"

definition denied :: py_exn where
  "denied = OSError ''[Errno 13] Permission denied''"

text \<open>
  A machine with every optional library installed, on which every path is a file that
  cannot be opened and every library call fails.
\<close>

definition broken_env :: env where
  "broken_env =
     bare_env
       \<lparr>fs := (\<lambda>p. Inr (regular_file 5 (Inl denied))),
        HACHOIR_AVAILABLE := True,
        createParser := (\<lambda>p. Inl (LibraryError ''Unable to parse file'')),
        PYPDF2_AVAILABLE := True,
        DOCX_AVAILABLE := True,
        PY7ZR_AVAILABLE := True,
        PIL_AVAILABLE := True,
        pil_block :=
          (\<lambda>p. \<lparr>stored = [], raised = Some (LibraryError ''cannot identify image file'')\<rparr>),
        EXIFREAD_AVAILABLE := True,
        MUTAGEN_AVAILABLE := True,
        mutagen_block :=
          (\<lambda>p. \<lparr>stored = [], raised = Some (LibraryError ''can not open file'')\<rparr>),
        TINYTAG_AVAILABLE := True,
        TinyTag_get := (\<lambda>p. Inl (LibraryError ''No tag reader found to support file type'')),
        ffprobe_block :=
          (\<lambda>p. \<lparr>stored = [], raised = Some (TimeoutExpired ''timed out after 30 seconds'')\<rparr>)\<rparr>"

definition json_fail_env :: env where
  "json_fail_env =
     hello_env
       \<lparr>ffprobe_block := (\<lambda>p. \<lparr>stored = [], raised = Some (ValueError ''Expecting value'')\<rparr>)\<rparr>"

section \<open>Properties of the type classifier\<close>

lemma py_lower_Nil_iff: "py_lower s = [] \<longleftrightarrow> s = []"
  by (simp add: py_lower_def)

text \<open>
  Claim C2. \<open>get_file_category\<close> is a total function from MIME strings to the six
  categories (every result is one of \<open>image\<close>, \<open>audio\<close>, \<open>video\<close>, \<open>document\<close>,
  \<open>archive\<close>, \<open>other\<close>); it is case-insensitive (two strings with the same lower-casing
  get the same category); the prefix tests \<open>image/\<close>, \<open>audio/\<close>, \<open>video/\<close> come first in
  that order, then the document tokens, then the archive tokens, then \<open>other\<close>; and
  \<open>image/pdf\<close> is an image although it contains the document token \<open>pdf\<close>.
\<close>

theorem get_file_category_total_precedence:
  "get_file_category m \<in> set categories
   \<and> (py_lower a = py_lower b \<longrightarrow> get_file_category a = get_file_category b)
   \<and> (startswith (py_lower m) ''image/'' \<longrightarrow> get_file_category m = ''image'')
   \<and> (\<not> startswith (py_lower m) ''image/'' \<and> startswith (py_lower m) ''audio/''
        \<longrightarrow> get_file_category m = ''audio'')
   \<and> (\<not> startswith (py_lower m) ''image/'' \<and> \<not> startswith (py_lower m) ''audio/''
        \<and> startswith (py_lower m) ''video/'' \<longrightarrow> get_file_category m = ''video'')
   \<and> (\<not> startswith (py_lower m) ''image/'' \<and> \<not> startswith (py_lower m) ''audio/''
        \<and> \<not> startswith (py_lower m) ''video/''
        \<and> (\<exists>x \<in> set document_tokens. py_in x (py_lower m))
        \<longrightarrow> get_file_category m = ''document'')
   \<and> (\<not> startswith (py_lower m) ''image/'' \<and> \<not> startswith (py_lower m) ''audio/''
        \<and> \<not> startswith (py_lower m) ''video/''
        \<and> \<not> (\<exists>x \<in> set document_tokens. py_in x (py_lower m))
        \<and> (\<exists>x \<in> set archive_tokens. py_in x (py_lower m))
        \<longrightarrow> get_file_category m = ''archive'')
   \<and> (\<not> startswith (py_lower m) ''image/'' \<and> \<not> startswith (py_lower m) ''audio/''
        \<and> \<not> startswith (py_lower m) ''video/''
        \<and> \<not> (\<exists>x \<in> set document_tokens. py_in x (py_lower m))
        \<and> \<not> (\<exists>x \<in> set archive_tokens. py_in x (py_lower m))
        \<longrightarrow> get_file_category m = ''other'')
   \<and> get_file_category ''image/pdf'' = ''image''"
proof -
  have total: "get_file_category m \<in> set categories"
    by (simp add: get_file_category_def categories_def Let_def)
  have ci: "py_lower a = py_lower b \<longrightarrow> get_file_category a = get_file_category b"
  proof
    assume eq: "py_lower a = py_lower b"
    then have "a = [] \<longleftrightarrow> b = []"
      using py_lower_Nil_iff by metis
    with eq show "get_file_category a = get_file_category b"
      by (simp add: get_file_category_def)
  qed
  have nonempty: "startswith (py_lower m) p \<Longrightarrow> p \<noteq> [] \<Longrightarrow> m \<noteq> []" for p
    by (auto simp: startswith_def py_lower_def)
  have other: "m = [] \<Longrightarrow> \<not> (\<exists>x \<in> set document_tokens. py_in x (py_lower m))
      \<and> \<not> (\<exists>x \<in> set archive_tokens. py_in x (py_lower m))"
    by (simp add: document_tokens_def archive_tokens_def py_in_def py_lower_def)
  have img: "get_file_category ''image/pdf'' = ''image''"
    by (simp add: get_file_category_def py_lower_def lower_char_def startswith_def Let_def)
  show ?thesis
    using total ci img nonempty other
    by (auto simp: get_file_category_def Let_def list_ex_iff)
qed

theorem get_file_category_total_precedence_witness:
  "get_file_category ''IMAGE/PDF'' = ''image''
   \<and> get_file_category ''Audio/text'' = ''audio''
   \<and> get_file_category ''video/x-zip'' = ''video''
   \<and> get_file_category ''application/PDF+zip'' = ''document''
   \<and> get_file_category ''application/x-TAR'' = ''archive''
   \<and> get_file_category ''application/octet-stream'' = ''other''
   \<and> get_file_category ''Text/Plain'' = get_file_category ''text/plain''"
proof -
  have h1: "startswith (py_lower ''IMAGE/PDF'') ''image/''"
    by code_simp
  have h2: "\<not> startswith (py_lower ''Audio/text'') ''image/''
      \<and> startswith (py_lower ''Audio/text'') ''audio/''"
    by code_simp
  have h3: "\<not> startswith (py_lower ''video/x-zip'') ''image/''
      \<and> \<not> startswith (py_lower ''video/x-zip'') ''audio/''
      \<and> startswith (py_lower ''video/x-zip'') ''video/''"
    by code_simp
  have h4: "\<not> startswith (py_lower ''application/PDF+zip'') ''image/''
      \<and> \<not> startswith (py_lower ''application/PDF+zip'') ''audio/''
      \<and> \<not> startswith (py_lower ''application/PDF+zip'') ''video/''
      \<and> (\<exists>x \<in> set document_tokens. py_in x (py_lower ''application/PDF+zip''))"
    by code_simp
  have h5: "\<not> startswith (py_lower ''application/x-TAR'') ''image/''
      \<and> \<not> startswith (py_lower ''application/x-TAR'') ''audio/''
      \<and> \<not> startswith (py_lower ''application/x-TAR'') ''video/''
      \<and> \<not> (\<exists>x \<in> set document_tokens. py_in x (py_lower ''application/x-TAR''))
      \<and> (\<exists>x \<in> set archive_tokens. py_in x (py_lower ''application/x-TAR''))"
    by code_simp
  have h6: "\<not> startswith (py_lower ''application/octet-stream'') ''image/''
      \<and> \<not> startswith (py_lower ''application/octet-stream'') ''audio/''
      \<and> \<not> startswith (py_lower ''application/octet-stream'') ''video/''
      \<and> \<not> (\<exists>x \<in> set document_tokens. py_in x (py_lower ''application/octet-stream''))
      \<and> \<not> (\<exists>x \<in> set archive_tokens. py_in x (py_lower ''application/octet-stream''))"
    by code_simp
  have h7: "py_lower ''Text/Plain'' = py_lower ''text/plain''"
    by code_simp
  have c1: "get_file_category ''IMAGE/PDF'' = ''image''"
    using get_file_category_total_precedence [of "''IMAGE/PDF''" "[]" "[]"] h1 by blast
  have c2: "get_file_category ''Audio/text'' = ''audio''"
    using get_file_category_total_precedence [of "''Audio/text''" "[]" "[]"] h2 by blast
  have c3: "get_file_category ''video/x-zip'' = ''video''"
    using get_file_category_total_precedence [of "''video/x-zip''" "[]" "[]"] h3 by blast
  have c4: "get_file_category ''application/PDF+zip'' = ''document''"
    using get_file_category_total_precedence [of "''application/PDF+zip''" "[]" "[]"] h4
    by blast
  have c5: "get_file_category ''application/x-TAR'' = ''archive''"
    using get_file_category_total_precedence [of "''application/x-TAR''" "[]" "[]"] h5
    by blast
  have c6: "get_file_category ''application/octet-stream'' = ''other''"
    using get_file_category_total_precedence [of "''application/octet-stream''" "[]" "[]"] h6
    by blast
  have c7: "get_file_category ''Text/Plain'' = get_file_category ''text/plain''"
    using get_file_category_total_precedence [of "[]" "''Text/Plain''" "''text/plain''"] h7
    by blast
  show ?thesis
    using c1 c2 c3 c4 c5 c6 c7 by blast
qed

section \<open>Dictionaries\<close>

lemma map_of_dict_set: "map_of (dict_set d k v) = (map_of d)(k \<mapsto> v)"
  by (induction d k v rule: dict_set.induct) auto

lemma keys_dict_set: "fst ` set (dict_set d k v) = insert k (fst ` set d)"
  by (induction d k v rule: dict_set.induct) auto

lemma distinct_dict_set: "distinct (map fst d) \<Longrightarrow> distinct (map fst (dict_set d k v))"
  by (induction d k v rule: dict_set.induct) (auto simp: keys_dict_set)

lemma map_of_dict_update_other:
  "k \<notin> fst ` set e \<Longrightarrow> map_of (dict_update d e) k = map_of d k"
  by (induction d e rule: dict_update.induct) (auto simp: map_of_dict_set)

lemma map_of_dict_update_in:
  "distinct (map fst e) \<Longrightarrow> map_of e k = Some v \<Longrightarrow> map_of (dict_update d e) k = Some v"
proof (induction d e rule: dict_update.induct)
  case (1 d)
  then show ?case by simp
next
  case (2 d k' v' e)
  show ?case
  proof (cases "k = k'")
    case True
    with 2 have "k \<notin> fst ` set e" and "v = v'" by auto
    then show ?thesis
      using True by (simp add: map_of_dict_update_other map_of_dict_set)
  next
    case False
    with 2 show ?thesis by simp
  qed
qed

lemma keys_dict_update: "fst ` set (dict_update d e) = fst ` set d \<union> fst ` set e"
  by (induction d e rule: dict_update.induct) (auto simp: keys_dict_set)

lemma distinct_dict_update: "distinct (map fst d) \<Longrightarrow> distinct (map fst (dict_update d e))"
  by (induction d e rule: dict_update.induct) (auto simp: distinct_dict_set)

lemma read_chunks_all: "read_chunks f (m, s) = (m @ f, s @ f)"
proof (induction f "(m, s)" arbitrary: m s rule: read_chunks.induct)
  case (1 f md5_hash sha256_hash)
  show ?case
  proof (cases "take 4096 f = []")
    case True
    then have "f = []" by (cases f) auto
    then show ?thesis by (simp add: read_chunks.simps)
  next
    case False
    then have "read_chunks f (md5_hash, sha256_hash) =
        read_chunks (drop 4096 f) (md5_hash @ take 4096 f, sha256_hash @ take 4096 f)"
      by (subst read_chunks.simps) simp
    also have "\<dots> = ((md5_hash @ take 4096 f) @ drop 4096 f, (sha256_hash @ take 4096 f) @ drop 4096 f)"
      using 1 False by blast
    finally show ?thesis by simp
  qed
qed

lemma map_of_dict_update_distinct:
  "distinct (map fst e) \<Longrightarrow>
   map_of (dict_update d e) k = (case map_of e k of Some v \<Rightarrow> Some v | None \<Rightarrow> map_of d k)"
proof (cases "map_of e k")
  case None
  then have "k \<notin> fst ` set e"
    by (simp add: map_of_eq_None_iff)
  then show ?thesis
    using None by (simp add: map_of_dict_update_other)
next
  case (Some v)
  assume "distinct (map fst e)"
  then show ?thesis
    using Some by (simp add: map_of_dict_update_in)
qed

lemma keys_match_signature:
  "fst ` set (match_signature h sigs md) \<subseteq> insert ''identified_format'' (fst ` set md)"
  by (induction h sigs md rule: match_signature.induct) (auto simp: keys_dict_set)

lemma keys_inspect_header:
  "fst ` set (inspect_header e p n)
     \<subseteq> {''header_error'', ''file_header_hex'', ''file_header_ascii'', ''identified_format''}"
proof (cases "open_rb e p")
  case (Inl x)
  then show ?thesis by (simp add: inspect_header_def)
next
  case (Inr f)
  let ?md = "dict_set (dict_set [] ''file_header_hex'' (VStr (join '' '' (map hex2 (take n f)))))
               ''file_header_ascii'' (VStr (map printable (take n f)))"
  have "fst ` set ?md = {''file_header_ascii'', ''file_header_hex''}"
    by (auto simp: keys_dict_set)
  then have "fst ` set (match_signature (take n f) magic_signatures ?md)
      \<subseteq> {''identified_format'', ''file_header_ascii'', ''file_header_hex''}"
    using keys_match_signature [of "take n f" magic_signatures ?md] by simp
  moreover have "inspect_header e p n = match_signature (take n f) magic_signatures ?md"
    using Inr by (simp add: inspect_header_def Let_def)
  ultimately show ?thesis by auto
qed

lemma keys_hachoir_lines:
  "k \<in> fst ` set (hachoir_lines md ls) \<Longrightarrow> k \<in> fst ` set md \<or> startswith k ''hachoir_''"
proof (induction md ls rule: hachoir_lines.induct)
  case (1 metadata)
  then show ?case by simp
next
  case (2 metadata line rest)
  show ?case
  proof (cases "py_in '': '' line")
    case False
    with 2 show ?thesis by simp
  next
    case True
    obtain key val where kv: "split_once '': '' line = (key, val)"
      by (cases "split_once '': '' line")
    from 2(3) True kv have
      "k \<in> fst ` set (hachoir_lines (dict_set metadata (''hachoir_'' @ strip key) (VStr (strip val))) rest)"
      by simp
    then have "k \<in> fst ` set (dict_set metadata (''hachoir_'' @ strip key) (VStr (strip val)))
        \<or> startswith k ''hachoir_''"
      using 2(1) [OF True kv [symmetric]] by blast
    then show ?thesis
      by (auto simp: keys_dict_set startswith_def)
  qed
qed

lemma keys_extract_with_hachoir:
  assumes "k \<in> fst ` set (extract_with_hachoir e p)"
  shows "startswith k ''hachoir_''"
proof -
  have err: "startswith ''hachoir_error'' ''hachoir_''"
    by (simp add: startswith_def)
  show ?thesis
  proof (cases "createParser e p")
    case (Inl x)
    with assms err show ?thesis by (simp add: extract_with_hachoir_def)
  next
    case po: (Inr po)
    show ?thesis
    proof (cases po)
      case None
      with assms po show ?thesis by (simp add: extract_with_hachoir_def)
    next
      case (Some parser)
      show ?thesis
      proof (cases "exportPlaintext parser")
        case (Inl x)
        with assms err po Some show ?thesis by (simp add: extract_with_hachoir_def)
      next
        case (Inr meta)
        define md where "md = (case meta of None \<Rightarrow> [] | Some ls \<Rightarrow> hachoir_lines [] ls)"
        have md_keys: "k' \<in> fst ` set md \<Longrightarrow> startswith k' ''hachoir_''" for k'
          using keys_hachoir_lines [of k' "[]"]
          by (cases meta) (auto simp: md_def)
        have "extract_with_hachoir e p =
            (case close_input parser of
               Some x \<Rightarrow> dict_set md ''hachoir_error'' (VStr (exn_str x))
             | None \<Rightarrow> md)"
          unfolding md_def using po Some Inr by (simp add: extract_with_hachoir_def Let_def)
        with assms have "k \<in> fst ` set md \<or> k = ''hachoir_error''"
          by (cases "close_input parser") (auto simp: keys_dict_set)
        with md_keys err show ?thesis by blast
      qed
    qed
  qed
qed

section \<open>The generic backend: hashing\<close>

lemma distinct_calculate_hashes: "distinct (map fst (calculate_hashes e p n))"
proof (cases "os_path_getsize e p")
  case (Inl x)
  then show ?thesis by (simp add: calculate_hashes_def)
next
  case sz: (Inr file_size)
  show ?thesis
  proof (cases "open_rb e p")
    case (Inl x)
    with sz show ?thesis by (simp add: calculate_hashes_def)
  next
    case (Inr f)
    with sz show ?thesis
      by (simp add: calculate_hashes_def read_chunks_all distinct_dict_set)
  qed
qed

lemma keys_generic_basic_info:
  "generic_get_basic_info e p = Inr info \<Longrightarrow>
   map fst info = [''file_name'', ''file_extension'', ''file_size_bytes'', ''file_size_kb'',
     ''file_size_mb'', ''creation_time'', ''modification_time'', ''access_time'']"
  by (cases "os_stat e p") (auto simp: generic_get_basic_info_def)

lemma generic_extract_hash_keys:
  assumes st: "fs e p = Inr f"
    and k: "k \<in> {''md5_hash'', ''sha256_hash'', ''hash_note''}"
  shows "\<exists>md. generic_extract e p = Inr md
           \<and> map_of md k = map_of (calculate_hashes e p max_size_default) k"
proof -
  obtain info where info: "generic_get_basic_info e p = Inr info"
    using st by (simp add: generic_get_basic_info_def os_stat_def)
  have nh: "k \<notin> fst ` set (inspect_header e p 16)"
    using keys_inspect_header [of e p 16] k by auto
  have "\<not> startswith k ''hachoir_''"
    using k by (auto simp: startswith_def)
  then have nc: "k \<notin> fst ` set (extract_with_hachoir e p)"
    using keys_extract_with_hachoir by blast
  have "k \<notin> set (map fst info)"
    unfolding keys_generic_basic_info [OF info] using k by auto
  then have ni: "k \<notin> fst ` set info"
    by simp
  then have "map_of (dict_update [] info) k = None"
    by (simp add: map_of_dict_update_other)
  then have "map_of (dict_update (dict_update [] info) (calculate_hashes e p max_size_default)) k
      = map_of (calculate_hashes e p max_size_default) k"
    by (simp add: map_of_dict_update_distinct distinct_calculate_hashes split: option.splits)
  then show ?thesis
    using info nh nc
    by (simp add: generic_extract_def Let_def map_of_dict_update_other)
qed

lemma calculate_hashes_small:
  assumes "fs e p = Inr f" and "st_size f \<le> n" and "file_bytes f = Inr b"
  shows "calculate_hashes e p n =
     [(''md5_hash'', VStr (md5_hexdigest e b)), (''sha256_hash'', VStr (sha256_hexdigest e b))]"
  using assms
  by (simp add: calculate_hashes_def os_path_getsize_def os_stat_def open_rb_def read_chunks_all)

lemma calculate_hashes_large:
  assumes "fs e p = Inr f" and "st_size f > n"
  shows "calculate_hashes e p n =
     [(''hash_note'', VStr (''File too large ('' @ str_nat (st_size f)
                              @ '' bytes), skipping hash calculation''))]"
  using assms
  by (simp add: calculate_hashes_def os_path_getsize_def os_stat_def)

lemma calculate_hashes_unreadable:
  assumes "fs e p = Inr f" and "st_size f \<le> n" and "file_bytes f = Inl x"
  shows "calculate_hashes e p n = [(''hash_error'', VStr (exn_str x))]"
  using assms
  by (simp add: calculate_hashes_def os_path_getsize_def os_stat_def open_rb_def)

text \<open>
  Claim C5 (hashing law). For a file that \<open>os.stat\<close> finds, of at most 100 MB and whose
  bytes can be read, the result of the generic backend holds under \<open>md5_hash\<close> and
  \<open>sha256_hash\<close> the MD5 and SHA-256 digests of all the bytes of the file: reading in
  chunks of 4096 bytes feeds the hash objects exactly the content, and no later stage
  overwrites the two keys. For a file of more than 100 MB neither key is present and
  \<open>hash_note\<close> records the skip with the size. (When the file cannot be opened there are
  no bytes to digest; the same call then stores \<open>hash_error\<close>, see
  \<open>calculate_hashes_unreadable\<close>.)
\<close>

theorem hashing_law:
  assumes "fs e p = Inr f"
  shows "(st_size f \<le> 100 * 1024 * 1024 \<and> file_bytes f = Inr b \<longrightarrow>
            (\<exists>md. generic_extract e p = Inr md
               \<and> map_of md ''md5_hash'' = Some (VStr (md5_hexdigest e b))
               \<and> map_of md ''sha256_hash'' = Some (VStr (sha256_hexdigest e b))))
       \<and> (st_size f > 100 * 1024 * 1024 \<longrightarrow>
            (\<exists>md. generic_extract e p = Inr md
               \<and> map_of md ''md5_hash'' = None
               \<and> map_of md ''sha256_hash'' = None
               \<and> map_of md ''hash_note'' =
                   Some (VStr (''File too large ('' @ str_nat (st_size f)
                               @ '' bytes), skipping hash calculation''))))"
proof (intro conjI impI)
  assume a: "st_size f \<le> 100 * 1024 * 1024 \<and> file_bytes f = Inr b"
  then have h: "calculate_hashes e p max_size_default =
      [(''md5_hash'', VStr (md5_hexdigest e b)), (''sha256_hash'', VStr (sha256_hexdigest e b))]"
    using assms calculate_hashes_small [of e p f max_size_default b]
    by (simp add: max_size_default_def)
  obtain md where md: "generic_extract e p = Inr md"
    using generic_extract_hash_keys [OF assms, of "''md5_hash''"] by auto
  have "map_of md ''md5_hash'' = Some (VStr (md5_hexdigest e b))"
    using generic_extract_hash_keys [OF assms, of "''md5_hash''"] md h by simp
  moreover have "map_of md ''sha256_hash'' = Some (VStr (sha256_hexdigest e b))"
    using generic_extract_hash_keys [OF assms, of "''sha256_hash''"] md h by simp
  ultimately show "\<exists>md. generic_extract e p = Inr md
      \<and> map_of md ''md5_hash'' = Some (VStr (md5_hexdigest e b))
      \<and> map_of md ''sha256_hash'' = Some (VStr (sha256_hexdigest e b))"
    using md by blast
next
  assume a: "st_size f > 100 * 1024 * 1024"
  then have h: "calculate_hashes e p max_size_default =
      [(''hash_note'', VStr (''File too large ('' @ str_nat (st_size f)
                              @ '' bytes), skipping hash calculation''))]"
    using assms calculate_hashes_large [of e p f max_size_default]
    by (simp add: max_size_default_def)
  obtain md where md: "generic_extract e p = Inr md"
    using generic_extract_hash_keys [OF assms, of "''md5_hash''"] by auto
  have "map_of md ''md5_hash'' = None"
    using generic_extract_hash_keys [OF assms, of "''md5_hash''"] md h by simp
  moreover have "map_of md ''sha256_hash'' = None"
    using generic_extract_hash_keys [OF assms, of "''sha256_hash''"] md h by simp
  moreover have "map_of md ''hash_note'' =
      Some (VStr (''File too large ('' @ str_nat (st_size f)
                  @ '' bytes), skipping hash calculation''))"
    using generic_extract_hash_keys [OF assms, of "''hash_note''"] md h by simp
  ultimately show "\<exists>md. generic_extract e p = Inr md
      \<and> map_of md ''md5_hash'' = None
      \<and> map_of md ''sha256_hash'' = None
      \<and> map_of md ''hash_note'' =
          Some (VStr (''File too large ('' @ str_nat (st_size f)
                      @ '' bytes), skipping hash calculation''))"
    using md by blast
qed

theorem hashing_law_witness:
  "(\<exists>md. generic_extract hello_env ''/tmp/hello.bin'' = Inr md
      \<and> map_of md ''md5_hash'' = Some (VStr ''5d41402abc4b2a76b9719d911017c592'')
      \<and> map_of md ''sha256_hash'' =
          Some (VStr ''2cf24dba5fb0a30e26e83b2ac5b9e29e1b161e5c1fa7425e73043362938b9824''))
   \<and> (\<exists>md. generic_extract large_env ''/tmp/large.iso'' = Inr md
      \<and> map_of md ''md5_hash'' = None
      \<and> map_of md ''sha256_hash'' = None
      \<and> map_of md ''hash_note'' =
          Some (VStr ''File too large (104857601 bytes), skipping hash calculation''))"
proof -
  have f1: "fs hello_env ''/tmp/hello.bin'' = Inr (regular_file 5 (Inr ''hello''))"
    by (simp add: hello_env_def with_file_def)
  have s1: "st_size (regular_file 5 (Inr ''hello'')) \<le> 100 * 1024 * 1024
      \<and> file_bytes (regular_file 5 (Inr ''hello'')) = Inr ''hello''"
    by (simp add: regular_file_def)
  have d1: "md5_hexdigest hello_env ''hello'' = ''5d41402abc4b2a76b9719d911017c592''"
    by (simp add: hello_env_def with_file_def bare_env_def sample_md5_def)
  have d2: "sha256_hexdigest hello_env ''hello''
          = ''2cf24dba5fb0a30e26e83b2ac5b9e29e1b161e5c1fa7425e73043362938b9824''"
    by (simp add: hello_env_def with_file_def bare_env_def sample_sha256_def)
  have f2: "fs large_env ''/tmp/large.iso''
      = Inr (regular_file 104857601 (Inl (OSError ''[Errno 13] Permission denied'')))"
    by (simp add: large_env_def with_file_def)
  have s2: "st_size (regular_file 104857601 (Inl (OSError ''[Errno 13] Permission denied'')))
      > 100 * 1024 * 1024"
    by (simp add: regular_file_def)
  have n2: "st_size (regular_file 104857601 (Inl (OSError ''[Errno 13] Permission denied'')))
      = 104857601"
    by (simp add: regular_file_def)
  have t2: "str_nat 104857601 = ''104857601''"
    by (simp add: str_nat.simps digit_char_def)
  have a: "\<exists>md. generic_extract hello_env ''/tmp/hello.bin'' = Inr md
      \<and> map_of md ''md5_hash'' = Some (VStr (md5_hexdigest hello_env ''hello''))
      \<and> map_of md ''sha256_hash'' = Some (VStr (sha256_hexdigest hello_env ''hello''))"
    using hashing_law [OF f1, of "''hello''"] s1 by blast
  have b: "\<exists>md. generic_extract large_env ''/tmp/large.iso'' = Inr md
      \<and> map_of md ''md5_hash'' = None
      \<and> map_of md ''sha256_hash'' = None
      \<and> map_of md ''hash_note'' =
          Some (VStr (''File too large (''
            @ str_nat (st_size (regular_file 104857601
                 (Inl (OSError ''[Errno 13] Permission denied''))))
            @ '' bytes), skipping hash calculation''))"
    using hashing_law [OF f2, of "[]"] s2 by blast
  have c: "''File too large ('' @ ''104857601'' @ '' bytes), skipping hash calculation''
      = ''File too large (104857601 bytes), skipping hash calculation''"
    by simp
  from a have a': "\<exists>md. generic_extract hello_env ''/tmp/hello.bin'' = Inr md
      \<and> map_of md ''md5_hash'' = Some (VStr ''5d41402abc4b2a76b9719d911017c592'')
      \<and> map_of md ''sha256_hash'' =
          Some (VStr ''2cf24dba5fb0a30e26e83b2ac5b9e29e1b161e5c1fa7425e73043362938b9824'')"
    by (simp only: d1 d2)
  from b have b': "\<exists>md. generic_extract large_env ''/tmp/large.iso'' = Inr md
      \<and> map_of md ''md5_hash'' = None
      \<and> map_of md ''sha256_hash'' = None
      \<and> map_of md ''hash_note'' =
          Some (VStr ''File too large (104857601 bytes), skipping hash calculation'')"
    by (simp only: n2 t2 c)
  from a' b' show ?thesis by (rule conjI)
qed

section \<open>The generic backend: header inspection\<close>

lemma match_signature_no_match:
  "(\<forall>x \<in> set sigs. \<not> startswith h (fst x)) \<Longrightarrow> match_signature h sigs md = md"
  by (induction h sigs md rule: match_signature.induct) auto

lemma match_signature_first:
  "(\<forall>x \<in> set pre. \<not> startswith h (fst x)) \<Longrightarrow> startswith h s \<Longrightarrow>
   match_signature h (pre @ (s, d) # post) md = dict_set md ''identified_format'' (VStr d)"
  by (induction pre) auto

lemma distinct_match_signature:
  "distinct (map fst md) \<Longrightarrow> distinct (map fst (match_signature h sigs md))"
  by (induction h sigs md rule: match_signature.induct) (auto simp: distinct_dict_set)

lemma inspect_header_readable:
  "open_rb e p = Inr f \<Longrightarrow>
   inspect_header e p n =
     match_signature (take n f) magic_signatures
       (dict_set (dict_set [] ''file_header_hex'' (VStr (join '' '' (map hex2 (take n f)))))
          ''file_header_ascii'' (VStr (map printable (take n f))))"
  by (simp add: inspect_header_def Let_def)

lemma distinct_inspect_header: "distinct (map fst (inspect_header e p n))"
proof (cases "open_rb e p")
  case (Inl x)
  then show ?thesis by (simp add: inspect_header_def)
next
  case (Inr f)
  then show ?thesis
    by (simp add: inspect_header_readable distinct_match_signature distinct_dict_set)
qed

lemma zip_signature_first:
  assumes "startswith f [CHR 0x50, CHR 0x4B, CHR 0x03, CHR 0x04]"
  shows "match_signature (take 16 f) magic_signatures md
           = dict_set md ''identified_format'' (VStr ''ZIP archive'')"
proof -
  obtain r where f: "f = CHR 0x50 # CHR 0x4B # CHR 0x03 # CHR 0x04 # r"
    using assms by (auto simp: startswith_def prefix_def)
  show ?thesis
    by (simp add: f magic_signatures_def startswith_def)
qed

text \<open>
  Claim C9 (magic-byte law). In \<open>inspect_header\<close> with its header of 16 bytes, for a file
  that can be read: when the content begins with the bytes 50 4B 03 04,
  \<open>identified_format\<close> is \<open>ZIP archive\<close>; when the header starts with none of the
  signatures of the table, there is no \<open>identified_format\<close> key; and when a signature
  matches and none before it in the table does, its label is the one taken.
\<close>

theorem magic_byte_law:
  assumes "open_rb e p = Inr f"
  shows "(startswith f [CHR 0x50, CHR 0x4B, CHR 0x03, CHR 0x04] \<longrightarrow>
            map_of (inspect_header e p 16) ''identified_format'' = Some (VStr ''ZIP archive''))
       \<and> ((\<forall>x \<in> set magic_signatures. \<not> startswith (take 16 f) (fst x)) \<longrightarrow>
            map_of (inspect_header e p 16) ''identified_format'' = None)
       \<and> (magic_signatures = pre @ (s, d) # post
            \<and> (\<forall>x \<in> set pre. \<not> startswith (take 16 f) (fst x))
            \<and> startswith (take 16 f) s \<longrightarrow>
            map_of (inspect_header e p 16) ''identified_format'' = Some (VStr d))"
proof (intro conjI impI)
  assume "startswith f [CHR 0x50, CHR 0x4B, CHR 0x03, CHR 0x04]"
  then show "map_of (inspect_header e p 16) ''identified_format'' = Some (VStr ''ZIP archive'')"
    using assms by (simp add: inspect_header_readable zip_signature_first map_of_dict_set)
next
  assume "\<forall>x \<in> set magic_signatures. \<not> startswith (take 16 f) (fst x)"
  then show "map_of (inspect_header e p 16) ''identified_format'' = None"
    using assms by (simp add: inspect_header_readable match_signature_no_match map_of_dict_set)
next
  assume a: "magic_signatures = pre @ (s, d) # post
      \<and> (\<forall>x \<in> set pre. \<not> startswith (take 16 f) (fst x)) \<and> startswith (take 16 f) s"
  then have "match_signature (take 16 f) magic_signatures md
      = dict_set md ''identified_format'' (VStr d)" for md
    using match_signature_first [of pre "take 16 f" s d post md] by simp
  then show "map_of (inspect_header e p 16) ''identified_format'' = Some (VStr d)"
    using assms by (simp add: inspect_header_readable map_of_dict_set)
qed

theorem magic_byte_law_witness:
  "map_of (inspect_header pk_env ''/tmp/a.bin'' 16) ''identified_format''
     = Some (VStr ''ZIP archive'')
   \<and> map_of (inspect_header hello_env ''/tmp/hello.bin'' 16) ''identified_format'' = None
   \<and> map_of (inspect_header gz_env ''/tmp/b.bin'' 16) ''identified_format''
     = Some (VStr ''GZIP compressed'')"
proof -
  have o1: "open_rb pk_env ''/tmp/a.bin'' = Inr (''PK'' @ [CHR 0x03, CHR 0x04] @ ''xy'')"
    by (simp add: open_rb_def pk_env_def with_file_def regular_file_def)
  have h1: "startswith (''PK'' @ [CHR 0x03, CHR 0x04] @ ''xy'')
      [CHR 0x50, CHR 0x4B, CHR 0x03, CHR 0x04]"
    by (simp add: startswith_def)
  have o2: "open_rb hello_env ''/tmp/hello.bin'' = Inr ''hello''"
    by (simp add: open_rb_def hello_env_def with_file_def regular_file_def)
  have h2: "\<forall>x \<in> set magic_signatures. \<not> startswith (take 16 ''hello'') (fst x)"
    by (simp add: magic_signatures_def startswith_def)
  have o3: "open_rb gz_env ''/tmp/b.bin'' = Inr [CHR 0x1F, CHR 0x8B, CHR 0x08]"
    by (simp add: open_rb_def gz_env_def with_file_def regular_file_def)
  have h3: "magic_signatures = take 5 magic_signatures
        @ ([CHR 0x1F, CHR 0x8B], ''GZIP compressed'') # drop 6 magic_signatures
      \<and> (\<forall>x \<in> set (take 5 magic_signatures).
            \<not> startswith (take 16 [CHR 0x1F, CHR 0x8B, CHR 0x08]) (fst x))
      \<and> startswith (take 16 [CHR 0x1F, CHR 0x8B, CHR 0x08]) [CHR 0x1F, CHR 0x8B]"
    by (simp add: magic_signatures_def startswith_def)
  have c1: "map_of (inspect_header pk_env ''/tmp/a.bin'' 16) ''identified_format''
      = Some (VStr ''ZIP archive'')"
    using magic_byte_law [OF o1, of "[]" "[]" "[]" "[]"] h1 by blast
  have c2: "map_of (inspect_header hello_env ''/tmp/hello.bin'' 16) ''identified_format'' = None"
    using magic_byte_law [OF o2, of "[]" "[]" "[]" "[]"] h2 by blast
  have c3: "map_of (inspect_header gz_env ''/tmp/b.bin'' 16) ''identified_format''
      = Some (VStr ''GZIP compressed'')"
    using magic_byte_law [OF o3, of "take 5 magic_signatures" "[CHR 0x1F, CHR 0x8B]"
        "''GZIP compressed''" "drop 6 magic_signatures"] h3
    by blast
  from c1 c2 c3 show ?thesis by blast
qed

section \<open>The archive backend\<close>

lemma zip_open_stat:
  assumes "zip_open e p = Inr info_list"
  shows "\<exists>st. os_stat e p = Inr st"
  using assms by (cases "fs e p") (simp_all add: zip_open_def open_rb_def os_stat_def)

lemma compression_ratio_no_raise:
  assumes "os_stat e p = Inr st"
  shows "compression_ratio e p tot md =
     Inr (if tot > 0
          then dict_set md ''compression_ratio_percent'' (VFloat (ratio_percent e (st_size st) tot))
          else md)"
  using assms by (simp add: compression_ratio_def truediv_def)

lemma extract_zip_open:
  assumes "zip_open e p = Inr info_list" and "os_stat e p = Inr st"
    and "tot = sum_list (map zip_file_size info_list)"
  shows "extract_zip e p =
     (let md = dict_set (dict_set (dict_set [] ''num_files'' (VInt (int (length info_list))))
                 ''compression_type'' (VStr ''ZIP''))
                 ''total_uncompressed_size_mb'' (VFloat (round2_div e tot (1024 * 1024)));
          md = (if tot > 0
                then dict_set md ''compression_ratio_percent''
                       (VFloat (ratio_percent e (st_size st) tot))
                else md);
          md = dict_set md ''file_list''
                 (VStr (join '', '' (map zip_filename (take 50 info_list))))
      in if length info_list > 50
         then dict_set md ''file_list_note''
                (VStr (''... and '' @ str_nat (length info_list - 50) @ '' more files''))
         else md)"
  by (simp only: extract_zip_def Let_def assms(1) assms(3) [symmetric] sum.case
      compression_ratio_no_raise [OF assms(2)])

lemma compression_ratio_guard_tot:
  assumes "zip_open e p = Inr info_list"
    and tot: "tot = sum_list (map zip_file_size info_list)"
  shows "(map_of (extract_zip e p) ''compression_ratio_percent'' \<noteq> None \<longleftrightarrow> tot > 0)
       \<and> map_of (extract_zip e p) ''zip_error'' = None
       \<and> (tot = 0 \<longrightarrow>
            map_of (extract_zip e p) ''compression_ratio_percent'' = None
            \<and> map_of (extract_zip e p) ''num_files'' = Some (VInt (int (length info_list)))
            \<and> map_of (extract_zip e p) ''compression_type'' = Some (VStr ''ZIP'')
            \<and> map_of (extract_zip e p) ''total_uncompressed_size_mb''
                = Some (VFloat (round2_div e 0 (1024 * 1024))))"
proof -
  obtain st where st: "os_stat e p = Inr st"
    using zip_open_stat [OF assms(1)] by blast
  show ?thesis
    by (simp add: extract_zip_open [OF assms(1) st tot] Let_def map_of_dict_set)
qed

text \<open>
  Claim C10. In \<open>extract_zip\<close>, for an archive that opens, \<open>compression_ratio_percent\<close>
  is stored exactly when the total uncompressed size of the members is positive, and the
  \<open>try\<close> block never ends in an exception (no \<open>zip_error\<close>): the division, which
  raises \<open>ZeroDivisionError\<close> on a zero divisor, is only reached behind the guard. When
  the members total zero bytes the key is absent, and \<open>num_files\<close>,
  \<open>compression_type\<close> and \<open>total_uncompressed_size_mb\<close> are present.
\<close>

theorem compression_ratio_guard:
  assumes "zip_open e p = Inr info_list"
  shows "(map_of (extract_zip e p) ''compression_ratio_percent'' \<noteq> None
            \<longleftrightarrow> sum_list (map zip_file_size info_list) > 0)
       \<and> map_of (extract_zip e p) ''zip_error'' = None
       \<and> (sum_list (map zip_file_size info_list) = 0 \<longrightarrow>
            map_of (extract_zip e p) ''compression_ratio_percent'' = None
            \<and> map_of (extract_zip e p) ''num_files'' = Some (VInt (int (length info_list)))
            \<and> map_of (extract_zip e p) ''compression_type'' = Some (VStr ''ZIP'')
            \<and> map_of (extract_zip e p) ''total_uncompressed_size_mb''
                = Some (VFloat (round2_div e 0 (1024 * 1024))))"
  by (rule compression_ratio_guard_tot [OF assms refl])

theorem compression_ratio_guard_witness:
  "map_of (extract_zip zip_empty_env ''/tmp/e.zip'') ''compression_ratio_percent'' = None
   \<and> map_of (extract_zip zip_empty_env ''/tmp/e.zip'') ''zip_error'' = None
   \<and> map_of (extract_zip zip_empty_env ''/tmp/e.zip'') ''num_files'' = Some (VInt 2)
   \<and> map_of (extract_zip zip_empty_env ''/tmp/e.zip'') ''compression_type''
       = Some (VStr ''ZIP'')
   \<and> map_of (extract_zip zip_empty_env ''/tmp/e.zip'') ''total_uncompressed_size_mb''
       = Some (VFloat (PyFloat ''0.0''))
   \<and> map_of (extract_zip zip_many_env ''/tmp/m.zip'') ''compression_ratio_percent'' \<noteq> None"
proof -
  have o1: "zip_open zip_empty_env ''/tmp/e.zip'' = Inr empty_members"
    by (simp add: zip_open_def open_rb_def zip_empty_env_def with_zip_def with_file_def
        regular_file_def)
  have z1: "sum_list (map zip_file_size empty_members) = 0"
    by (simp add: empty_members_def)
  have n1: "int (length empty_members) = 2"
    by (simp add: empty_members_def)
  have r1: "round2_div zip_empty_env 0 (1024 * 1024) = PyFloat ''0.0''"
    by (simp add: zip_empty_env_def with_zip_def with_file_def bare_env_def
        sample_round2_div_def two_decimals_def str_nat.simps digit_char_def)
  have o2: "zip_open zip_many_env ''/tmp/m.zip'' = Inr many_members"
    by (simp add: zip_open_def open_rb_def zip_many_env_def with_zip_def with_file_def
        regular_file_def)
  have z2: "sum_list (map zip_file_size many_members) > 0"
    by (simp add: many_members_def comp_def sum_list_triv)
  have c1: "map_of (extract_zip zip_empty_env ''/tmp/e.zip'') ''compression_ratio_percent'' = None
      \<and> map_of (extract_zip zip_empty_env ''/tmp/e.zip'') ''zip_error'' = None
      \<and> map_of (extract_zip zip_empty_env ''/tmp/e.zip'') ''num_files''
          = Some (VInt (int (length empty_members)))
      \<and> map_of (extract_zip zip_empty_env ''/tmp/e.zip'') ''compression_type''
          = Some (VStr ''ZIP'')
      \<and> map_of (extract_zip zip_empty_env ''/tmp/e.zip'') ''total_uncompressed_size_mb''
          = Some (VFloat (round2_div zip_empty_env 0 (1024 * 1024)))"
    using compression_ratio_guard [OF o1] z1 by blast
  have c2: "map_of (extract_zip zip_many_env ''/tmp/m.zip'') ''compression_ratio_percent'' \<noteq> None"
    using compression_ratio_guard [OF o2] z2 by blast
  from c1 c2 show ?thesis
    by (simp only: n1 r1 simp_thms)
qed

lemma extract_tar_open:
  assumes "tar_open e p = Inr members"
  shows "extract_tar e p =
     (let tot = sum_list (map tarinfo_size members);
          md = dict_set (dict_set (dict_set [] ''num_files'' (VInt (int (length members))))
                 ''compression_type'' (VStr ''TAR''))
                 ''total_uncompressed_size_mb'' (VFloat (round2_div e tot (1024 * 1024)));
          md = dict_set md ''file_list''
                 (VStr (join '', '' (map tarinfo_name (take 50 members))))
      in if length members > 50
         then dict_set md ''file_list_note''
                (VStr (''... and '' @ str_nat (length members - 50) @ '' more files''))
         else md)"
  using assms by (simp add: extract_tar_def Let_def)

text \<open>
  Claim C6 (list truncation law). For a ZIP or TAR archive that opens with a member list
  of length \<open>n\<close>: \<open>file_list\<close> is the names of the first 50 members (all of them
  when \<open>n \<le> 50\<close>, exactly 50 when \<open>n > 50\<close>), joined by a comma and a space; when
  \<open>n > 50\<close> the entry \<open>file_list_note\<close> reads \<open>... and N more files\<close> with
  \<open>N = n - 50\<close>, and when \<open>n \<le> 50\<close> there is no \<open>file_list_note\<close>.
\<close>

theorem list_truncation_law:
  "(zip_open e p = Inr info_list \<longrightarrow>
      map_of (extract_zip e p) ''file_list''
        = Some (VStr (join '', '' (map zip_filename (take 50 info_list))))
      \<and> (length info_list > 50 \<longrightarrow>
            length (take 50 info_list) = 50
            \<and> map_of (extract_zip e p) ''file_list_note''
                = Some (VStr (''... and '' @ str_nat (length info_list - 50) @ '' more files'')))
      \<and> (length info_list \<le> 50 \<longrightarrow>
            take 50 info_list = info_list
            \<and> map_of (extract_zip e p) ''file_list_note'' = None))
   \<and> (tar_open e p = Inr members \<longrightarrow>
      map_of (extract_tar e p) ''file_list''
        = Some (VStr (join '', '' (map tarinfo_name (take 50 members))))
      \<and> (length members > 50 \<longrightarrow>
            length (take 50 members) = 50
            \<and> map_of (extract_tar e p) ''file_list_note''
                = Some (VStr (''... and '' @ str_nat (length members - 50) @ '' more files'')))
      \<and> (length members \<le> 50 \<longrightarrow>
            take 50 members = members
            \<and> map_of (extract_tar e p) ''file_list_note'' = None))"
proof (intro conjI impI)
  assume z: "zip_open e p = Inr info_list"
  obtain st where st: "os_stat e p = Inr st"
    using zip_open_stat [OF z] by blast
  show "map_of (extract_zip e p) ''file_list''
      = Some (VStr (join '', '' (map zip_filename (take 50 info_list))))"
    by (simp add: extract_zip_open [OF z st refl] Let_def map_of_dict_set)
  show "length (take 50 info_list) = 50" if "length info_list > 50"
    using that by simp
  show "map_of (extract_zip e p) ''file_list_note''
      = Some (VStr (''... and '' @ str_nat (length info_list - 50) @ '' more files''))"
    if "length info_list > 50"
    using that by (simp add: extract_zip_open [OF z st refl] Let_def map_of_dict_set)
  show "take 50 info_list = info_list" if "length info_list \<le> 50"
    using that by simp
  show "map_of (extract_zip e p) ''file_list_note'' = None" if "length info_list \<le> 50"
    using that by (simp add: extract_zip_open [OF z st refl] Let_def map_of_dict_set)
next
  assume t: "tar_open e p = Inr members"
  show "map_of (extract_tar e p) ''file_list''
      = Some (VStr (join '', '' (map tarinfo_name (take 50 members))))"
    by (simp add: extract_tar_open [OF t] Let_def map_of_dict_set)
  show "length (take 50 members) = 50" if "length members > 50"
    using that by simp
  show "map_of (extract_tar e p) ''file_list_note''
      = Some (VStr (''... and '' @ str_nat (length members - 50) @ '' more files''))"
    if "length members > 50"
    using that by (simp add: extract_tar_open [OF t] Let_def map_of_dict_set)
  show "take 50 members = members" if "length members \<le> 50"
    using that by simp
  show "map_of (extract_tar e p) ''file_list_note'' = None" if "length members \<le> 50"
    using that by (simp add: extract_tar_open [OF t] Let_def map_of_dict_set)
qed

theorem list_truncation_law_witness:
  "map_of (extract_zip zip_many_env ''/tmp/m.zip'') ''file_list_note''
     = Some (VStr ''... and 1 more files'')
   \<and> map_of (extract_zip zip_many_env ''/tmp/m.zip'') ''file_list''
     = Some (VStr (join '', '' (map zip_filename (take 50 many_members))))
   \<and> map_of (extract_zip zip_empty_env ''/tmp/e.zip'') ''file_list''
     = Some (VStr ''empty.txt, dir/'')
   \<and> map_of (extract_zip zip_empty_env ''/tmp/e.zip'') ''file_list_note'' = None
   \<and> map_of (extract_tar tar_many_env ''/tmp/m.tar.gz'') ''file_list_note''
     = Some (VStr ''... and 3 more files'')
   \<and> map_of (extract_tar tar_few_env ''/tmp/f.tar'') ''file_list'' = Some (VStr ''a, b, c'')
   \<and> map_of (extract_tar tar_few_env ''/tmp/f.tar'') ''file_list_note'' = None"
proof -
  have o1: "zip_open zip_many_env ''/tmp/m.zip'' = Inr many_members"
    by (simp add: zip_open_def open_rb_def zip_many_env_def with_zip_def with_file_def
        regular_file_def)
  have l1: "length many_members > 50"
    by (simp add: many_members_def)
  have n1: "''... and '' @ str_nat (length many_members - 50) @ '' more files''
      = ''... and 1 more files''"
    by (simp add: many_members_def str_nat.simps digit_char_def)
  have o2: "zip_open zip_empty_env ''/tmp/e.zip'' = Inr empty_members"
    by (simp add: zip_open_def open_rb_def zip_empty_env_def with_zip_def with_file_def
        regular_file_def)
  have l2: "length empty_members \<le> 50"
    by (simp add: empty_members_def)
  have j2: "join '', '' (map zip_filename (take 50 empty_members)) = ''empty.txt, dir/''"
    by (simp add: empty_members_def)
  have o3: "tar_open tar_many_env ''/tmp/m.tar.gz'' = Inr many_tar_members"
    by (simp add: tar_open_def open_rb_def tar_many_env_def with_tar_def with_file_def
        regular_file_def)
  have l3: "length many_tar_members > 50"
    by (simp add: many_tar_members_def)
  have n3: "''... and '' @ str_nat (length many_tar_members - 50) @ '' more files''
      = ''... and 3 more files''"
    by (simp add: many_tar_members_def str_nat.simps digit_char_def)
  have o4: "tar_open tar_few_env ''/tmp/f.tar'' = Inr few_tar_members"
    by (simp add: tar_open_def open_rb_def tar_few_env_def with_tar_def with_file_def
        regular_file_def)
  have l4: "length few_tar_members \<le> 50"
    by (simp add: few_tar_members_def)
  have j4: "join '', '' (map tarinfo_name (take 50 few_tar_members)) = ''a, b, c''"
    by (simp add: few_tar_members_def)
  note t1 = list_truncation_law [of zip_many_env "''/tmp/m.zip''" many_members "[]"]
  note t2 = list_truncation_law [of zip_empty_env "''/tmp/e.zip''" empty_members "[]"]
  note t3 = list_truncation_law [of tar_many_env "''/tmp/m.tar.gz''" "[]" many_tar_members]
  note t4 = list_truncation_law [of tar_few_env "''/tmp/f.tar''" "[]" few_tar_members]
  have c1: "map_of (extract_zip zip_many_env ''/tmp/m.zip'') ''file_list_note''
      = Some (VStr (''... and '' @ str_nat (length many_members - 50) @ '' more files''))"
    using t1 o1 l1 by blast
  have c1': "map_of (extract_zip zip_many_env ''/tmp/m.zip'') ''file_list''
      = Some (VStr (join '', '' (map zip_filename (take 50 many_members))))"
    using t1 o1 by blast
  have c2: "map_of (extract_zip zip_empty_env ''/tmp/e.zip'') ''file_list''
      = Some (VStr (join '', '' (map zip_filename (take 50 empty_members))))"
    using t2 o2 by blast
  have c2': "map_of (extract_zip zip_empty_env ''/tmp/e.zip'') ''file_list_note'' = None"
    using t2 o2 l2 by blast
  have c3: "map_of (extract_tar tar_many_env ''/tmp/m.tar.gz'') ''file_list_note''
      = Some (VStr (''... and '' @ str_nat (length many_tar_members - 50) @ '' more files''))"
    using t3 o3 l3 by blast
  have c4: "map_of (extract_tar tar_few_env ''/tmp/f.tar'') ''file_list''
      = Some (VStr (join '', '' (map tarinfo_name (take 50 few_tar_members))))"
    using t4 o4 by blast
  have c4': "map_of (extract_tar tar_few_env ''/tmp/f.tar'') ''file_list_note'' = None"
    using t4 o4 l4 by blast
  from c1 c1' c2 c2' c3 c4 c4' show ?thesis
    by (simp only: n1 j2 n3 j4 simp_thms)
qed

section \<open>The document backend: previews\<close>

lemma replace_newline_none: "newline \<notin> set (replace_char newline (CHR '' '') s)"
  by (auto simp: replace_char_def newline_def)

lemma length_replace_char: "length (replace_char a b s) = length s"
  by (simp add: replace_char_def)

lemma extract_txt_preview:
  assumes "open_rb e p = Inr b"
  shows "map_of (extract_txt e p) ''preview''
           = Some (VStr (replace_char newline (CHR '' '') (take 200 (read_text e b))))
       \<and> length (replace_char newline (CHR '' '') (take 200 (read_text e b)))
           = min (length (read_text e b)) 200
       \<and> newline \<notin> set (replace_char newline (CHR '' '') (take 200 (read_text e b)))"
  using assms
  by (simp add: extract_txt_def Let_def map_of_dict_set replace_newline_none
      length_replace_char)

lemma extract_pdf_preview:
  assumes "open_rb e p = Inr b" and "PdfReader e b = Inr reader"
    and "pages reader = Inr (Some t) # rest"
  shows "map_of (extract_pdf e p) ''first_page_preview''
           = Some (VStr (replace_char newline (CHR '' '') (take 200 t)))"
  using assms
  by (simp add: extract_pdf_def pdf_open_def Let_def map_of_dict_set)

lemma extract_docx_preview:
  assumes "open_rb e p = Inr b" and "Document e b = Inr doc"
    and "paragraphs doc = first_para # rest"
  shows "map_of (extract_docx e p) ''first_paragraph_preview''
           = Some (VStr (take 200 first_para))"
  using assms
  by (simp add: extract_docx_def docx_open_def Let_def map_of_dict_set)

text \<open>
  Claim C7 (preview truncation law). Every preview of the document backend is cut to its
  first 200 characters and has each newline replaced by a space. The text preview and
  the PDF preview are (\<open>extract_txt_preview\<close>, \<open>extract_pdf_preview\<close>). The DOCX preview
  is cut to 200 characters and stored as it is (\<open>extract_docx_preview\<close>): for a document
  whose first paragraph holds a line break, the stored \<open>first_paragraph_preview\<close> still
  contains the newline, so it is not the preview with newlines replaced.
\<close>

theorem docx_preview_keeps_newline:
  "map_of (extract_docx docx_env ''/tmp/r.docx'') ''first_paragraph_preview''
     = Some (VStr (''Line one'' @ [newline] @ ''line two''))
   \<and> newline \<in> set (''Line one'' @ [newline] @ ''line two'')
   \<and> (''Line one'' @ [newline] @ ''line two'')
      \<noteq> replace_char newline (CHR '' '') (''Line one'' @ [newline] @ ''line two'')"
proof -
  have o: "open_rb docx_env ''/tmp/r.docx'' = Inr ''PK..''"
    by (simp add: open_rb_def docx_env_def with_file_def regular_file_def)
  have d: "Document docx_env ''PK..'' = Inr sample_doc"
    by (simp add: docx_env_def with_file_def)
  have ps: "paragraphs sample_doc
      = (''Line one'' @ [newline] @ ''line two'') # [''Second paragraph'']"
    by (simp add: sample_doc_def)
  have "map_of (extract_docx docx_env ''/tmp/r.docx'') ''first_paragraph_preview''
      = Some (VStr (take 200 (''Line one'' @ [newline] @ ''line two'')))"
    by (rule extract_docx_preview [OF o d ps])
  then show ?thesis
    by (simp add: replace_char_def newline_def)
qed

section \<open>The type classifier: detection\<close>

text \<open>
  Claim C3, as it is worded: for every path, existing or not, \<open>detect_type\<close> sniffs the
  content first, falls back to the extension lookup when sniffing is unavailable or
  fails, and returns the octet-stream type only when both fail. On a path that does not
  exist the function does none of this: the guard \<open>os.path.exists\<close> returns
  \<open>unknown/unknown\<close> at once, although the extension lookup knows the \<open>.txt\<close> suffix.
\<close>

theorem detect_type_missing_counterexample:
  "detect_type bare_env ''/tmp/missing.txt'' = Inr ''unknown/unknown''
   \<and> guess_type bare_env ''/tmp/missing.txt'' = Inr (Some ''text/plain'')
   \<and> detect_type_spec bare_env ''/tmp/missing.txt'' = Inr ''text/plain''"
  by (simp add: detect_type_def detect_type_spec_def os_path_exists_def os_stat_def
      bare_env_def splitext_def basename_def)

text \<open>
  Two calls of \<open>detect_type\<close> stand outside its \<open>try\<close> block. \<open>mimetypes.guess_type\<close>
  raises \<open>ValueError\<close> on a name that parses as a malformed URL, and the \<open>print\<close> of the
  handler raises on a console that cannot encode the warning sign.
\<close>

lemma detect_type_guess_type_raises:
  "os_path_exists bad_url_env ''x://[a/b.txt''
   \<and> detect_type bad_url_env ''x://[a/b.txt'' = Inl (ValueError ''Invalid IPv6 URL'')"
  by (simp add: detect_type_def os_path_exists_def os_stat_def magic_detection_def
      mimetypes_fallback_def bad_url_env_def with_file_def bare_env_def)

lemma detect_type_print_raises:
  "os_path_exists cp1252_env ''/tmp/notes.txt''
   \<and> detect_type cp1252_env ''/tmp/notes.txt''
       = Inl (UnicodeEncodeError ''charmap codec cannot encode character'')"
  by (simp add: detect_type_def os_path_exists_def os_stat_def magic_detection_def
      cp1252_env_def magic_fail_env_def notes_env_def with_file_def bare_env_def)

text \<open>
  Claim C3, amended. For a path that does not exist \<open>detect_type\<close> returns
  \<open>unknown/unknown\<close>, without attempting any detection. For a path that exists it
  attempts content sniffing first and returns the sniffed type when python-magic is
  available and succeeds; when python-magic is unavailable, or fails and the warning is
  printed, it falls back to the extension lookup and returns the type that lookup
  gives, or \<open>application/octet-stream\<close> when the lookup gives none. The octet-stream type
  is returned only when sniffing or the lookup itself gave it, or when both failed.
\<close>

theorem detect_type_guarded:
  "(\<not> os_path_exists e p \<longrightarrow> detect_type e p = Inr ''unknown/unknown'')
   \<and> (os_path_exists e p \<and> MAGIC_AVAILABLE e \<and> magic_from_file e p = Inr mime
        \<longrightarrow> detect_type e p = Inr mime)
   \<and> (os_path_exists e p
        \<and> (\<not> MAGIC_AVAILABLE e
            \<or> (magic_from_file e p = Inl x \<and> stdout_print e (magic_warning x) = None))
        \<and> guess_type e p = Inr (Some t) \<and> t \<noteq> []
        \<longrightarrow> detect_type e p = Inr t)
   \<and> (os_path_exists e p
        \<and> (\<not> MAGIC_AVAILABLE e
            \<or> (magic_from_file e p = Inl x \<and> stdout_print e (magic_warning x) = None))
        \<and> (guess_type e p = Inr None \<or> guess_type e p = Inr (Some []))
        \<longrightarrow> detect_type e p = Inr ''application/octet-stream'')
   \<and> (os_path_exists e p \<and> detect_type e p = Inr ''application/octet-stream''
        \<longrightarrow> (MAGIC_AVAILABLE e \<and> magic_from_file e p = Inr ''application/octet-stream'')
            \<or> ((\<not> MAGIC_AVAILABLE e \<or> (\<exists>y. magic_from_file e p = Inl y))
                \<and> (guess_type e p = Inr None \<or> guess_type e p = Inr (Some [])
                    \<or> guess_type e p = Inr (Some ''application/octet-stream''))))"
proof (intro conjI impI)
  assume "\<not> os_path_exists e p"
  then show "detect_type e p = Inr ''unknown/unknown''"
    by (simp add: detect_type_def)
next
  assume "os_path_exists e p \<and> MAGIC_AVAILABLE e \<and> magic_from_file e p = Inr mime"
  then show "detect_type e p = Inr mime"
    by (simp add: detect_type_def magic_detection_def)
next
  assume a: "os_path_exists e p
      \<and> (\<not> MAGIC_AVAILABLE e
          \<or> (magic_from_file e p = Inl x \<and> stdout_print e (magic_warning x) = None))
      \<and> guess_type e p = Inr (Some t) \<and> t \<noteq> []"
  then have "magic_detection e p = Inr None"
    by (auto simp: magic_detection_def)
  with a show "detect_type e p = Inr t"
    by (simp add: detect_type_def mimetypes_fallback_def)
next
  assume a: "os_path_exists e p
      \<and> (\<not> MAGIC_AVAILABLE e
          \<or> (magic_from_file e p = Inl x \<and> stdout_print e (magic_warning x) = None))
      \<and> (guess_type e p = Inr None \<or> guess_type e p = Inr (Some []))"
  then have "magic_detection e p = Inr None"
    by (auto simp: magic_detection_def)
  with a show "detect_type e p = Inr ''application/octet-stream''"
    by (auto simp: detect_type_def mimetypes_fallback_def)
next
  assume a: "os_path_exists e p \<and> detect_type e p = Inr ''application/octet-stream''"
  show "(MAGIC_AVAILABLE e \<and> magic_from_file e p = Inr ''application/octet-stream'')
      \<or> ((\<not> MAGIC_AVAILABLE e \<or> (\<exists>y. magic_from_file e p = Inl y))
          \<and> (guess_type e p = Inr None \<or> guess_type e p = Inr (Some [])
              \<or> guess_type e p = Inr (Some ''application/octet-stream'')))"
  proof (cases "MAGIC_AVAILABLE e \<and> (\<exists>m. magic_from_file e p = Inr m)")
    case True
    with a show ?thesis
      by (auto simp: detect_type_def magic_detection_def)
  next
    case False
    then have f: "\<not> MAGIC_AVAILABLE e \<or> (\<exists>y. magic_from_file e p = Inl y)"
      by (cases "magic_from_file e p") auto
    have "magic_detection e p = Inr None \<or> (\<exists>y. magic_detection e p = Inl y)"
      using False
      by (cases "magic_from_file e p") (auto simp: magic_detection_def split: option.splits)
    with a have "mimetypes_fallback e p = Inr ''application/octet-stream''"
      by (auto simp: detect_type_def)
    then have "guess_type e p = Inr None \<or> guess_type e p = Inr (Some [])
        \<or> guess_type e p = Inr (Some ''application/octet-stream'')"
      by (auto simp: mimetypes_fallback_def split: sum.splits option.splits if_splits)
    with f show ?thesis by blast
  qed
qed

theorem detect_type_guarded_witness:
  "detect_type bare_env ''/tmp/missing.txt'' = Inr ''unknown/unknown''
   \<and> detect_type magic_env ''/tmp/hello.bin'' = Inr ''text/plain''
   \<and> detect_type notes_env ''/tmp/notes.txt'' = Inr ''text/plain''
   \<and> detect_type magic_fail_env ''/tmp/notes.txt'' = Inr ''text/plain''
   \<and> detect_type hello_env ''/tmp/hello.bin'' = Inr ''application/octet-stream''
   \<and> (guess_type hello_env ''/tmp/hello.bin'' = Inr None
       \<or> guess_type hello_env ''/tmp/hello.bin'' = Inr (Some [])
       \<or> guess_type hello_env ''/tmp/hello.bin'' = Inr (Some ''application/octet-stream''))"
proof -
  let ?lib = "LibraryError ''failed to find libmagic''"
  have e0: "\<not> os_path_exists bare_env ''/tmp/missing.txt''"
    by (simp add: os_path_exists_def os_stat_def bare_env_def)
  have e1: "os_path_exists magic_env ''/tmp/hello.bin'' \<and> MAGIC_AVAILABLE magic_env
      \<and> magic_from_file magic_env ''/tmp/hello.bin'' = Inr ''text/plain''"
    by (simp add: os_path_exists_def os_stat_def magic_env_def hello_env_def with_file_def)
  have e2: "os_path_exists notes_env ''/tmp/notes.txt''
      \<and> (\<not> MAGIC_AVAILABLE notes_env
          \<or> (magic_from_file notes_env ''/tmp/notes.txt'' = Inl ?lib
              \<and> stdout_print notes_env (magic_warning ?lib) = None))
      \<and> guess_type notes_env ''/tmp/notes.txt'' = Inr (Some ''text/plain'')
      \<and> ''text/plain'' \<noteq> []"
    by (simp add: os_path_exists_def os_stat_def notes_env_def with_file_def bare_env_def
        splitext_def basename_def)
  have e3: "os_path_exists magic_fail_env ''/tmp/notes.txt''
      \<and> (\<not> MAGIC_AVAILABLE magic_fail_env
          \<or> (magic_from_file magic_fail_env ''/tmp/notes.txt'' = Inl ?lib
              \<and> stdout_print magic_fail_env (magic_warning ?lib) = None))
      \<and> guess_type magic_fail_env ''/tmp/notes.txt'' = Inr (Some ''text/plain'')
      \<and> ''text/plain'' \<noteq> []"
    by (simp add: os_path_exists_def os_stat_def magic_fail_env_def notes_env_def with_file_def
        bare_env_def splitext_def basename_def)
  have e4: "os_path_exists hello_env ''/tmp/hello.bin''
      \<and> (\<not> MAGIC_AVAILABLE hello_env
          \<or> (magic_from_file hello_env ''/tmp/hello.bin'' = Inl ?lib
              \<and> stdout_print hello_env (magic_warning ?lib) = None))
      \<and> (guess_type hello_env ''/tmp/hello.bin'' = Inr None
          \<or> guess_type hello_env ''/tmp/hello.bin'' = Inr (Some []))"
    by (simp add: os_path_exists_def os_stat_def hello_env_def with_file_def bare_env_def
        splitext_def basename_def)
  have m4: "\<not> MAGIC_AVAILABLE hello_env"
    by (simp add: hello_env_def with_file_def bare_env_def)
  have c0: "detect_type bare_env ''/tmp/missing.txt'' = Inr ''unknown/unknown''"
    using detect_type_guarded [of bare_env "''/tmp/missing.txt''" "[]" ?lib "[]"] e0 by blast
  have c1: "detect_type magic_env ''/tmp/hello.bin'' = Inr ''text/plain''"
    using detect_type_guarded [of magic_env "''/tmp/hello.bin''" "''text/plain''" ?lib "[]"] e1
    by blast
  have c2: "detect_type notes_env ''/tmp/notes.txt'' = Inr ''text/plain''"
    using detect_type_guarded [of notes_env "''/tmp/notes.txt''" "[]" ?lib "''text/plain''"] e2
    by blast
  have c3: "detect_type magic_fail_env ''/tmp/notes.txt'' = Inr ''text/plain''"
    using detect_type_guarded [of magic_fail_env "''/tmp/notes.txt''" "[]" ?lib
        "''text/plain''"] e3
    by blast
  have c4: "detect_type hello_env ''/tmp/hello.bin'' = Inr ''application/octet-stream''"
    using detect_type_guarded [of hello_env "''/tmp/hello.bin''" "[]" ?lib "[]"] e4 by blast
  have c5: "guess_type hello_env ''/tmp/hello.bin'' = Inr None
      \<or> guess_type hello_env ''/tmp/hello.bin'' = Inr (Some [])
      \<or> guess_type hello_env ''/tmp/hello.bin'' = Inr (Some ''application/octet-stream'')"
    using detect_type_guarded [of hello_env "''/tmp/hello.bin''" "[]" ?lib "[]"] e4 c4 m4
    by blast
  from c0 c1 c2 c3 c4 c5 show ?thesis by blast
qed

section \<open>Extraction after the first stat\<close>

text \<open>
  Every backend starts with \<open>get_basic_info\<close>, whose \<open>os.stat\<close> is outside any
  \<open>try\<close>; every later stage is a \<open>try\<close> block whose handler stores the message of the
  exception under a key of its own. The lemmas below follow each backend stage by stage.
\<close>

lemma distinct_hachoir_lines:
  "distinct (map fst md) \<Longrightarrow> distinct (map fst (hachoir_lines md ls))"
proof (induction md ls rule: hachoir_lines.induct)
  case (1 metadata)
  then show ?case by simp
next
  case (2 metadata line rest)
  show ?case
  proof (cases "py_in '': '' line")
    case False
    with 2 show ?thesis by simp
  next
    case True
    obtain key val where kv: "split_once '': '' line = (key, val)"
      by (cases "split_once '': '' line")
    have "distinct (map fst (dict_set metadata (''hachoir_'' @ strip key) (VStr (strip val))))"
      using 2(3) by (rule distinct_dict_set)
    then show ?thesis
      using 2(1) [OF True kv [symmetric]] True kv by simp
  qed
qed

lemma distinct_extract_with_hachoir: "distinct (map fst (extract_with_hachoir e p))"
  by (simp add: extract_with_hachoir_def Let_def distinct_dict_set distinct_hachoir_lines
      split: sum.splits option.splits)

lemma hachoir_exception_recorded:
  assumes "hachoir_exception e p = Some x"
  shows "map_of (extract_with_hachoir e p) ''hachoir_error'' = Some (VStr (exn_str x))"
  using assms
  by (auto simp: hachoir_exception_def extract_with_hachoir_def Let_def map_of_dict_set
      split: sum.splits option.splits)

lemma map_of_dict_update_empty:
  "distinct (map fst info) \<Longrightarrow> map_of (dict_update [] info) k = map_of info k"
  by (simp add: map_of_dict_update_distinct split: option.splits)

lemma generic_basic_info_stat:
  "os_stat e p = Inr st \<Longrightarrow> \<exists>info. generic_get_basic_info e p = Inr info"
  by (simp add: generic_get_basic_info_def)

lemma basic_info_stat:
  "os_stat e p = Inr st \<Longrightarrow> \<exists>info. get_basic_info e p = Inr info"
  by (simp add: get_basic_info_def)

lemma distinct_generic_basic_info:
  "generic_get_basic_info e p = Inr info \<Longrightarrow> distinct (map fst info)"
  by (simp add: keys_generic_basic_info)

text \<open>The run of a library \<open>try\<close> block.\<close>

lemma distinct_run_try_block: "distinct (map fst (run_try_block r k))"
  by (simp add: run_try_block_def Let_def distinct_dict_set distinct_dict_update
      split: option.splits)

lemma run_try_block_raised:
  "raised r = Some x \<Longrightarrow> map_of (run_try_block r k) k = Some (VStr (exn_str x))"
  by (simp add: run_try_block_def Let_def map_of_dict_set)

lemma keys_exifread_tags:
  "k \<in> fst ` set (exifread_tags md tags) \<Longrightarrow> k \<in> fst ` set md \<or> startswith k ''exifread_''"
proof (induction md tags rule: exifread_tags.induct)
  case (1 metadata)
  then show ?case by simp
next
  case (2 metadata tag val rest)
  then show ?case
    by (auto simp: keys_dict_set startswith_def split: if_splits)
qed

lemma keys_extract_with_exifread:
  assumes "k \<in> fst ` set (extract_with_exifread e p)"
  shows "startswith k ''exifread_''"
proof (cases "exifread_open e p")
  case (Inl x)
  with assms show ?thesis
    by (simp add: extract_with_exifread_def startswith_def)
next
  case (Inr tags)
  with assms show ?thesis
    using keys_exifread_tags [of k "[]" tags] by (simp add: extract_with_exifread_def)
qed

lemma keys_tinytag_fields:
  "k \<in> fst ` set (tinytag_fields md tag ks) \<Longrightarrow> k \<in> fst ` set md \<or> startswith k ''tinytag_''"
proof (induction md tag ks rule: tinytag_fields.induct)
  case (1 metadata tag)
  then show ?case by simp
next
  case (2 metadata tag key rest)
  then show ?case
    by (cases "tag key") (auto simp: keys_dict_set startswith_def)
qed

lemma keys_extract_with_tinytag:
  assumes "k \<in> fst ` set (extract_with_tinytag e p)"
  shows "startswith k ''tinytag_''"
proof (cases "TinyTag_get e p")
  case (Inl x)
  with assms show ?thesis
    by (simp add: extract_with_tinytag_def startswith_def)
next
  case (Inr tag)
  with assms show ?thesis
    using keys_tinytag_fields [of k "[]" tag tinytag_field_names]
    by (simp add: extract_with_tinytag_def)
qed

lemma generic_extract_lookup:
  assumes st: "os_stat e p = Inr st"
  shows "\<exists>md info. generic_extract e p = Inr md \<and> generic_get_basic_info e p = Inr info \<and>
     (\<forall>k. map_of md k =
        (case map_of (inspect_header e p 16) k of
           Some v \<Rightarrow> Some v
         | None \<Rightarrow>
             (case (if HACHOIR_AVAILABLE e then map_of (extract_with_hachoir e p) k else None) of
                Some v \<Rightarrow> Some v
              | None \<Rightarrow>
                  (case map_of (calculate_hashes e p max_size_default) k of
                     Some v \<Rightarrow> Some v
                   | None \<Rightarrow> map_of info k))))"
proof -
  obtain info where info: "generic_get_basic_info e p = Inr info"
    using generic_basic_info_stat [OF st] by blast
  have d: "distinct (map fst info)"
    using info by (rule distinct_generic_basic_info)
  show ?thesis
    by (simp add: generic_extract_def info Let_def map_of_dict_update_distinct
        map_of_dict_update_empty [OF d]
        distinct_inspect_header distinct_extract_with_hachoir distinct_calculate_hashes
        del: map_of_eq_Some_iff split: option.split)
qed

lemma generic_extract_errors:
  assumes st: "os_stat e p = Inr st"
  shows "\<exists>md. generic_extract e p = Inr md
     \<and> (open_rb e p = Inl x \<longrightarrow>
          map_of md ''header_error'' = Some (VStr (exn_str x))
          \<and> (st_size st \<le> max_size_default \<longrightarrow>
               map_of md ''hash_error'' = Some (VStr (exn_str x))))
     \<and> (HACHOIR_AVAILABLE e \<and> hachoir_exception e p = Some x \<longrightarrow>
          map_of md ''hachoir_error'' = Some (VStr (exn_str x)))"
proof -
  obtain md info where md: "generic_extract e p = Inr md"
    and lk: "\<And>k. map_of md k =
        (case map_of (inspect_header e p 16) k of
           Some v \<Rightarrow> Some v
         | None \<Rightarrow>
             (case (if HACHOIR_AVAILABLE e then map_of (extract_with_hachoir e p) k else None) of
                Some v \<Rightarrow> Some v
              | None \<Rightarrow>
                  (case map_of (calculate_hashes e p max_size_default) k of
                     Some v \<Rightarrow> Some v
                   | None \<Rightarrow> map_of info k)))"
    using generic_extract_lookup [OF st] by blast
  have nh: "map_of (extract_with_hachoir e p) ''hash_error'' = None"
  proof -
    have "\<not> startswith ''hash_error'' ''hachoir_''"
      by (simp add: startswith_def)
    then have "''hash_error'' \<notin> fst ` set (extract_with_hachoir e p)"
      using keys_extract_with_hachoir by blast
    then show ?thesis by (simp add: map_of_eq_None_iff)
  qed
  have 1: "map_of md ''header_error'' = Some (VStr (exn_str x))" if "open_rb e p = Inl x"
    using lk [of "''header_error''"] that by (simp add: inspect_header_def)
  have 2: "map_of md ''hash_error'' = Some (VStr (exn_str x))"
    if "open_rb e p = Inl x" and "st_size st \<le> max_size_default"
  proof -
    have h: "inspect_header e p 16 = [(''header_error'', VStr (exn_str x))]"
      using that by (simp add: inspect_header_def)
    have s: "calculate_hashes e p max_size_default = [(''hash_error'', VStr (exn_str x))]"
      using that st by (simp add: calculate_hashes_def os_path_getsize_def)
    show ?thesis
      using lk [of "''hash_error''"] by (simp add: h s nh)
  qed
  have 3: "map_of md ''hachoir_error'' = Some (VStr (exn_str x))"
    if "HACHOIR_AVAILABLE e" and "hachoir_exception e p = Some x"
  proof -
    have "''hachoir_error'' \<notin> fst ` set (inspect_header e p 16)"
      using keys_inspect_header [of e p 16] by auto
    then have h: "map_of (inspect_header e p 16) ''hachoir_error'' = None"
      by (simp add: map_of_eq_None_iff)
    show ?thesis
      using lk [of "''hachoir_error''"] that
      by (simp add: h hachoir_exception_recorded)
  qed
  from md 1 2 3 show ?thesis by blast
qed

lemma image_extract_errors:
  assumes st: "os_stat e p = Inr st"
  shows "\<exists>md. image_extract e p = Inr md
     \<and> (PIL_AVAILABLE e \<and> raised (pil_block e p) = Some x \<longrightarrow>
          map_of md ''pil_error'' = Some (VStr (exn_str x)))
     \<and> (EXIFREAD_AVAILABLE e \<and> exifread_open e p = Inl x \<longrightarrow>
          map_of md ''exifread_error'' = Some (VStr (exn_str x)))"
proof -
  obtain info where info: "get_basic_info e p = Inr info"
    using basic_info_stat [OF st] by blast
  define m1 where "m1 = (if PIL_AVAILABLE e
      then dict_update (dict_update [] info) (extract_with_pil e p) else dict_update [] info)"
  define m2 where "m2 = (if EXIFREAD_AVAILABLE e
      then dict_update m1 (extract_with_exifread e p) else m1)"
  have md: "image_extract e p = Inr m2"
    by (simp add: image_extract_def info Let_def m1_def m2_def)
  have 1: "map_of m2 ''pil_error'' = Some (VStr (exn_str x))"
    if "PIL_AVAILABLE e" and "raised (pil_block e p) = Some x"
  proof -
    have "map_of m1 ''pil_error'' = Some (VStr (exn_str x))"
      using that
      by (simp add: m1_def extract_with_pil_def map_of_dict_update_in distinct_run_try_block
          run_try_block_raised)
    moreover have "''pil_error'' \<notin> fst ` set (extract_with_exifread e p)"
      using keys_extract_with_exifread [of "''pil_error''" e p] by (auto simp: startswith_def)
    ultimately show ?thesis
      by (simp add: m2_def map_of_dict_update_other)
  qed
  have 2: "map_of m2 ''exifread_error'' = Some (VStr (exn_str x))"
    if "EXIFREAD_AVAILABLE e" and "exifread_open e p = Inl x"
    using that by (simp add: m2_def extract_with_exifread_def map_of_dict_set)
  from md 1 2 show ?thesis by blast
qed

lemma audio_extract_errors:
  assumes st: "os_stat e p = Inr st"
  shows "\<exists>md. audio_extract e p = Inr md
     \<and> (MUTAGEN_AVAILABLE e \<and> raised (mutagen_block e p) = Some x \<longrightarrow>
          map_of md ''mutagen_error'' = Some (VStr (exn_str x)))
     \<and> (TINYTAG_AVAILABLE e \<and> TinyTag_get e p = Inl x \<longrightarrow>
          map_of md ''tinytag_error'' = Some (VStr (exn_str x)))"
proof -
  obtain info where info: "get_basic_info e p = Inr info"
    using basic_info_stat [OF st] by blast
  define m1 where "m1 = (if MUTAGEN_AVAILABLE e
      then dict_update (dict_update [] info) (extract_with_mutagen e p) else dict_update [] info)"
  define m2 where "m2 = (if TINYTAG_AVAILABLE e
      then dict_update m1 (extract_with_tinytag e p) else m1)"
  have md: "audio_extract e p = Inr m2"
    by (simp add: audio_extract_def info Let_def m1_def m2_def)
  have 1: "map_of m2 ''mutagen_error'' = Some (VStr (exn_str x))"
    if "MUTAGEN_AVAILABLE e" and "raised (mutagen_block e p) = Some x"
  proof -
    have "map_of m1 ''mutagen_error'' = Some (VStr (exn_str x))"
      using that
      by (simp add: m1_def extract_with_mutagen_def map_of_dict_update_in
          distinct_run_try_block run_try_block_raised)
    moreover have "''mutagen_error'' \<notin> fst ` set (extract_with_tinytag e p)"
      using keys_extract_with_tinytag [of "''mutagen_error''" e p]
      by (auto simp: startswith_def)
    ultimately show ?thesis
      by (simp add: m2_def map_of_dict_update_other)
  qed
  have 2: "map_of m2 ''tinytag_error'' = Some (VStr (exn_str x))"
    if "TINYTAG_AVAILABLE e" and "TinyTag_get e p = Inl x"
    using that by (simp add: m2_def extract_with_tinytag_def map_of_dict_set)
  from md 1 2 show ?thesis by blast
qed

lemma distinct_extract_with_ffprobe: "distinct (map fst (extract_with_ffprobe e p))"
  by (simp add: extract_with_ffprobe_def Let_def distinct_dict_set distinct_dict_update
      split: option.splits py_exn.splits)

lemma extract_with_ffprobe_nonempty:
  "raised (ffprobe_block e p) = Some x \<Longrightarrow> extract_with_ffprobe e p \<noteq> []"
proof -
  have ne: "dict_set d k v \<noteq> []" for d :: metadata and k v
    by (cases d) (auto split: if_splits)
  assume "raised (ffprobe_block e p) = Some x"
  then show ?thesis
    by (cases x) (simp_all add: extract_with_ffprobe_def Let_def ne)
qed

lemma extract_with_ffprobe_raised:
  assumes "raised (ffprobe_block e p) = Some x"
  shows "((\<exists>m. x = FileNotFoundError m) \<longrightarrow>
            map_of (extract_with_ffprobe e p) ''ffprobe_note''
              = Some (VStr ''ffprobe not found (install FFmpeg for detailed video metadata)''))
       \<and> ((\<exists>m. x = TimeoutExpired m) \<longrightarrow>
            map_of (extract_with_ffprobe e p) ''ffprobe_error''
              = Some (VStr ''Timeout while processing video''))
       \<and> ((\<forall>m. x \<noteq> FileNotFoundError m) \<and> (\<forall>m. x \<noteq> TimeoutExpired m) \<longrightarrow>
            map_of (extract_with_ffprobe e p) ''ffprobe_error'' = Some (VStr (exn_str x)))"
  using assms
  by (cases x) (simp_all add: extract_with_ffprobe_def Let_def map_of_dict_set)

lemma video_extract_errors:
  assumes st: "os_stat e p = Inr st"
  shows "\<exists>md. video_extract e p = Inr md
     \<and> (raised (ffprobe_block e p) = Some x \<and> (\<exists>m. x = FileNotFoundError m) \<longrightarrow>
          map_of md ''ffprobe_note''
            = Some (VStr ''ffprobe not found (install FFmpeg for detailed video metadata)''))
     \<and> (raised (ffprobe_block e p) = Some x \<and> (\<exists>m. x = TimeoutExpired m) \<longrightarrow>
          map_of md ''ffprobe_error'' = Some (VStr ''Timeout while processing video''))
     \<and> (raised (ffprobe_block e p) = Some x
          \<and> (\<forall>m. x \<noteq> FileNotFoundError m) \<and> (\<forall>m. x \<noteq> TimeoutExpired m) \<longrightarrow>
          map_of md ''ffprobe_error'' = Some (VStr (exn_str x)))
     \<and> (HACHOIR_AVAILABLE e \<and> hachoir_exception e p = Some x \<longrightarrow>
          map_of md ''hachoir_error'' = Some (VStr (exn_str x)))"
proof -
  obtain info where info: "get_basic_info e p = Inr info"
    using basic_info_stat [OF st] by blast
  define m1 where "m1 = (if extract_with_ffprobe e p \<noteq> []
      then dict_update (dict_update [] info) (extract_with_ffprobe e p) else dict_update [] info)"
  define m2 where "m2 = (if HACHOIR_AVAILABLE e
      then dict_update m1 (extract_with_hachoir e p) else m1)"
  have md: "video_extract e p = Inr m2"
    by (simp add: video_extract_def info Let_def m1_def m2_def)
  have skip: "map_of m2 k = map_of m1 k" if "\<not> startswith k ''hachoir_''" for k
  proof -
    have "k \<notin> fst ` set (extract_with_hachoir e p)"
      using keys_extract_with_hachoir that by blast
    then show ?thesis
      by (simp add: m2_def map_of_dict_update_other)
  qed
  have m1k: "map_of m1 k = Some v"
    if "raised (ffprobe_block e p) = Some x" and "map_of (extract_with_ffprobe e p) k = Some v"
    for k v
    using that extract_with_ffprobe_nonempty [of e p x]
    by (simp add: m1_def map_of_dict_update_in distinct_extract_with_ffprobe
        del: map_of_eq_Some_iff)
  have n1: "\<not> startswith ''ffprobe_note'' ''hachoir_''"
    by (simp add: startswith_def)
  have n2: "\<not> startswith ''ffprobe_error'' ''hachoir_''"
    by (simp add: startswith_def)
  have 1: "map_of m2 ''ffprobe_note''
      = Some (VStr ''ffprobe not found (install FFmpeg for detailed video metadata)'')"
    if "raised (ffprobe_block e p) = Some x" and "\<exists>m. x = FileNotFoundError m"
    using that extract_with_ffprobe_raised [of e p x] m1k skip [OF n1] by simp
  have 2: "map_of m2 ''ffprobe_error'' = Some (VStr ''Timeout while processing video'')"
    if "raised (ffprobe_block e p) = Some x" and "\<exists>m. x = TimeoutExpired m"
    using that extract_with_ffprobe_raised [of e p x] m1k skip [OF n2] by simp
  have 3: "map_of m2 ''ffprobe_error'' = Some (VStr (exn_str x))"
    if "raised (ffprobe_block e p) = Some x"
      and "(\<forall>m. x \<noteq> FileNotFoundError m) \<and> (\<forall>m. x \<noteq> TimeoutExpired m)"
    using that extract_with_ffprobe_raised [of e p x] m1k skip [OF n2] by simp
  have 4: "map_of m2 ''hachoir_error'' = Some (VStr (exn_str x))"
    if "HACHOIR_AVAILABLE e" and "hachoir_exception e p = Some x"
    using that
    by (simp add: m2_def map_of_dict_update_in distinct_extract_with_hachoir
        hachoir_exception_recorded)
  from md 1 2 3 4 show ?thesis by blast
qed

lemma distinct_pdf_other_fields:
  "distinct (map fst md) \<Longrightarrow> distinct (map fst (pdf_other_fields md meta))"
  by (induction md meta rule: pdf_other_fields.induct) (simp_all add: distinct_dict_set)

lemma distinct_extract_pdf: "distinct (map fst (extract_pdf e p))"
  by (simp add: extract_pdf_def pdf_info_fields_def Let_def distinct_dict_set
      distinct_pdf_other_fields split: sum.splits option.splits list.splits)

lemma pdf_exception_recorded:
  assumes "pdf_exception e p = Some x"
  shows "map_of (extract_pdf e p) ''pdf_error'' = Some (VStr (exn_str x))"
  using assms
  by (auto simp: pdf_exception_def extract_pdf_def Let_def map_of_dict_set
      split: sum.splits option.splits list.splits)

lemma document_extract_errors:
  assumes st: "os_stat e p = Inr st"
  shows "\<exists>md. document_extract e p = Inr md
     \<and> (py_lower (snd (splitext p)) = ''.pdf'' \<and> PYPDF2_AVAILABLE e
          \<and> pdf_exception e p = Some x \<longrightarrow>
          map_of md ''pdf_error'' = Some (VStr (exn_str x)))
     \<and> (py_lower (snd (splitext p)) \<in> set [''.docx'', ''.doc''] \<and> DOCX_AVAILABLE e
          \<and> docx_open e p = Inl x \<longrightarrow>
          map_of md ''docx_error'' = Some (VStr (exn_str x)))
     \<and> (py_lower (snd (splitext p)) = ''.txt'' \<and> open_rb e p = Inl x \<longrightarrow>
          map_of md ''txt_error'' = Some (VStr (exn_str x)))"
proof -
  obtain info where info: "get_basic_info e p = Inr info"
    using basic_info_stat [OF st] by blast
  define ext where "ext = py_lower (snd (splitext p))"
  define md where "md =
     (if ext = ''.pdf'' \<and> PYPDF2_AVAILABLE e
        then dict_update (dict_update [] info) (extract_pdf e p)
      else if ext \<in> set [''.docx'', ''.doc''] \<and> DOCX_AVAILABLE e
        then dict_update (dict_update [] info) (extract_docx e p)
      else if ext = ''.txt'' then dict_update (dict_update [] info) (extract_txt e p)
      else dict_set (dict_update [] info) ''note''
             (VStr (''No specific extractor for '' @ ext @ '' files'')))"
  have eq: "document_extract e p = Inr md"
    by (simp add: document_extract_def info Let_def md_def ext_def)
  have 1: "map_of md ''pdf_error'' = Some (VStr (exn_str x))"
    if "ext = ''.pdf'' \<and> PYPDF2_AVAILABLE e \<and> pdf_exception e p = Some x"
    using that
    by (simp add: md_def map_of_dict_update_in distinct_extract_pdf pdf_exception_recorded)
  have 2: "map_of md ''docx_error'' = Some (VStr (exn_str x))"
    if "ext \<in> set [''.docx'', ''.doc''] \<and> DOCX_AVAILABLE e \<and> docx_open e p = Inl x"
    using that by (auto simp: md_def extract_docx_def map_of_dict_set)
  have 3: "map_of md ''txt_error'' = Some (VStr (exn_str x))"
    if "ext = ''.txt'' \<and> open_rb e p = Inl x"
    using that by (simp add: md_def extract_txt_def map_of_dict_set)
  from eq 1 2 3 show ?thesis
    unfolding ext_def by blast
qed

lemma archive_extract_errors:
  assumes st: "os_stat e p = Inr st"
  shows "\<exists>md. archive_extract e p = Inr md
     \<and> (py_lower (snd (splitext p)) = ''.zip'' \<and> zip_open e p = Inl x \<longrightarrow>
          map_of md ''zip_error'' = Some (VStr (exn_str x)))
     \<and> (py_lower (snd (splitext p)) \<in> set [''.tar'', ''.gz'', ''.bz2'', ''.xz'']
          \<and> tar_open e p = Inl x \<longrightarrow>
          map_of md ''tar_error'' = Some (VStr (exn_str x)))
     \<and> (py_lower (snd (splitext p)) = ''.7z'' \<and> PY7ZR_AVAILABLE e
          \<and> sevenzip_open e p = Inl x \<longrightarrow>
          map_of md ''7z_error'' = Some (VStr (exn_str x)))"
proof -
  obtain info where info: "get_basic_info e p = Inr info"
    using basic_info_stat [OF st] by blast
  define ext where "ext = py_lower (snd (splitext p))"
  define md where "md =
     (if ext = ''.zip'' then dict_update (dict_update [] info) (extract_zip e p)
      else if ext \<in> set [''.tar'', ''.gz'', ''.bz2'', ''.xz'']
        then dict_update (dict_update [] info) (extract_tar e p)
      else if ext = ''.7z'' \<and> PY7ZR_AVAILABLE e
        then dict_update (dict_update [] info) (extract_7z e p)
      else dict_set (dict_update [] info) ''note''
             (VStr (''No specific extractor for '' @ ext @ '' archives'')))"
  have eq: "archive_extract e p = Inr md"
    by (simp add: archive_extract_def info Let_def md_def ext_def)
  have 1: "map_of md ''zip_error'' = Some (VStr (exn_str x))"
    if "ext = ''.zip'' \<and> zip_open e p = Inl x"
    using that by (simp add: md_def extract_zip_def map_of_dict_set)
  have 2: "map_of md ''tar_error'' = Some (VStr (exn_str x))"
    if "ext \<in> set [''.tar'', ''.gz'', ''.bz2'', ''.xz''] \<and> tar_open e p = Inl x"
    using that by (auto simp: md_def extract_tar_def map_of_dict_set)
  have 3: "map_of md ''7z_error'' = Some (VStr (exn_str x))"
    if "ext = ''.7z'' \<and> PY7ZR_AVAILABLE e \<and> sevenzip_open e p = Inl x"
    using that by (simp add: md_def extract_7z_def map_of_dict_set)
  from eq 1 2 3 show ?thesis
    unfolding ext_def by blast
qed

lemma get_metadata_stat_fails:
  assumes "os_stat e p = Inl x"
  shows "get_metadata e p c = Inl x"
  using assms
  by (simp add: get_metadata_def image_extract_def audio_extract_def video_extract_def
      document_extract_def archive_extract_def generic_extract_def get_basic_info_def
      generic_get_basic_info_def)

lemma get_metadata_stat_ok:
  assumes "os_stat e p = Inr st"
  shows "\<exists>md. get_metadata e p c = Inr md"
proof -
  obtain info where info: "get_basic_info e p = Inr info"
    using basic_info_stat [OF assms] by blast
  obtain ginfo where ginfo: "generic_get_basic_info e p = Inr ginfo"
    using generic_basic_info_stat [OF assms] by blast
  show ?thesis
    by (simp add: get_metadata_def image_extract_def audio_extract_def video_extract_def
        document_extract_def archive_extract_def generic_extract_def info ginfo Let_def)
qed

lemma broken_stat: "os_stat broken_env p = Inr (regular_file 5 (Inl denied))"
  by (simp add: os_stat_def broken_env_def)

lemma broken_bytes: "file_bytes (regular_file 5 (Inl denied)) = Inl denied"
  by (simp add: regular_file_def)

lemma broken_open: "open_rb broken_env p = Inl denied"
  by (simp add: open_rb_def broken_env_def regular_file_def)

lemma broken_size: "st_size (regular_file 5 (Inl denied)) \<le> max_size_default"
  by (simp add: regular_file_def max_size_default_def)

lemma hello_stat: "os_stat hello_env ''/tmp/hello.bin'' = Inr (regular_file 5 (Inr ''hello''))"
  by (simp add: os_stat_def hello_env_def with_file_def)

lemma hello_bytes: "file_bytes (regular_file 5 (Inr ''hello'')) = Inr ''hello''"
  by (simp add: regular_file_def)

lemma json_fail_stat:
  "os_stat json_fail_env ''/tmp/hello.bin'' = Inr (regular_file 5 (Inr ''hello''))"
  by (simp add: os_stat_def json_fail_env_def hello_env_def with_file_def)

text \<open>
  Claim C1, as it is worded: for every category and every input path, the operation
  returns a metadata map and does not raise, a failure of the file-status lookup being
  recorded as an \<open>_error\<close> key. On a path that does not exist, \<open>os.stat\<close> raises
  \<open>FileNotFoundError\<close> in \<open>get_basic_info\<close>, which no backend calls inside a
  \<open>try\<close>: the exception leaves \<open>extract\<close> and no map is returned.
\<close>

theorem extract_missing_file_counterexample:
  "generic_extract bare_env ''/tmp/missing.bin'' = Inl (enoent ''/tmp/missing.bin'')
   \<and> get_metadata bare_env ''/tmp/missing.bin'' ''other'' = Inl (enoent ''/tmp/missing.bin'')"
  by (simp add: get_metadata_def generic_extract_def generic_get_basic_info_def os_stat_def
      bare_env_def)

text \<open>
  Claim C1, amended: when the initial \<open>os.stat\<close> fails, its exception leaves the
  operation, for every category. When it succeeds, on a file whose content is a finite
  byte string or cannot be opened, the operation returns a metadata map for every
  category, and each of the six backends records the failure of each later stage under
  the key of that stage: \<open>header_error\<close>, \<open>hash_error\<close> and \<open>hachoir_error\<close>
  (generic); \<open>pil_error\<close> and \<open>exifread_error\<close> (image); \<open>mutagen_error\<close> and
  \<open>tinytag_error\<close> (audio); \<open>ffprobe_error\<close> and \<open>hachoir_error\<close> (video), a missing
  \<open>ffprobe\<close> program being recorded as \<open>ffprobe_note\<close> and a timeout with a fixed
  message; \<open>pdf_error\<close>, \<open>docx_error\<close> and \<open>txt_error\<close> (document); \<open>zip_error\<close>,
  \<open>tar_error\<close> and \<open>7z_error\<close> (archive).
\<close>

theorem extract_total_after_stat:
  "(os_stat e p = Inl x \<longrightarrow> get_metadata e p c = Inl x)
   \<and> (os_stat e p = Inr st \<and> (file_bytes st = Inr b \<or> file_bytes st = Inl y) \<longrightarrow>
       (\<exists>md. get_metadata e p c = Inr md)
       \<and> (\<exists>md. generic_extract e p = Inr md
            \<and> (open_rb e p = Inl x \<longrightarrow>
                 map_of md ''header_error'' = Some (VStr (exn_str x))
                 \<and> (st_size st \<le> max_size_default \<longrightarrow>
                      map_of md ''hash_error'' = Some (VStr (exn_str x))))
            \<and> (HACHOIR_AVAILABLE e \<and> hachoir_exception e p = Some x \<longrightarrow>
                 map_of md ''hachoir_error'' = Some (VStr (exn_str x))))
       \<and> (\<exists>md. image_extract e p = Inr md
            \<and> (PIL_AVAILABLE e \<and> raised (pil_block e p) = Some x \<longrightarrow>
                 map_of md ''pil_error'' = Some (VStr (exn_str x)))
            \<and> (EXIFREAD_AVAILABLE e \<and> exifread_open e p = Inl x \<longrightarrow>
                 map_of md ''exifread_error'' = Some (VStr (exn_str x))))
       \<and> (\<exists>md. audio_extract e p = Inr md
            \<and> (MUTAGEN_AVAILABLE e \<and> raised (mutagen_block e p) = Some x \<longrightarrow>
                 map_of md ''mutagen_error'' = Some (VStr (exn_str x)))
            \<and> (TINYTAG_AVAILABLE e \<and> TinyTag_get e p = Inl x \<longrightarrow>
                 map_of md ''tinytag_error'' = Some (VStr (exn_str x))))
       \<and> (\<exists>md. video_extract e p = Inr md
            \<and> (raised (ffprobe_block e p) = Some x \<and> (\<exists>m. x = FileNotFoundError m) \<longrightarrow>
                 map_of md ''ffprobe_note''
                   = Some (VStr ''ffprobe not found (install FFmpeg for detailed video metadata)''))
            \<and> (raised (ffprobe_block e p) = Some x \<and> (\<exists>m. x = TimeoutExpired m) \<longrightarrow>
                 map_of md ''ffprobe_error'' = Some (VStr ''Timeout while processing video''))
            \<and> (raised (ffprobe_block e p) = Some x
                 \<and> (\<forall>m. x \<noteq> FileNotFoundError m) \<and> (\<forall>m. x \<noteq> TimeoutExpired m) \<longrightarrow>
                 map_of md ''ffprobe_error'' = Some (VStr (exn_str x)))
            \<and> (HACHOIR_AVAILABLE e \<and> hachoir_exception e p = Some x \<longrightarrow>
                 map_of md ''hachoir_error'' = Some (VStr (exn_str x))))
       \<and> (\<exists>md. document_extract e p = Inr md
            \<and> (py_lower (snd (splitext p)) = ''.pdf'' \<and> PYPDF2_AVAILABLE e
                 \<and> pdf_exception e p = Some x \<longrightarrow>
                 map_of md ''pdf_error'' = Some (VStr (exn_str x)))
            \<and> (py_lower (snd (splitext p)) \<in> set [''.docx'', ''.doc''] \<and> DOCX_AVAILABLE e
                 \<and> docx_open e p = Inl x \<longrightarrow>
                 map_of md ''docx_error'' = Some (VStr (exn_str x)))
            \<and> (py_lower (snd (splitext p)) = ''.txt'' \<and> open_rb e p = Inl x \<longrightarrow>
                 map_of md ''txt_error'' = Some (VStr (exn_str x))))
       \<and> (\<exists>md. archive_extract e p = Inr md
            \<and> (py_lower (snd (splitext p)) = ''.zip'' \<and> zip_open e p = Inl x \<longrightarrow>
                 map_of md ''zip_error'' = Some (VStr (exn_str x)))
            \<and> (py_lower (snd (splitext p)) \<in> set [''.tar'', ''.gz'', ''.bz2'', ''.xz'']
                 \<and> tar_open e p = Inl x \<longrightarrow>
                 map_of md ''tar_error'' = Some (VStr (exn_str x)))
            \<and> (py_lower (snd (splitext p)) = ''.7z'' \<and> PY7ZR_AVAILABLE e
                 \<and> sevenzip_open e p = Inl x \<longrightarrow>
                 map_of md ''7z_error'' = Some (VStr (exn_str x)))))"
proof (rule conjI)
  show "os_stat e p = Inl x \<longrightarrow> get_metadata e p c = Inl x"
    by (simp add: get_metadata_stat_fails)
next
  show "os_stat e p = Inr st \<and> (file_bytes st = Inr b \<or> file_bytes st = Inl y) \<longrightarrow>
       (\<exists>md. get_metadata e p c = Inr md)
       \<and> (\<exists>md. generic_extract e p = Inr md
            \<and> (open_rb e p = Inl x \<longrightarrow>
                 map_of md ''header_error'' = Some (VStr (exn_str x))
                 \<and> (st_size st \<le> max_size_default \<longrightarrow>
                      map_of md ''hash_error'' = Some (VStr (exn_str x))))
            \<and> (HACHOIR_AVAILABLE e \<and> hachoir_exception e p = Some x \<longrightarrow>
                 map_of md ''hachoir_error'' = Some (VStr (exn_str x))))
       \<and> (\<exists>md. image_extract e p = Inr md
            \<and> (PIL_AVAILABLE e \<and> raised (pil_block e p) = Some x \<longrightarrow>
                 map_of md ''pil_error'' = Some (VStr (exn_str x)))
            \<and> (EXIFREAD_AVAILABLE e \<and> exifread_open e p = Inl x \<longrightarrow>
                 map_of md ''exifread_error'' = Some (VStr (exn_str x))))
       \<and> (\<exists>md. audio_extract e p = Inr md
            \<and> (MUTAGEN_AVAILABLE e \<and> raised (mutagen_block e p) = Some x \<longrightarrow>
                 map_of md ''mutagen_error'' = Some (VStr (exn_str x)))
            \<and> (TINYTAG_AVAILABLE e \<and> TinyTag_get e p = Inl x \<longrightarrow>
                 map_of md ''tinytag_error'' = Some (VStr (exn_str x))))
       \<and> (\<exists>md. video_extract e p = Inr md
            \<and> (raised (ffprobe_block e p) = Some x \<and> (\<exists>m. x = FileNotFoundError m) \<longrightarrow>
                 map_of md ''ffprobe_note''
                   = Some (VStr ''ffprobe not found (install FFmpeg for detailed video metadata)''))
            \<and> (raised (ffprobe_block e p) = Some x \<and> (\<exists>m. x = TimeoutExpired m) \<longrightarrow>
                 map_of md ''ffprobe_error'' = Some (VStr ''Timeout while processing video''))
            \<and> (raised (ffprobe_block e p) = Some x
                 \<and> (\<forall>m. x \<noteq> FileNotFoundError m) \<and> (\<forall>m. x \<noteq> TimeoutExpired m) \<longrightarrow>
                 map_of md ''ffprobe_error'' = Some (VStr (exn_str x)))
            \<and> (HACHOIR_AVAILABLE e \<and> hachoir_exception e p = Some x \<longrightarrow>
                 map_of md ''hachoir_error'' = Some (VStr (exn_str x))))
       \<and> (\<exists>md. document_extract e p = Inr md
            \<and> (py_lower (snd (splitext p)) = ''.pdf'' \<and> PYPDF2_AVAILABLE e
                 \<and> pdf_exception e p = Some x \<longrightarrow>
                 map_of md ''pdf_error'' = Some (VStr (exn_str x)))
            \<and> (py_lower (snd (splitext p)) \<in> set [''.docx'', ''.doc''] \<and> DOCX_AVAILABLE e
                 \<and> docx_open e p = Inl x \<longrightarrow>
                 map_of md ''docx_error'' = Some (VStr (exn_str x)))
            \<and> (py_lower (snd (splitext p)) = ''.txt'' \<and> open_rb e p = Inl x \<longrightarrow>
                 map_of md ''txt_error'' = Some (VStr (exn_str x))))
       \<and> (\<exists>md. archive_extract e p = Inr md
            \<and> (py_lower (snd (splitext p)) = ''.zip'' \<and> zip_open e p = Inl x \<longrightarrow>
                 map_of md ''zip_error'' = Some (VStr (exn_str x)))
            \<and> (py_lower (snd (splitext p)) \<in> set [''.tar'', ''.gz'', ''.bz2'', ''.xz'']
                 \<and> tar_open e p = Inl x \<longrightarrow>
                 map_of md ''tar_error'' = Some (VStr (exn_str x)))
            \<and> (py_lower (snd (splitext p)) = ''.7z'' \<and> PY7ZR_AVAILABLE e
                 \<and> sevenzip_open e p = Inl x \<longrightarrow>
                 map_of md ''7z_error'' = Some (VStr (exn_str x))))"
  proof
    assume "os_stat e p = Inr st \<and> (file_bytes st = Inr b \<or> file_bytes st = Inl y)"
    then have st: "os_stat e p = Inr st"
      by simp
    show "(\<exists>md. get_metadata e p c = Inr md)
       \<and> (\<exists>md. generic_extract e p = Inr md
            \<and> (open_rb e p = Inl x \<longrightarrow>
                 map_of md ''header_error'' = Some (VStr (exn_str x))
                 \<and> (st_size st \<le> max_size_default \<longrightarrow>
                      map_of md ''hash_error'' = Some (VStr (exn_str x))))
            \<and> (HACHOIR_AVAILABLE e \<and> hachoir_exception e p = Some x \<longrightarrow>
                 map_of md ''hachoir_error'' = Some (VStr (exn_str x))))
       \<and> (\<exists>md. image_extract e p = Inr md
            \<and> (PIL_AVAILABLE e \<and> raised (pil_block e p) = Some x \<longrightarrow>
                 map_of md ''pil_error'' = Some (VStr (exn_str x)))
            \<and> (EXIFREAD_AVAILABLE e \<and> exifread_open e p = Inl x \<longrightarrow>
                 map_of md ''exifread_error'' = Some (VStr (exn_str x))))
       \<and> (\<exists>md. audio_extract e p = Inr md
            \<and> (MUTAGEN_AVAILABLE e \<and> raised (mutagen_block e p) = Some x \<longrightarrow>
                 map_of md ''mutagen_error'' = Some (VStr (exn_str x)))
            \<and> (TINYTAG_AVAILABLE e \<and> TinyTag_get e p = Inl x \<longrightarrow>
                 map_of md ''tinytag_error'' = Some (VStr (exn_str x))))
       \<and> (\<exists>md. video_extract e p = Inr md
            \<and> (raised (ffprobe_block e p) = Some x \<and> (\<exists>m. x = FileNotFoundError m) \<longrightarrow>
                 map_of md ''ffprobe_note''
                   = Some (VStr ''ffprobe not found (install FFmpeg for detailed video metadata)''))
            \<and> (raised (ffprobe_block e p) = Some x \<and> (\<exists>m. x = TimeoutExpired m) \<longrightarrow>
                 map_of md ''ffprobe_error'' = Some (VStr ''Timeout while processing video''))
            \<and> (raised (ffprobe_block e p) = Some x
                 \<and> (\<forall>m. x \<noteq> FileNotFoundError m) \<and> (\<forall>m. x \<noteq> TimeoutExpired m) \<longrightarrow>
                 map_of md ''ffprobe_error'' = Some (VStr (exn_str x)))
            \<and> (HACHOIR_AVAILABLE e \<and> hachoir_exception e p = Some x \<longrightarrow>
                 map_of md ''hachoir_error'' = Some (VStr (exn_str x))))
       \<and> (\<exists>md. document_extract e p = Inr md
            \<and> (py_lower (snd (splitext p)) = ''.pdf'' \<and> PYPDF2_AVAILABLE e
                 \<and> pdf_exception e p = Some x \<longrightarrow>
                 map_of md ''pdf_error'' = Some (VStr (exn_str x)))
            \<and> (py_lower (snd (splitext p)) \<in> set [''.docx'', ''.doc''] \<and> DOCX_AVAILABLE e
                 \<and> docx_open e p = Inl x \<longrightarrow>
                 map_of md ''docx_error'' = Some (VStr (exn_str x)))
            \<and> (py_lower (snd (splitext p)) = ''.txt'' \<and> open_rb e p = Inl x \<longrightarrow>
                 map_of md ''txt_error'' = Some (VStr (exn_str x))))
       \<and> (\<exists>md. archive_extract e p = Inr md
            \<and> (py_lower (snd (splitext p)) = ''.zip'' \<and> zip_open e p = Inl x \<longrightarrow>
                 map_of md ''zip_error'' = Some (VStr (exn_str x)))
            \<and> (py_lower (snd (splitext p)) \<in> set [''.tar'', ''.gz'', ''.bz2'', ''.xz'']
                 \<and> tar_open e p = Inl x \<longrightarrow>
                 map_of md ''tar_error'' = Some (VStr (exn_str x)))
            \<and> (py_lower (snd (splitext p)) = ''.7z'' \<and> PY7ZR_AVAILABLE e
                 \<and> sevenzip_open e p = Inl x \<longrightarrow>
                 map_of md ''7z_error'' = Some (VStr (exn_str x))))"
      apply (intro conjI)
            apply (rule get_metadata_stat_ok [OF st])
           apply (rule generic_extract_errors [OF st])
          apply (rule image_extract_errors [OF st])
         apply (rule audio_extract_errors [OF st])
        apply (rule video_extract_errors [OF st])
       apply (rule document_extract_errors [OF st])
      apply (rule archive_extract_errors [OF st])
      done
  qed
qed

theorem extract_total_after_stat_witness:
  "get_metadata bare_env ''/tmp/missing.bin'' ''image'' = Inl (enoent ''/tmp/missing.bin'')
   \<and> (\<exists>md. get_metadata hello_env ''/tmp/hello.bin'' ''document'' = Inr md)
   \<and> (\<exists>md. generic_extract broken_env ''/x/a.bin'' = Inr md
        \<and> map_of md ''header_error'' = Some (VStr ''[Errno 13] Permission denied'')
        \<and> map_of md ''hash_error'' = Some (VStr ''[Errno 13] Permission denied''))
   \<and> (\<exists>md. generic_extract broken_env ''/x/a.bin'' = Inr md
        \<and> map_of md ''hachoir_error'' = Some (VStr ''Unable to parse file''))
   \<and> (\<exists>md. image_extract broken_env ''/x/a.jpg'' = Inr md
        \<and> map_of md ''pil_error'' = Some (VStr ''cannot identify image file''))
   \<and> (\<exists>md. image_extract broken_env ''/x/a.jpg'' = Inr md
        \<and> map_of md ''exifread_error'' = Some (VStr ''[Errno 13] Permission denied''))
   \<and> (\<exists>md. audio_extract broken_env ''/x/a.mp3'' = Inr md
        \<and> map_of md ''mutagen_error'' = Some (VStr ''can not open file''))
   \<and> (\<exists>md. audio_extract broken_env ''/x/a.mp3'' = Inr md
        \<and> map_of md ''tinytag_error'' = Some (VStr ''No tag reader found to support file type''))
   \<and> (\<exists>md. video_extract hello_env ''/tmp/hello.bin'' = Inr md
        \<and> map_of md ''ffprobe_note''
            = Some (VStr ''ffprobe not found (install FFmpeg for detailed video metadata)''))
   \<and> (\<exists>md. video_extract broken_env ''/x/a.mp4'' = Inr md
        \<and> map_of md ''ffprobe_error'' = Some (VStr ''Timeout while processing video''))
   \<and> (\<exists>md. video_extract json_fail_env ''/tmp/hello.bin'' = Inr md
        \<and> map_of md ''ffprobe_error'' = Some (VStr ''Expecting value''))
   \<and> (\<exists>md. video_extract broken_env ''/x/a.mp4'' = Inr md
        \<and> map_of md ''hachoir_error'' = Some (VStr ''Unable to parse file''))
   \<and> (\<exists>md. document_extract broken_env ''/x/a.pdf'' = Inr md
        \<and> map_of md ''pdf_error'' = Some (VStr ''[Errno 13] Permission denied''))
   \<and> (\<exists>md. document_extract broken_env ''/x/a.docx'' = Inr md
        \<and> map_of md ''docx_error'' = Some (VStr ''[Errno 13] Permission denied''))
   \<and> (\<exists>md. document_extract broken_env ''/x/a.txt'' = Inr md
        \<and> map_of md ''txt_error'' = Some (VStr ''[Errno 13] Permission denied''))
   \<and> (\<exists>md. archive_extract broken_env ''/x/a.zip'' = Inr md
        \<and> map_of md ''zip_error'' = Some (VStr ''[Errno 13] Permission denied''))
   \<and> (\<exists>md. archive_extract broken_env ''/x/a.tar'' = Inr md
        \<and> map_of md ''tar_error'' = Some (VStr ''[Errno 13] Permission denied''))
   \<and> (\<exists>md. archive_extract broken_env ''/x/a.7z'' = Inr md
        \<and> map_of md ''7z_error'' = Some (VStr ''[Errno 13] Permission denied''))"
proof -
  have sd: "exn_str denied = ''[Errno 13] Permission denied''"
    by (simp add: denied_def)
  have h0: "os_stat bare_env ''/tmp/missing.bin'' = Inl (enoent ''/tmp/missing.bin'')"
    by (simp add: os_stat_def bare_env_def)
  have c0: "get_metadata bare_env ''/tmp/missing.bin'' ''image''
              = Inl (enoent ''/tmp/missing.bin'')"
    using extract_total_after_stat
      [where e = bare_env and p = "''/tmp/missing.bin''" and c = "''image''"
         and x = "enoent ''/tmp/missing.bin''", THEN conjunct1] h0
    by (rule mp)
  have r1h: "os_stat hello_env ''/tmp/hello.bin'' = Inr (regular_file 5 (Inr ''hello''))
           \<and> (file_bytes (regular_file 5 (Inr ''hello'')) = Inr ''hello''
              \<or> file_bytes (regular_file 5 (Inr ''hello'')) = Inl denied)"
    by (simp add: hello_stat hello_bytes)
  have c1: "\<exists>md. get_metadata hello_env ''/tmp/hello.bin'' ''document'' = Inr md"
    using extract_total_after_stat
      [where e = hello_env and p = "''/tmp/hello.bin''" and c = "''document''"
         and st = "regular_file 5 (Inr ''hello'')" and b = "''hello''" and y = denied,
       THEN conjunct2, THEN mp, OF r1h]
    by (rule conjunct1)
  have r2h: "os_stat broken_env ''/x/a.bin'' = Inr (regular_file 5 (Inl denied))
           \<and> (file_bytes (regular_file 5 (Inl denied)) = Inr []
              \<or> file_bytes (regular_file 5 (Inl denied)) = Inl denied)"
    by (simp add: broken_stat broken_bytes)
  note r2 = extract_total_after_stat
      [where e = broken_env and p = "''/x/a.bin''" and x = "denied"
         and st = "regular_file 5 (Inl denied)" and b = "[]" and y = denied,
       THEN conjunct2, THEN mp, OF r2h]
  have c2: "\<exists>md. generic_extract broken_env ''/x/a.bin'' = Inr md
        \<and> map_of md ''header_error'' = Some (VStr (exn_str denied))
        \<and> map_of md ''hash_error'' = Some (VStr (exn_str denied))"
    using r2 [THEN conjunct2, THEN conjunct1] broken_open broken_size
    by blast
  have h3: "HACHOIR_AVAILABLE broken_env
            \<and> hachoir_exception broken_env p = Some (LibraryError ''Unable to parse file'')" for p
    by (simp add: hachoir_exception_def broken_env_def)
  have r3h: "os_stat broken_env ''/x/a.bin'' = Inr (regular_file 5 (Inl denied))
           \<and> (file_bytes (regular_file 5 (Inl denied)) = Inr []
              \<or> file_bytes (regular_file 5 (Inl denied)) = Inl denied)"
    by (simp add: broken_stat broken_bytes)
  note r3 = extract_total_after_stat
      [where e = broken_env and p = "''/x/a.bin''" and x = "LibraryError ''Unable to parse file''"
         and st = "regular_file 5 (Inl denied)" and b = "[]" and y = denied,
       THEN conjunct2, THEN mp, OF r3h]
  have c3: "\<exists>md. generic_extract broken_env ''/x/a.bin'' = Inr md
        \<and> map_of md ''hachoir_error'' = Some (VStr (exn_str (LibraryError ''Unable to parse file'')))"
    using r3 [THEN conjunct2, THEN conjunct1] h3
    by blast
  have h4: "PIL_AVAILABLE broken_env
            \<and> raised (pil_block broken_env p) = Some (LibraryError ''cannot identify image file'')"
    for p
    by (simp add: broken_env_def)
  have r4h: "os_stat broken_env ''/x/a.jpg'' = Inr (regular_file 5 (Inl denied))
           \<and> (file_bytes (regular_file 5 (Inl denied)) = Inr []
              \<or> file_bytes (regular_file 5 (Inl denied)) = Inl denied)"
    by (simp add: broken_stat broken_bytes)
  note r4 = extract_total_after_stat
      [where e = broken_env and p = "''/x/a.jpg''" and x = "LibraryError ''cannot identify image file''"
         and st = "regular_file 5 (Inl denied)" and b = "[]" and y = denied,
       THEN conjunct2, THEN mp, OF r4h]
  have c4: "\<exists>md. image_extract broken_env ''/x/a.jpg'' = Inr md
        \<and> map_of md ''pil_error''
            = Some (VStr (exn_str (LibraryError ''cannot identify image file'')))"
    using r4 [THEN conjunct2, THEN conjunct2, THEN conjunct1] h4
    by blast
  have h5: "EXIFREAD_AVAILABLE broken_env \<and> exifread_open broken_env p = Inl denied" for p
    by (simp add: exifread_open_def broken_open) (simp add: broken_env_def)
  have r5h: "os_stat broken_env ''/x/a.jpg'' = Inr (regular_file 5 (Inl denied))
           \<and> (file_bytes (regular_file 5 (Inl denied)) = Inr []
              \<or> file_bytes (regular_file 5 (Inl denied)) = Inl denied)"
    by (simp add: broken_stat broken_bytes)
  note r5 = extract_total_after_stat
      [where e = broken_env and p = "''/x/a.jpg''" and x = "denied"
         and st = "regular_file 5 (Inl denied)" and b = "[]" and y = denied,
       THEN conjunct2, THEN mp, OF r5h]
  have c5: "\<exists>md. image_extract broken_env ''/x/a.jpg'' = Inr md
        \<and> map_of md ''exifread_error'' = Some (VStr (exn_str denied))"
    using r5 [THEN conjunct2, THEN conjunct2, THEN conjunct1] h5
    by blast
  have h6: "MUTAGEN_AVAILABLE broken_env
            \<and> raised (mutagen_block broken_env p) = Some (LibraryError ''can not open file'')" for p
    by (simp add: broken_env_def)
  have r6h: "os_stat broken_env ''/x/a.mp3'' = Inr (regular_file 5 (Inl denied))
           \<and> (file_bytes (regular_file 5 (Inl denied)) = Inr []
              \<or> file_bytes (regular_file 5 (Inl denied)) = Inl denied)"
    by (simp add: broken_stat broken_bytes)
  note r6 = extract_total_after_stat
      [where e = broken_env and p = "''/x/a.mp3''" and x = "LibraryError ''can not open file''"
         and st = "regular_file 5 (Inl denied)" and b = "[]" and y = denied,
       THEN conjunct2, THEN mp, OF r6h]
  have c6: "\<exists>md. audio_extract broken_env ''/x/a.mp3'' = Inr md
        \<and> map_of md ''mutagen_error'' = Some (VStr (exn_str (LibraryError ''can not open file'')))"
    using r6 [THEN conjunct2, THEN conjunct2, THEN conjunct2, THEN conjunct1] h6
    by blast
  have h7: "TINYTAG_AVAILABLE broken_env
            \<and> TinyTag_get broken_env p
                = Inl (LibraryError ''No tag reader found to support file type'')" for p
    by (simp add: broken_env_def)
  have r7h: "os_stat broken_env ''/x/a.mp3'' = Inr (regular_file 5 (Inl denied))
           \<and> (file_bytes (regular_file 5 (Inl denied)) = Inr []
              \<or> file_bytes (regular_file 5 (Inl denied)) = Inl denied)"
    by (simp add: broken_stat broken_bytes)
  note r7 = extract_total_after_stat
      [where e = broken_env and p = "''/x/a.mp3''" and x = "LibraryError ''No tag reader found to support file type''"
         and st = "regular_file 5 (Inl denied)" and b = "[]" and y = denied,
       THEN conjunct2, THEN mp, OF r7h]
  have c7: "\<exists>md. audio_extract broken_env ''/x/a.mp3'' = Inr md
        \<and> map_of md ''tinytag_error''
            = Some (VStr (exn_str (LibraryError ''No tag reader found to support file type'')))"
    using r7 [THEN conjunct2, THEN conjunct2, THEN conjunct2, THEN conjunct1] h7
    by blast
  have h8: "raised (ffprobe_block hello_env ''/tmp/hello.bin'') = Some (enoent ''ffprobe'')
            \<and> (\<exists>m. enoent ''ffprobe'' = FileNotFoundError m)"
    by (simp add: hello_env_def with_file_def bare_env_def enoent_def)
  have r8h: "os_stat hello_env ''/tmp/hello.bin'' = Inr (regular_file 5 (Inr ''hello''))
           \<and> (file_bytes (regular_file 5 (Inr ''hello'')) = Inr ''hello''
              \<or> file_bytes (regular_file 5 (Inr ''hello'')) = Inl denied)"
    by (simp add: hello_stat hello_bytes)
  note r8 = extract_total_after_stat
      [where e = hello_env and p = "''/tmp/hello.bin''" and x = "enoent ''ffprobe''"
         and st = "regular_file 5 (Inr ''hello'')" and b = "''hello''" and y = denied,
       THEN conjunct2, THEN mp, OF r8h]
  have c8: "\<exists>md. video_extract hello_env ''/tmp/hello.bin'' = Inr md
        \<and> map_of md ''ffprobe_note''
            = Some (VStr ''ffprobe not found (install FFmpeg for detailed video metadata)'')"
    using r8 [THEN conjunct2, THEN conjunct2, THEN conjunct2, THEN conjunct2, THEN conjunct1] h8
    by blast
  have h9: "raised (ffprobe_block broken_env p) = Some (TimeoutExpired ''timed out after 30 seconds'')
            \<and> (\<exists>m. TimeoutExpired ''timed out after 30 seconds'' = TimeoutExpired m)" for p
    by (simp add: broken_env_def)
  have r9h: "os_stat broken_env ''/x/a.mp4'' = Inr (regular_file 5 (Inl denied))
           \<and> (file_bytes (regular_file 5 (Inl denied)) = Inr []
              \<or> file_bytes (regular_file 5 (Inl denied)) = Inl denied)"
    by (simp add: broken_stat broken_bytes)
  note r9 = extract_total_after_stat
      [where e = broken_env and p = "''/x/a.mp4''" and x = "TimeoutExpired ''timed out after 30 seconds''"
         and st = "regular_file 5 (Inl denied)" and b = "[]" and y = denied,
       THEN conjunct2, THEN mp, OF r9h]
  have c9: "\<exists>md. video_extract broken_env ''/x/a.mp4'' = Inr md
        \<and> map_of md ''ffprobe_error'' = Some (VStr ''Timeout while processing video'')"
    using r9 [THEN conjunct2, THEN conjunct2, THEN conjunct2, THEN conjunct2, THEN conjunct1] h9
    by blast
  have h10: "raised (ffprobe_block json_fail_env ''/tmp/hello.bin'')
               = Some (ValueError ''Expecting value'')
             \<and> (\<forall>m. ValueError ''Expecting value'' \<noteq> FileNotFoundError m)
             \<and> (\<forall>m. ValueError ''Expecting value'' \<noteq> TimeoutExpired m)"
    by (simp add: json_fail_env_def)
  have r10h: "os_stat json_fail_env ''/tmp/hello.bin'' = Inr (regular_file 5 (Inr ''hello''))
           \<and> (file_bytes (regular_file 5 (Inr ''hello'')) = Inr ''hello''
              \<or> file_bytes (regular_file 5 (Inr ''hello'')) = Inl denied)"
    by (simp add: json_fail_stat hello_bytes)
  note r10 = extract_total_after_stat
      [where e = json_fail_env and p = "''/tmp/hello.bin''" and x = "ValueError ''Expecting value''"
         and st = "regular_file 5 (Inr ''hello'')" and b = "''hello''" and y = denied,
       THEN conjunct2, THEN mp, OF r10h]
  have c10: "\<exists>md. video_extract json_fail_env ''/tmp/hello.bin'' = Inr md
        \<and> map_of md ''ffprobe_error'' = Some (VStr (exn_str (ValueError ''Expecting value'')))"
    using r10 [THEN conjunct2, THEN conjunct2, THEN conjunct2, THEN conjunct2, THEN conjunct1] h10
    by blast
  have r11h: "os_stat broken_env ''/x/a.mp4'' = Inr (regular_file 5 (Inl denied))
           \<and> (file_bytes (regular_file 5 (Inl denied)) = Inr []
              \<or> file_bytes (regular_file 5 (Inl denied)) = Inl denied)"
    by (simp add: broken_stat broken_bytes)
  note r11 = extract_total_after_stat
      [where e = broken_env and p = "''/x/a.mp4''" and x = "LibraryError ''Unable to parse file''"
         and st = "regular_file 5 (Inl denied)" and b = "[]" and y = denied,
       THEN conjunct2, THEN mp, OF r11h]
  have c11: "\<exists>md. video_extract broken_env ''/x/a.mp4'' = Inr md
        \<and> map_of md ''hachoir_error'' = Some (VStr (exn_str (LibraryError ''Unable to parse file'')))"
    using r11 [THEN conjunct2, THEN conjunct2, THEN conjunct2, THEN conjunct2, THEN conjunct1] h3
    by blast
  have e12: "py_lower (snd (splitext ''/x/a.pdf'')) = ''.pdf''"
    by code_simp
  have h12: "PYPDF2_AVAILABLE broken_env \<and> pdf_exception broken_env p = Some denied" for p
    by (simp add: pdf_exception_def pdf_open_def broken_open) (simp add: broken_env_def)
  have r12h: "os_stat broken_env ''/x/a.pdf'' = Inr (regular_file 5 (Inl denied))
           \<and> (file_bytes (regular_file 5 (Inl denied)) = Inr []
              \<or> file_bytes (regular_file 5 (Inl denied)) = Inl denied)"
    by (simp add: broken_stat broken_bytes)
  note r12 = extract_total_after_stat
      [where e = broken_env and p = "''/x/a.pdf''" and x = "denied"
         and st = "regular_file 5 (Inl denied)" and b = "[]" and y = denied,
       THEN conjunct2, THEN mp, OF r12h]
  have c12: "\<exists>md. document_extract broken_env ''/x/a.pdf'' = Inr md
        \<and> map_of md ''pdf_error'' = Some (VStr (exn_str denied))"
    using r12 [THEN conjunct2, THEN conjunct2, THEN conjunct2, THEN conjunct2, THEN conjunct2, THEN conjunct1] e12 h12
    by blast
  have e13: "py_lower (snd (splitext ''/x/a.docx'')) \<in> set [''.docx'', ''.doc'']"
    by code_simp
  have h13: "DOCX_AVAILABLE broken_env \<and> docx_open broken_env p = Inl denied" for p
    by (simp add: docx_open_def broken_open) (simp add: broken_env_def)
  have r13h: "os_stat broken_env ''/x/a.docx'' = Inr (regular_file 5 (Inl denied))
           \<and> (file_bytes (regular_file 5 (Inl denied)) = Inr []
              \<or> file_bytes (regular_file 5 (Inl denied)) = Inl denied)"
    by (simp add: broken_stat broken_bytes)
  note r13 = extract_total_after_stat
      [where e = broken_env and p = "''/x/a.docx''" and x = "denied"
         and st = "regular_file 5 (Inl denied)" and b = "[]" and y = denied,
       THEN conjunct2, THEN mp, OF r13h]
  have c13: "\<exists>md. document_extract broken_env ''/x/a.docx'' = Inr md
        \<and> map_of md ''docx_error'' = Some (VStr (exn_str denied))"
    using r13 [THEN conjunct2, THEN conjunct2, THEN conjunct2, THEN conjunct2, THEN conjunct2, THEN conjunct1] e13 h13
    by blast
  have e14: "py_lower (snd (splitext ''/x/a.txt'')) = ''.txt''"
    by code_simp
  have r14h: "os_stat broken_env ''/x/a.txt'' = Inr (regular_file 5 (Inl denied))
           \<and> (file_bytes (regular_file 5 (Inl denied)) = Inr []
              \<or> file_bytes (regular_file 5 (Inl denied)) = Inl denied)"
    by (simp add: broken_stat broken_bytes)
  note r14 = extract_total_after_stat
      [where e = broken_env and p = "''/x/a.txt''" and x = "denied"
         and st = "regular_file 5 (Inl denied)" and b = "[]" and y = denied,
       THEN conjunct2, THEN mp, OF r14h]
  have c14: "\<exists>md. document_extract broken_env ''/x/a.txt'' = Inr md
        \<and> map_of md ''txt_error'' = Some (VStr (exn_str denied))"
    using r14 [THEN conjunct2, THEN conjunct2, THEN conjunct2, THEN conjunct2, THEN conjunct2, THEN conjunct1] e14 broken_open
    by blast
  have e15: "py_lower (snd (splitext ''/x/a.zip'')) = ''.zip''"
    by code_simp
  have h15: "zip_open broken_env p = Inl denied" for p
    by (simp add: zip_open_def broken_open)
  have r15h: "os_stat broken_env ''/x/a.zip'' = Inr (regular_file 5 (Inl denied))
           \<and> (file_bytes (regular_file 5 (Inl denied)) = Inr []
              \<or> file_bytes (regular_file 5 (Inl denied)) = Inl denied)"
    by (simp add: broken_stat broken_bytes)
  note r15 = extract_total_after_stat
      [where e = broken_env and p = "''/x/a.zip''" and x = "denied"
         and st = "regular_file 5 (Inl denied)" and b = "[]" and y = denied,
       THEN conjunct2, THEN mp, OF r15h]
  have c15: "\<exists>md. archive_extract broken_env ''/x/a.zip'' = Inr md
        \<and> map_of md ''zip_error'' = Some (VStr (exn_str denied))"
    using r15 [THEN conjunct2, THEN conjunct2, THEN conjunct2, THEN conjunct2, THEN conjunct2, THEN conjunct2] e15 h15
    by blast
  have e16: "py_lower (snd (splitext ''/x/a.tar'')) \<in> set [''.tar'', ''.gz'', ''.bz2'', ''.xz'']"
    by code_simp
  have h16: "tar_open broken_env p = Inl denied" for p
    by (simp add: tar_open_def broken_open)
  have r16h: "os_stat broken_env ''/x/a.tar'' = Inr (regular_file 5 (Inl denied))
           \<and> (file_bytes (regular_file 5 (Inl denied)) = Inr []
              \<or> file_bytes (regular_file 5 (Inl denied)) = Inl denied)"
    by (simp add: broken_stat broken_bytes)
  note r16 = extract_total_after_stat
      [where e = broken_env and p = "''/x/a.tar''" and x = "denied"
         and st = "regular_file 5 (Inl denied)" and b = "[]" and y = denied,
       THEN conjunct2, THEN mp, OF r16h]
  have c16: "\<exists>md. archive_extract broken_env ''/x/a.tar'' = Inr md
        \<and> map_of md ''tar_error'' = Some (VStr (exn_str denied))"
    using r16 [THEN conjunct2, THEN conjunct2, THEN conjunct2, THEN conjunct2, THEN conjunct2, THEN conjunct2] e16 h16
    by blast
  have e17: "py_lower (snd (splitext ''/x/a.7z'')) = ''.7z''"
    by code_simp
  have h17: "PY7ZR_AVAILABLE broken_env \<and> sevenzip_open broken_env p = Inl denied" for p
    by (simp add: sevenzip_open_def broken_open) (simp add: broken_env_def)
  have r17h: "os_stat broken_env ''/x/a.7z'' = Inr (regular_file 5 (Inl denied))
           \<and> (file_bytes (regular_file 5 (Inl denied)) = Inr []
              \<or> file_bytes (regular_file 5 (Inl denied)) = Inl denied)"
    by (simp add: broken_stat broken_bytes)
  note r17 = extract_total_after_stat
      [where e = broken_env and p = "''/x/a.7z''" and x = "denied"
         and st = "regular_file 5 (Inl denied)" and b = "[]" and y = denied,
       THEN conjunct2, THEN mp, OF r17h]
  have c17: "\<exists>md. archive_extract broken_env ''/x/a.7z'' = Inr md
        \<and> map_of md ''7z_error'' = Some (VStr (exn_str denied))"
    using r17 [THEN conjunct2, THEN conjunct2, THEN conjunct2, THEN conjunct2, THEN conjunct2, THEN conjunct2] e17 h17
    by blast
  note cs = c2 [unfolded sd] c3 [unfolded exn_str.simps] c4 [unfolded exn_str.simps]
    c5 [unfolded sd] c6 [unfolded exn_str.simps] c7 [unfolded exn_str.simps] c8 c9
    c10 [unfolded exn_str.simps] c11 [unfolded exn_str.simps] c12 [unfolded sd]
    c13 [unfolded sd] c14 [unfolded sd] c15 [unfolded sd] c16 [unfolded sd] c17 [unfolded sd]
  from c0 c1 cs show ?thesis
    by (intro conjI)
qed

section \<open>The report\<close>

text \<open>
  The lines of the report are the eight header lines, then either the single line that
  says no metadata was found, or one line per key and the four footer lines.
\<close>

lemma join_append:
  "xs \<noteq> [] \<Longrightarrow> ys \<noteq> [] \<Longrightarrow> join sep (xs @ ys) = join sep xs @ sep @ join sep ys"
proof (induction sep xs rule: join.induct)
  case (1 sep)
  then show ?case
    by simp
next
  case (2 sep x)
  then show ?case
    by (cases ys) simp_all
next
  case (3 sep x y ys')
  then show ?case
    by simp
qed

lemma key_line_present:
  assumes "k \<in> fst ` set d"
  shows "key_line d k
         = [py_title (replace_char (CHR ''_'') (CHR '' '') k) @ '': ''
            @ value_str (the (map_of d k))]"
proof -
  from assms obtain v where "map_of d k = Some v"
    by (metis domD dom_map_of_conv_image_fst)
  then show ?thesis
    by (simp add: key_line_def)
qed

lemma concat_key_lines:
  assumes "set ks \<subseteq> fst ` set d"
  shows "concat (map (key_line d) ks)
         = map (\<lambda>k. py_title (replace_char (CHR ''_'') (CHR '' '') k) @ '': ''
                     @ value_str (the (map_of d k))) ks"
  using assms
proof (induction ks)
  case Nil
  then show ?case
    by simp
next
  case (Cons k ks)
  then show ?case
    by (simp add: key_line_present)
qed

lemma body_lines:
  "concat (map (key_line d) (sort (map fst d)))
   = map (\<lambda>k. py_title (replace_char (CHR ''_'') (CHR '' '') k) @ '': ''
               @ value_str (the (map_of d k))) (sort (map fst d))"
  by (rule concat_key_lines) simp

lemma length_keys_card:
  "distinct (map fst d) \<Longrightarrow> length d = card (fst ` set d)"
  by (metis distinct_card length_map list.set_map)

lemma report_lines_nonempty:
  assumes "d \<noteq> []"
  shows "report_lines now d p m
         = header_lines now p m
           @ map (\<lambda>k. py_title (replace_char (CHR ''_'') (CHR '' '') k) @ '': ''
                       @ value_str (the (map_of d k))) (sort (map fst d))
           @ footer_lines (length d)"
  using assms by (simp add: report_lines_def body_lines)

lemma header_lines_nonempty: "header_lines now p m \<noteq> []"
  by (simp add: header_lines_def)

lemma footer_lines_nonempty: "footer_lines n \<noteq> []"
  by (simp add: footer_lines_def)

lemma normalize_metadata_footer:
  assumes "d \<noteq> []"
  shows "normalize_metadata now d p m
         = join [newline]
             (header_lines now p m
              @ map (\<lambda>k. py_title (replace_char (CHR ''_'') (CHR '' '') k) @ '': ''
                          @ value_str (the (map_of d k))) (sort (map fst d)))
           @ [newline] @ join [newline] (footer_lines (length d))"
proof -
  have "header_lines now p m
        @ map (\<lambda>k. py_title (replace_char (CHR ''_'') (CHR '' '') k) @ '': ''
                    @ value_str (the (map_of d k))) (sort (map fst d)) \<noteq> []"
    by (simp add: header_lines_nonempty)
  then have "join [newline]
          ((header_lines now p m
            @ map (\<lambda>k. py_title (replace_char (CHR ''_'') (CHR '' '') k) @ '': ''
                        @ value_str (the (map_of d k))) (sort (map fst d)))
           @ footer_lines (length d))
        = join [newline]
            (header_lines now p m
             @ map (\<lambda>k. py_title (replace_char (CHR ''_'') (CHR '' '') k) @ '': ''
                         @ value_str (the (map_of d k))) (sort (map fst d)))
          @ [newline] @ join [newline] (footer_lines (length d))"
    by (rule join_append [OF _ footer_lines_nonempty])
  then show ?thesis
    unfolding normalize_metadata_def report_lines_nonempty [OF assms] by simp
qed






text \<open>
  Two nested dictionaries with the same entries in another order are rendered
  differently: \<open>format_nested_dict\<close> follows \<open>d.items()\<close> and does not sort. The order
  of the top-level pairs is what the report does not depend on.
\<close>

lemma nested_order_kept:
  "value_str (VDict [(''a'', NLeaf (PInt 1)), (''b'', NLeaf (PInt 2))])
   \<noteq> value_str (VDict [(''b'', NLeaf (PInt 2)), (''a'', NLeaf (PInt 1))])"
  by (simp add: str_int_def str_nat.simps digit_char_def)



text \<open>
  Claim C8, as it is worded: for every metadata map, including the empty one, the report
  ends with a footer stating the total field count. For the empty dictionary the source
  appends the line that says no metadata was found and returns at once: the report ends
  with that line, and no line states a field count.
\<close>

theorem empty_report_has_no_footer:
  "report_lines ''2024-01-01 00:00:00'' [] ''/tmp/a.bin'' ''application/octet-stream''
     = header_lines ''2024-01-01 00:00:00'' ''/tmp/a.bin'' ''application/octet-stream''
       @ [no_metadata_line]
   \<and> last (report_lines ''2024-01-01 00:00:00'' [] ''/tmp/a.bin'' ''application/octet-stream'')
     = no_metadata_line
   \<and> last (report_lines ''2024-01-01 00:00:00'' [] ''/tmp/a.bin'' ''application/octet-stream'')
     \<noteq> last (footer_lines 0)
   \<and> ''Total metadata fields: 0''
     \<notin> set (report_lines ''2024-01-01 00:00:00'' [] ''/tmp/a.bin'' ''application/octet-stream'')"
proof -
  have l: "length no_metadata_line = 56" "length rule80 = 80"
    by (simp_all add: no_metadata_line_def warning_sign_def rule80_def)
  have a: "no_metadata_line \<noteq> rule80"
  proof
    assume "no_metadata_line = rule80"
    then have "length no_metadata_line = length rule80"
      by (rule arg_cong)
    then show False
      unfolding l by simp
  qed
  have b: "''Total metadata fields: 0'' \<noteq> rule80"
  proof
    assume "''Total metadata fields: 0'' = rule80"
    then have "length ''Total metadata fields: 0'' = length rule80"
      by (rule arg_cong)
    then show False
      unfolding l by simp
  qed
  have c: "''Total metadata fields: 0'' \<noteq> no_metadata_line"
  proof
    assume "''Total metadata fields: 0'' = no_metadata_line"
    then have "length ''Total metadata fields: 0'' = length no_metadata_line"
      by (rule arg_cong)
    then show False
      unfolding l by simp
  qed
  show ?thesis
    using a b c by (simp add: report_lines_def header_lines_def footer_lines_def)
qed

text \<open>
  Claim C8, amended: for the empty map the report is the header followed by the single
  explicit line that no metadata was found, with no footer. For every non-empty map the
  report is the header, one body line per key and the footer, whose count line states the
  number of top-level keys of the map (the keys as they are, before the display
  transform); the text of the report ends with the footer.
\<close>

theorem footer_field_count:
  "(d = [] \<longrightarrow>
      report_lines now d p m = header_lines now p m @ [no_metadata_line]
      \<and> normalize_metadata now d p m
          = join [newline] (header_lines now p m) @ [newline] @ no_metadata_line)
   \<and> (d \<noteq> [] \<and> distinct (map fst d) \<longrightarrow>
        (\<exists>body. report_lines now d p m
                  = header_lines now p m @ body @ footer_lines (card (fst ` set d))
               \<and> length body = card (fst ` set d))
        \<and> suffix ([newline] @ join [newline] (footer_lines (card (fst ` set d))))
             (normalize_metadata now d p m))"
proof (intro conjI impI)
  assume "d = []"
  then show "report_lines now d p m = header_lines now p m @ [no_metadata_line]"
    by (simp add: report_lines_def)
next
  assume "d = []"
  then show "normalize_metadata now d p m
             = join [newline] (header_lines now p m) @ [newline] @ no_metadata_line"
    by (simp add: normalize_metadata_def report_lines_def
        join_append [OF header_lines_nonempty])
next
  assume a: "d \<noteq> [] \<and> distinct (map fst d)"
  then have n: "length d = card (fst ` set d)"
    by (simp add: length_keys_card)
  from a have "report_lines now d p m
               = header_lines now p m
                 @ map (\<lambda>k. py_title (replace_char (CHR ''_'') (CHR '' '') k) @ '': ''
                             @ value_str (the (map_of d k))) (sort (map fst d))
                 @ footer_lines (card (fst ` set d))"
    by (simp add: report_lines_nonempty n [symmetric])
  moreover have "length (map (\<lambda>k. py_title (replace_char (CHR ''_'') (CHR '' '') k) @ '': ''
                             @ value_str (the (map_of d k))) (sort (map fst d)))
                 = card (fst ` set d)"
    by (simp add: n [symmetric])
  ultimately show "\<exists>body. report_lines now d p m
                  = header_lines now p m @ body @ footer_lines (card (fst ` set d))
               \<and> length body = card (fst ` set d)"
    by blast
next
  assume a: "d \<noteq> [] \<and> distinct (map fst d)"
  then have n: "length d = card (fst ` set d)"
    by (simp add: length_keys_card)
  from a have "normalize_metadata now d p m
         = join [newline]
             (header_lines now p m
              @ map (\<lambda>k. py_title (replace_char (CHR ''_'') (CHR '' '') k) @ '': ''
                          @ value_str (the (map_of d k))) (sort (map fst d)))
           @ [newline] @ join [newline] (footer_lines (length d))"
    by (simp add: normalize_metadata_footer)
  then show "suffix ([newline] @ join [newline] (footer_lines (card (fst ` set d))))
             (normalize_metadata now d p m)"
    unfolding n [symmetric] by (simp add: suffix_def)
qed

theorem footer_field_count_witness:
  "report_lines ''2024-01-01 00:00:00'' [] ''/tmp/a.bin'' ''text/plain''
     = header_lines ''2024-01-01 00:00:00'' ''/tmp/a.bin'' ''text/plain'' @ [no_metadata_line]
   \<and> (\<exists>body. report_lines ''2024-01-01 00:00:00''
                 [(''a_b'', VInt 1), (''a b'', VInt 2)] ''/tmp/a.bin'' ''text/plain''
               = header_lines ''2024-01-01 00:00:00'' ''/tmp/a.bin'' ''text/plain'' @ body
                 @ [[], rule80, ''Total metadata fields: 2'', rule80]
             \<and> length body = 2)
   \<and> suffix ([newline] @ join [newline] [[], rule80, ''Total metadata fields: 2'', rule80])
        (normalize_metadata ''2024-01-01 00:00:00''
           [(''a_b'', VInt 1), (''a b'', VInt 2)] ''/tmp/a.bin'' ''text/plain'')"
proof -
  have h: "[(''a_b'', VInt 1), (''a b'', VInt 2)] \<noteq> []
           \<and> distinct (map fst [(''a_b'', VInt 1), (''a b'', VInt 2)])"
    by simp
  have k: "card (fst ` set [(''a_b'', VInt 1), (''a b'', VInt 2)]) = 2"
    by simp
  have f: "footer_lines 2 = [[], rule80, ''Total metadata fields: 2'', rule80]"
    by (simp add: footer_lines_def str_nat.simps digit_char_def)
  have e: "report_lines ''2024-01-01 00:00:00'' [] ''/tmp/a.bin'' ''text/plain''
     = header_lines ''2024-01-01 00:00:00'' ''/tmp/a.bin'' ''text/plain'' @ [no_metadata_line]"
    using footer_field_count
      [where d = "[]" and now = "''2024-01-01 00:00:00''" and p = "''/tmp/a.bin''"
         and m = "''text/plain''", THEN conjunct1, THEN mp, OF refl]
    by (rule conjunct1)
  note r = footer_field_count
      [where d = "[(''a_b'', VInt 1), (''a b'', VInt 2)]" and now = "''2024-01-01 00:00:00''"
         and p = "''/tmp/a.bin''" and m = "''text/plain''",
       THEN conjunct2, THEN mp, OF h, unfolded k f]
  show ?thesis
    by (rule conjI [OF e r])
qed

end
